theory Spec2Isabelle
  imports Complex_Main
begin

section \<open>Common ground of the three exercises\<close>

text \<open>
  The repository holds three agent-based models built on the Mesa framework:
  \<^item> \<open>homework\<close>: the spread of an infectious disease (suffix \<open>_hw\<close> below);
  \<^item> \<open>laboratory_2\<close>: the spread of a trend on a cell space (suffix \<open>_l2\<close>);
  \<^item> \<open>laboratory1\<close>: the spread of a trend on a \<open>MultiGrid\<close> (suffix \<open>_l1\<close>).

  Python objects become records, mutation becomes state passing, an exception becomes
  the \<open>Raised\<close> branch of a result that still carries the state reached when it was
  raised. An agent is named by its index in the model's list of agents (registration
  order). Python floats are read as real numbers: the code only compares them and adds
  the constants 0.25 and 0.5. Logging and the data collector only read the state and are
  left out.
\<close>

type_synonym coord = "int \<times> int"

datatype error =
    GridNotInitialized string
  | FrameworkError
  | AttributeError
  | KeyError
  | ZeroDivisionError
  | NotInList

text \<open>
  \<open>GridNotInitialized msg\<close> is the \<open>ValueError\<close> of \<open>check_grid_initialization\<close>
  (its text is "The grid has not been initialized: msg"). \<open>FrameworkError\<close> stands for
  any exception raised inside the Mesa, \<open>random\<close> or numpy libraries; the others are
  the Python run-time errors of the repository's own expressions, \<open>NotInList\<close> being the
  \<open>ValueError\<close> of \<open>list.index\<close> for an element that the list does not hold.
\<close>

datatype 's result = Done 's | Raised error 's

primrec state_of :: "'s result \<Rightarrow> 's" where
  "state_of (Done s) = s"
| "state_of (Raised e s) = s"

primrec raised :: "'s result \<Rightarrow> error option" where
  "raised (Done s) = None"
| "raised (Raised e s) = Some e"

definition and_then :: "'s result \<Rightarrow> ('s \<Rightarrow> 's result) \<Rightarrow> 's result" where
  "and_then r f = (case r of Done s \<Rightarrow> f s | Raised e s \<Rightarrow> Raised e s)"

text \<open>
  \<open>do_each f xs\<close> is a Python \<open>for\<close> loop over a list fixed before the loop starts, and
  \<open>AgentSet.do\<close>: the calls run in order and the first exception ends the loop.
\<close>

fun do_each :: "('a \<Rightarrow> 's \<Rightarrow> 's result) \<Rightarrow> 'a list \<Rightarrow> 's \<Rightarrow> 's result" where
  "do_each f [] s = Done s"
| "do_each f (x # xs) s =
     (case f x s of Done s' \<Rightarrow> do_each f xs s' | Raised e s' \<Rightarrow> Raised e s')"

subsection \<open>The random sources\<close>

text \<open>
  \<open>self.random\<close> is Python's generator, owned by the model. It is an oracle here: a
  stream of the floats that \<open>random()\<close> will return and a stream of raw naturals from
  which \<open>choice\<close> and \<open>randint\<close> take their index. \<open>self.rng\<close> is numpy's generator,
  a stream of raw naturals.
\<close>

record random_source =
  uniforms :: "nat \<Rightarrow> real"
  picks :: "nat \<Rightarrow> nat"

definition random_random :: "random_source \<Rightarrow> real \<times> random_source" where
  "random_random r = (uniforms r 0, r\<lparr>uniforms := \<lambda>n. uniforms r (Suc n)\<rparr>)"

definition random_choice :: "random_source \<Rightarrow> 'a list \<Rightarrow> ('a \<times> random_source) option" where
  "random_choice r xs =
     (if xs = [] then None
      else Some (xs ! (picks r 0 mod length xs), r\<lparr>picks := \<lambda>n. picks r (Suc n)\<rparr>))"

definition random_randint :: "random_source \<Rightarrow> int \<Rightarrow> int \<Rightarrow> (int \<times> random_source) option" where
  "random_randint r a b =
     (if b < a then None
      else Some (a + int (picks r 0 mod nat (b - a + 1)), r\<lparr>picks := \<lambda>n. picks r (Suc n)\<rparr>))"

definition rng_integers :: "(nat \<Rightarrow> nat) \<Rightarrow> int \<Rightarrow> int \<Rightarrow> int \<Rightarrow> (int list \<times> (nat \<Rightarrow> nat)) option" where
  "rng_integers g low high n =
     (if high \<le> low \<or> n < 0 then None
      else Some (map (\<lambda>k. low + int (g k mod nat (high - low))) [0..<nat n],
                 \<lambda>k. g (k + nat n)))"

subsection \<open>The grid\<close>

text \<open>
  Every model builds a torus with von Neumann neighbourhoods. The cells one step away
  from a cell along an axis, wrapped around the border, in the order in which the grids
  visit the four directions:
\<close>

definition von_neumann :: "int \<Rightarrow> int \<Rightarrow> coord \<Rightarrow> coord list" where
  "von_neumann w h c =
     (case c of (x, y) \<Rightarrow>
        [((x - 1) mod w, y), (x, (y - 1) mod h), (x, (y + 1) mod h), ((x + 1) mod w, y)])"

text \<open>
  Both grids collect the neighbours as the keys of a dictionary: a cell reached from two
  directions is held once, at the place of its first occurrence.
\<close>

definition first_occurrences :: "'a list \<Rightarrow> 'a list" where
  "first_occurrences xs = rev (remdups (rev xs))"

text \<open>
  \<open>cell.neighborhood\<close> of \<open>OrthogonalVonNeumannGrid(dims, True)\<close>: the cells that the
  cell is connected to. On a torus of width or height 1 the cell is connected to itself,
  and it is then part of its own neighbourhood. The list is never empty.
\<close>

definition neighborhood :: "int \<Rightarrow> int \<Rightarrow> coord \<Rightarrow> coord list" where
  "neighborhood w h c = first_occurrences (von_neumann w h c)"

text \<open>
  \<open>grid.get_neighborhood(pos, moore=False, include_center=False)\<close> of
  \<open>MultiGrid(w, h, True)\<close>: the same cells, without the cell itself. On a grid of one
  cell the list is empty.
\<close>

definition get_neighborhood :: "int \<Rightarrow> int \<Rightarrow> coord \<Rightarrow> coord list" where
  "get_neighborhood w h c = filter (\<lambda>d. d \<noteq> c) (first_occurrences (von_neumann w h c))"

text \<open>\<open>grid.all_cells.cells\<close>: every coordinate of the grid, once.\<close>

definition all_cells :: "int \<Rightarrow> int \<Rightarrow> coord list" where
  "all_cells w h = List.product [0..w - 1] [0..h - 1]"

subsection \<open>Agents on cells and the model base class\<close>

record cell_agent =
  cell :: "coord option"

record 'p mesa_model =
  running :: bool
  random_py :: random_source
  rng :: "nat \<Rightarrow> nat"
  population_size :: int
  grid_width :: int
  grid_height :: int
  persons :: "'p list"
  cell_agents :: "coord \<Rightarrow> nat list"

text \<open>
  \<open>cell_agents s c\<close> is the list \<open>cell.agents\<close> of the cell \<open>c\<close> (in \<open>laboratory1\<close> the
  list that the \<open>MultiGrid\<close> keeps for the position \<open>c\<close>): the agents on the cell in the
  order of their arrival. An agent that leaves is taken off the list, an agent that
  arrives is appended to it.
\<close>

definition draw_uniform :: "('p, 'm) mesa_model_scheme \<Rightarrow> real \<times> ('p, 'm) mesa_model_scheme" where
  "draw_uniform s = (case random_random (random_py s) of (u, r) \<Rightarrow> (u, s\<lparr>random_py := r\<rparr>))"

text \<open>
  \<open>check_grid_initialization\<close> has the same body in \<open>homework\<close> and \<open>laboratory_2\<close>:
  it raises when \<open>self.cell is None\<close>. The model hands the cell back when it is set.
\<close>

definition check_grid_initialization :: "string \<Rightarrow> 'a cell_agent_scheme \<Rightarrow> error + coord" where
  "check_grid_initialization error_msg a =
     (case cell a of None \<Rightarrow> Inl (GridNotInitialized error_msg) | Some c \<Rightarrow> Inr c)"

text \<open>
  \<open>Cell.remove_agent\<close> and \<open>Cell.add_agent\<close>: \<open>list.remove\<close> takes the first occurrence
  off the list and fails inside the framework when there is none; \<open>list.append\<close> adds
  at the end. The cells are built without a capacity.
\<close>

definition remove_agent :: "nat \<Rightarrow> coord \<Rightarrow> ('p, 'm) mesa_model_scheme
    \<Rightarrow> ('p, 'm) mesa_model_scheme result" where
  "remove_agent i c s =
     (if i \<in> set (cell_agents s c)
      then Done (s\<lparr>cell_agents := (cell_agents s)(c := remove1 i (cell_agents s c))\<rparr>)
      else Raised FrameworkError s)"

definition add_agent :: "nat \<Rightarrow> coord \<Rightarrow> ('p, 'm) mesa_model_scheme \<Rightarrow> ('p, 'm) mesa_model_scheme" where
  "add_agent i c s = s\<lparr>cell_agents := (cell_agents s)(c := cell_agents s c @ [i])\<rparr>"

text \<open>
  The setter of the property \<open>cell\<close> of a \<open>CellAgent\<close>, \<open>agent.cell = c\<close>: the agent leaves
  the cell it is on, if any, takes the new reference and joins the new cell.
\<close>

definition set_cell :: "nat \<Rightarrow> coord \<Rightarrow> ('a cell_agent_scheme, 'm) mesa_model_scheme
    \<Rightarrow> ('a cell_agent_scheme, 'm) mesa_model_scheme result" where
  "set_cell i c s =
     and_then
       (case cell (persons s ! i) of None \<Rightarrow> Done s | Some old \<Rightarrow> remove_agent i old s)
       (\<lambda>s1. Done (add_agent i c (s1\<lparr>persons := (persons s1)[i := (persons s1 ! i)\<lparr>cell := Some c\<rparr>]\<rparr>)))"

text \<open>\<open>move_to(cell)\<close> assigns the property.\<close>

definition move_to :: "nat \<Rightarrow> coord \<Rightarrow> ('a cell_agent_scheme, 'm) mesa_model_scheme
    \<Rightarrow> ('a cell_agent_scheme, 'm) mesa_model_scheme result" where
  "move_to i c s = set_cell i c s"

text \<open>
  \<open>self.move_to(self.cell.neighborhood.select_random_cell())\<close> for the agent \<open>i\<close> on cell
  \<open>c\<close>: the cell is chosen with \<open>random.choice\<close> before the agent moves.
\<close>

definition move_to_random_neighbor :: "nat \<Rightarrow> coord \<Rightarrow> ('a cell_agent_scheme, 'm) mesa_model_scheme
    \<Rightarrow> ('a cell_agent_scheme, 'm) mesa_model_scheme result" where
  "move_to_random_neighbor i c s =
     (case random_choice (random_py s) (neighborhood (grid_width s) (grid_height s) c) of
        None \<Rightarrow> Raised FrameworkError s
      | Some (c', r) \<Rightarrow> move_to i c' (s\<lparr>random_py := r\<rparr>))"

definition create_agents :: "int \<Rightarrow> 'a \<Rightarrow> 'a list" where
  "create_agents n a = replicate (nat n) a"

text \<open>
  The loop of \<open>place_agents_on_grid\<close>, from the agent \<open>i\<close> on: \<open>zip\<close> stops at the
  shortest of the three, and every turn assigns \<open>agent.cell\<close>.
\<close>

fun place :: "nat \<Rightarrow> int list \<Rightarrow> int list \<Rightarrow> ('a cell_agent_scheme, 'm) mesa_model_scheme
    \<Rightarrow> ('a cell_agent_scheme, 'm) mesa_model_scheme result" where
  "place i (x # xs) (y # ys) s =
     (if i < length (persons s)
      then (case set_cell i (x, y) s of
              Done s' \<Rightarrow> place (Suc i) xs ys s'
            | Raised e s' \<Rightarrow> Raised e s')
      else Done s)"
| "place i xs ys s = Done s"

text \<open>
  \<open>self._agents_by_type[PersonAgent]\<close> is an entry of a plain dictionary, which Mesa
  creates when the first agent of the class registers: in a model without persons the
  lookup raises \<open>KeyError\<close>, after both arrays of coordinates have been drawn.
\<close>

definition place_agents_on_grid :: "('a cell_agent_scheme, 'm) mesa_model_scheme
    \<Rightarrow> ('a cell_agent_scheme, 'm) mesa_model_scheme result" where
  "place_agents_on_grid s =
     (case rng_integers (rng s) 0 (grid_width s) (population_size s) of
        None \<Rightarrow> Raised FrameworkError s
      | Some (x_range, g1) \<Rightarrow>
          (case rng_integers g1 0 (grid_height s) (population_size s) of
             None \<Rightarrow> Raised FrameworkError (s\<lparr>rng := g1\<rparr>)
           | Some (y_range, g2) \<Rightarrow>
               if persons s = [] then Raised KeyError (s\<lparr>rng := g2\<rparr>)
               else place 0 x_range y_range (s\<lparr>rng := g2\<rparr>)))"

section \<open>homework: the infectious disease model\<close>

record person_hw = cell_agent +
  is_infected :: bool
  has_comorbidities :: bool
  moving_probability :: real

record cell_properties =
  cell_is_infected :: bool
  virus_persistence :: int

record model_hw = "person_hw mesa_model" +
  infected_population_size :: int
  comorbidities_population_size :: int
  model_moving_probability :: real
  properties :: "coord \<Rightarrow> cell_properties"
  infected_property_layer :: "coord \<Rightarrow> bool"
  direct_infections :: int
  location_infections :: int

definition get_infected :: "nat \<Rightarrow> bool \<Rightarrow> model_hw \<Rightarrow> model_hw" where
  "get_infected j is_direct s =
     (let s1 = s\<lparr>persons := (persons s)[j := (persons s ! j)\<lparr>is_infected := True\<rparr>]\<rparr>
      in if is_direct then s1\<lparr>direct_infections := direct_infections s1 + 1\<rparr>
         else s1\<lparr>location_infections := location_infections s1 + 1\<rparr>)"

definition in_neighbourhood_of_infection :: "nat \<Rightarrow> model_hw \<Rightarrow> error + bool" where
  "in_neighbourhood_of_infection i s =
     (case check_grid_initialization
             ''The agent cannot check if neighbouring cells are infected'' (persons s ! i) of
        Inl e \<Rightarrow> Inl e
      | Inr c \<Rightarrow>
          Inr (list_ex (\<lambda>d. cell_is_infected (properties s d))
                 (neighborhood (grid_width s) (grid_height s) c)))"

definition get_infection_probabilty :: "nat \<Rightarrow> model_hw \<Rightarrow> error + real" where
  "get_infection_probabilty i s =
     (case check_grid_initialization
             ''The agent cannot get infection probability'' (persons s ! i) of
        Inl e \<Rightarrow> Inl e
      | Inr c \<Rightarrow>
          (let infection_probability = (if has_comorbidities (persons s ! i) then 0.25 else 0.0)
           in if cell_is_infected (properties s c) then Inr (infection_probability + 0.5)
              else (case in_neighbourhood_of_infection i s of
                      Inl e \<Rightarrow> Inl e
                    | Inr b \<Rightarrow> if b then Inr (infection_probability + 0.25) else Inr 0.0)))"

text \<open>
  In \<open>get_infected_from_cell\<close> the conjunction is evaluated left to right: no draw is
  made for an infected agent, and the draw is made before the probability is computed.
\<close>

definition get_infected_from_cell :: "nat \<Rightarrow> model_hw \<Rightarrow> model_hw result" where
  "get_infected_from_cell i s =
     (case check_grid_initialization
             ''The agent cannot get infected from the cell.'' (persons s ! i) of
        Inl e \<Rightarrow> Raised e s
      | Inr c \<Rightarrow>
          if \<not> is_infected (persons s ! i) then
            (case draw_uniform s of (u, s1) \<Rightarrow>
               (case get_infection_probabilty i s1 of
                  Inl e \<Rightarrow> Raised e s1
                | Inr p \<Rightarrow> if u < p then Done (get_infected i False s1) else Done s1))
          else Done s)"

definition move_around_hw :: "nat \<Rightarrow> model_hw \<Rightarrow> model_hw result" where
  "move_around_hw i s =
     (case check_grid_initialization
             ''The agent cannot move around the grid.'' (persons s ! i) of
        Inl e \<Rightarrow> Raised e s
      | Inr c \<Rightarrow>
          (case draw_uniform s of (u, s1) \<Rightarrow>
             if u < moving_probability (persons s ! i) then move_to_random_neighbor i c s1
             else Done s1))"

text \<open>One turn of the loop of \<open>spread_virus\<close>, for the encountered agent \<open>j\<close>.\<close>

definition infect_encountered :: "nat \<Rightarrow> model_hw \<Rightarrow> model_hw" where
  "infect_encountered j s =
     (let infection_probability = (if has_comorbidities (persons s ! j) then 0.75 else 0.5 :: real)
      in if \<not> is_infected (persons s ! j) then
           (case draw_uniform s of (u, s1) \<Rightarrow>
              if u < infection_probability then get_infected j True s1 else s1)
         else s)"

definition spread_virus :: "nat \<Rightarrow> model_hw \<Rightarrow> model_hw result" where
  "spread_virus i s =
     (case check_grid_initialization
             ''The agent cannot spread the virus.'' (persons s ! i) of
        Inl e \<Rightarrow> Raised e s
      | Inr c \<Rightarrow>
          if is_infected (persons s ! i) then
            (let s1 = (if \<not> cell_is_infected (properties s c)
                       then s\<lparr>properties := (properties s)(c := (properties s c)\<lparr>cell_is_infected := True\<rparr>)\<rparr>
                       else s);
                 encountered_agents = filter (\<lambda>j. j \<noteq> i) (cell_agents s1 c)
             in Done (fold infect_encountered encountered_agents s1))
          else Done s)"

text \<open>The body of the loop over the cells at the end of \<open>step\<close>.\<close>

definition decay_cell :: "coord \<Rightarrow> model_hw \<Rightarrow> model_hw" where
  "decay_cell c s =
     (if cell_is_infected (properties s c) then
        (let s1 = s\<lparr>infected_property_layer := (infected_property_layer s)(c := True)\<rparr>;
             s2 = (if list_ex (\<lambda>j. is_infected (persons s1 ! j)) (cell_agents s1 c)
                   then s1\<lparr>properties := (properties s1)(c := (properties s1 c)\<lparr>virus_persistence := 0\<rparr>)\<rparr>
                   else s1\<lparr>properties := (properties s1)
                          (c := (properties s1 c)\<lparr>virus_persistence := virus_persistence (properties s1 c) + 1\<rparr>)\<rparr>)
         in if virus_persistence (properties s2 c) > 2 then
              s2\<lparr>properties := (properties s2)(c := \<lparr>cell_is_infected = False, virus_persistence = 0\<rparr>),
                 infected_property_layer := (infected_property_layer s2)(c := False)\<rparr>
            else s2)
      else s)"

text \<open>
  \<open>self._agents_by_type[PersonAgent]\<close>: the persons in the order of registration, which
  is the order in which \<open>do\<close> and \<open>select\<close> visit them. Every model that a constructor
  returns has at least one person, so the entry exists whenever a step runs.
\<close>

definition all_agents :: "('p, 'm) mesa_model_scheme \<Rightarrow> nat list" where
  "all_agents s = [0..<length (persons s)]"

definition step_hw :: "model_hw \<Rightarrow> model_hw result" where
  "step_hw s =
     and_then (do_each move_around_hw (all_agents s) s) (\<lambda>s1.
     and_then (do_each spread_virus (all_agents s1) s1) (\<lambda>s2.
     and_then (do_each get_infected_from_cell (all_agents s2) s2) (\<lambda>s3.
     Done (fold decay_cell (all_cells (grid_width s3) (grid_height s3)) s3))))"

text \<open>The decorator \<open>_stop_condition\<close> applied to \<open>step\<close>.\<close>

definition perform_step_hw :: "model_hw \<Rightarrow> model_hw result" where
  "perform_step_hw s =
     (if length (filter (\<lambda>agent. \<not> is_infected agent) (persons s)) = 0
      then Done (s\<lparr>running := False\<rparr>)
      else step_hw s)"

definition new_person_hw :: "bool \<Rightarrow> bool \<Rightarrow> real \<Rightarrow> person_hw" where
  "new_person_hw infected comorbid p =
     \<lparr>cell = None, is_infected = infected, has_comorbidities = comorbid, moving_probability = p\<rparr>"

definition generate_person_agents_hw :: "model_hw \<Rightarrow> model_hw result" where
  "generate_person_agents_hw s =
     place_agents_on_grid
       (s\<lparr>persons := persons s
            @ create_agents (infected_population_size s)
                (new_person_hw True False (model_moving_probability s))
            @ create_agents (comorbidities_population_size s)
                (new_person_hw False True (model_moving_probability s))
            @ create_agents
                (population_size s - infected_population_size s - comorbidities_population_size s)
                (new_person_hw False False (model_moving_probability s))\<rparr>)"

definition initialize_infected_property_layer :: "model_hw \<Rightarrow> model_hw" where
  "initialize_infected_property_layer s =
     s\<lparr>properties := (\<lambda>c. \<lparr>cell_is_infected = False, virus_persistence = 0\<rparr>),
       infected_property_layer := (\<lambda>c. False)\<rparr>"

text \<open>
  \<open>__init__\<close>: the two generators that Mesa derives from \<open>seed\<close> (from the entropy of
  the system when \<open>seed\<close> is \<open>None\<close>, its default) are arguments. Mesa's
  \<open>Model.__init__\<close> sets \<open>running\<close> to true.
\<close>

definition init_hw :: "int \<Rightarrow> int \<Rightarrow> int \<Rightarrow> real \<Rightarrow> int \<Rightarrow> int \<Rightarrow> random_source \<Rightarrow> (nat \<Rightarrow> nat)
    \<Rightarrow> model_hw result" where
  "init_hw population infected comorbid p w h r g =
     and_then
       (generate_person_agents_hw
          \<lparr>running = True, random_py = r, rng = g, population_size = population,
           grid_width = w, grid_height = h, persons = [], cell_agents = (\<lambda>c. []),
           infected_population_size = infected, comorbidities_population_size = comorbid,
           model_moving_probability = p,
           properties = (\<lambda>c. \<lparr>cell_is_infected = False, virus_persistence = 0\<rparr>),
           infected_property_layer = (\<lambda>c. False),
           direct_infections = 0, location_infections = 0\<rparr>)
       (\<lambda>s. Done (initialize_infected_property_layer s))"

section \<open>laboratory_2: the trend model on a cell space\<close>

record person_l2 = cell_agent +
  sport_enthusiast :: bool
  trend_gossip_counter :: int
  knows_about_trend :: bool
  gossip_prob :: real
  skepticism_prob :: real

record influencer_l2 =
  reached_followers_counter :: int

text \<open>
  \<open>sport_facility\<close> is the entry of that name in the cells' property dictionaries; it is
  absent until \<open>generate_sport_facility_locations\<close> runs, whose call is commented out.
\<close>

record model_l2 = "person_l2 mesa_model" +
  influencer_group_size :: int
  influencers :: "influencer_l2 list"
  direct_interactions_count :: int
  indirect_interactions_count :: int
  successful_direct_interactions_count :: int
  successful_indirect_interactions_count :: int
  sport_facility :: "coord \<Rightarrow> bool option"

text \<open>The argument \<open>agent_id\<close> of \<open>learn_about_trend\<close> is only logged.\<close>

definition learn_about_trend_l2 :: "nat \<Rightarrow> bool \<Rightarrow> model_l2 \<Rightarrow> model_l2" where
  "learn_about_trend_l2 j is_direct s =
     (let s1 = s\<lparr>persons := (persons s)[j := (persons s ! j)
                   \<lparr>trend_gossip_counter := trend_gossip_counter (persons s ! j) + 1\<rparr>]\<rparr>;
          skepticism = (0.2 :: real)
      in case draw_uniform s1 of (u, s2) \<Rightarrow>
           if u > skepticism then
             (let s3 = s2\<lparr>persons := (persons s2)[j := (persons s2 ! j)\<lparr>knows_about_trend := True\<rparr>]\<rparr>
              in if is_direct
                 then s3\<lparr>successful_direct_interactions_count :=
                           successful_direct_interactions_count s3 + 1\<rparr>
                 else s3\<lparr>successful_indirect_interactions_count :=
                           successful_indirect_interactions_count s3 + 1\<rparr>)
           else s2)"

definition move_around_l2 :: "nat \<Rightarrow> model_l2 \<Rightarrow> model_l2 result" where
  "move_around_l2 i s =
     (case check_grid_initialization
             ''The agent cannot move around the grid.'' (persons s ! i) of
        Inl e \<Rightarrow> Raised e s
      | Inr c \<Rightarrow> move_to_random_neighbor i c s)"

definition interact_l2 :: "nat \<Rightarrow> model_l2 \<Rightarrow> model_l2" where
  "interact_l2 j s =
     learn_about_trend_l2 j True (s\<lparr>direct_interactions_count := direct_interactions_count s + 1\<rparr>)"

text \<open>
  One turn of the loop of \<open>spread_news\<close>, agent \<open>i\<close> meeting agent \<open>j\<close>. The condition
  is evaluated left to right: a draw is made only for an agent that does not know the
  trend and is no sport enthusiast.
\<close>

definition gossip_encountered_l2 :: "nat \<Rightarrow> nat \<Rightarrow> model_l2 \<Rightarrow> model_l2" where
  "gossip_encountered_l2 i j s =
     (if \<not> knows_about_trend (persons s ! j) then
        (if sport_enthusiast (persons s ! j) then interact_l2 j s
         else (case draw_uniform s of (u, s1) \<Rightarrow>
                 if u < gossip_prob (persons s1 ! i) then interact_l2 j s1 else s1))
      else s)"

definition spread_news_l2 :: "nat \<Rightarrow> model_l2 \<Rightarrow> model_l2 result" where
  "spread_news_l2 i s =
     (case check_grid_initialization
             ''The agent cannot spread the news.'' (persons s ! i) of
        Inl e \<Rightarrow> Raised e s
      | Inr c \<Rightarrow>
          if knows_about_trend (persons s ! i) then
            (let encountered_agents = filter (\<lambda>j. j \<noteq> i) (cell_agents s c)
             in Done (fold (gossip_encountered_l2 i) encountered_agents s))
          else Done s)"

text \<open>What the influencer \<open>k\<close> does once it has decided to reach the agent \<open>j\<close>.\<close>

definition reach_follower :: "nat \<Rightarrow> nat \<Rightarrow> model_l2 \<Rightarrow> model_l2" where
  "reach_follower k j s =
     learn_about_trend_l2 j False
       (s\<lparr>influencers := (influencers s)[k := (influencers s ! k)
             \<lparr>reached_followers_counter := reached_followers_counter (influencers s ! k) + 1\<rparr>],
          indirect_interactions_count := indirect_interactions_count s + 1\<rparr>)"

definition spread_news_among_random_followers :: "nat \<Rightarrow> nat list \<Rightarrow> model_l2 \<Rightarrow> model_l2" where
  "spread_news_among_random_followers k followers s =
     fold (\<lambda>j s. case draw_uniform s of (u, s1) \<Rightarrow> if u < 0.5 then reach_follower k j s1 else s1)
       followers s"

definition spread_news_on_event :: "nat \<Rightarrow> nat list \<Rightarrow> model_l2 \<Rightarrow> model_l2 result" where
  "spread_news_on_event k event_participants s =
     do_each
       (\<lambda>j s. case cell (persons s ! j) of
                 None \<Rightarrow> Raised AttributeError s
               | Some c \<Rightarrow>
                   (case sport_facility s c of
                      None \<Rightarrow> Raised KeyError s
                    | Some b \<Rightarrow> if b then Done (reach_follower k j s) else Done s))
       event_participants s"

text \<open>
  \<open>AgentSet.groupby\<close>: the groups, keyed by the value of the attribute, in the order in
  which the values first occur.
\<close>

definition groupby :: "('a \<Rightarrow> 'k) \<Rightarrow> 'a list \<Rightarrow> ('k \<times> 'a list) list" where
  "groupby f xs = map (\<lambda>k. (k, filter (\<lambda>x. f x = k) xs)) (rev (remdups (rev (map f xs))))"

definition influencer_agents_step :: "model_l2 \<Rightarrow> model_l2 result" where
  "influencer_agents_step s =
     (let regular_agents = filter (\<lambda>j. \<not> knows_about_trend (persons s ! j)) (all_agents s);
          influencer_agents = [0..<length (influencers s)];
          grouped_regular_agents = groupby (\<lambda>j. sport_enthusiast (persons s ! j)) regular_agents
      in do_each
           (\<lambda>(enthusiast, agents) s'.
              if enthusiast
              then Done (fold (\<lambda>k. spread_news_among_random_followers k agents) influencer_agents s')
              else do_each move_around_l2 agents s')
           grouped_regular_agents s)"

definition step_l2 :: "model_l2 \<Rightarrow> model_l2 result" where
  "step_l2 s =
     and_then (do_each move_around_l2 (all_agents s) s) (\<lambda>s1.
     and_then (do_each spread_news_l2 (all_agents s1) s1) influencer_agents_step)"

definition perform_step_l2 :: "model_l2 \<Rightarrow> model_l2 result" where
  "perform_step_l2 s =
     (if length (filter (\<lambda>agent. \<not> knows_about_trend agent) (persons s)) = 0
      then Done (s\<lparr>running := False\<rparr>)
      else step_l2 s)"

subsection \<open>Reporters\<close>

text \<open>Python's \<open>/\<close> on integers: the quotient as a float, read as a real number.\<close>

definition truediv :: "int \<Rightarrow> int \<Rightarrow> error + real" where
  "truediv a b = (if b = 0 then Inl ZeroDivisionError else Inr (real_of_int a / real_of_int b))"

definition count_agents_knowing_trend :: "model_l2 \<Rightarrow> nat" where
  "count_agents_knowing_trend s = length (filter (\<lambda>agent. knows_about_trend agent) (persons s))"

definition count_all_interactions :: "model_l2 \<Rightarrow> int" where
  "count_all_interactions s = direct_interactions_count s + indirect_interactions_count s"

definition direct_interaction_success_ration :: "model_l2 \<Rightarrow> error + real" where
  "direct_interaction_success_ration s =
     (if direct_interactions_count s = 0 then Inr 0
      else truediv (successful_direct_interactions_count s) (direct_interactions_count s))"

definition indirect_interaction_success_ration :: "model_l2 \<Rightarrow> error + real" where
  "indirect_interaction_success_ration s =
     (if indirect_interactions_count s = 0 then Inr 0
      else truediv (successful_indirect_interactions_count s) (indirect_interactions_count s))"

subsection \<open>Construction\<close>

definition new_person_l2 :: "bool \<Rightarrow> bool \<Rightarrow> real \<Rightarrow> real \<Rightarrow> person_l2" where
  "new_person_l2 enthusiast knows gossip skepticism =
     \<lparr>cell = None, sport_enthusiast = enthusiast, trend_gossip_counter = 0,
      knows_about_trend = knows, gossip_prob = gossip, skepticism_prob = skepticism\<rparr>"

definition generate_person_agents_l2 :: "model_l2 \<Rightarrow> model_l2 result" where
  "generate_person_agents_l2 s =
     (case random_randint (random_py s) 1 (population_size s) of
        None \<Rightarrow> Raised FrameworkError s
      | Some (sport_enthusiasts, r) \<Rightarrow>
          (let non_sport_enthusiasts = population_size s - sport_enthusiasts
           in place_agents_on_grid
                (s\<lparr>random_py := r,
                   persons := persons s
                     @ create_agents sport_enthusiasts (new_person_l2 True False 0.5 0.5)
                     @ create_agents non_sport_enthusiasts (new_person_l2 False False 0.5 0.7)
                     @ [new_person_l2 True True 0.5 0.7],
                   population_size := population_size s + 1\<rparr>)))"

definition generate_influencer_agents_l2 :: "model_l2 \<Rightarrow> model_l2" where
  "generate_influencer_agents_l2 s =
     s\<lparr>influencers := influencers s
          @ create_agents (influencer_group_size s) \<lparr>reached_followers_counter = 0\<rparr>\<rparr>"

text \<open>The argument \<open>sport_facility_number\<close> is not used: the call that reads it is commented out.\<close>

definition init_l2 :: "int \<Rightarrow> int \<Rightarrow> int \<Rightarrow> int \<Rightarrow> int \<Rightarrow> random_source \<Rightarrow> (nat \<Rightarrow> nat)
    \<Rightarrow> model_l2 result" where
  "init_l2 population influencer_group sport_facility_number w h r g =
     and_then
       (generate_person_agents_l2
          \<lparr>running = True, random_py = r, rng = g, population_size = population,
           grid_width = w, grid_height = h, persons = [], cell_agents = (\<lambda>c. []),
           influencer_group_size = influencer_group, influencers = [],
           direct_interactions_count = 0, indirect_interactions_count = 0,
           successful_direct_interactions_count = 0,
           successful_indirect_interactions_count = 0,
           sport_facility = (\<lambda>c. None)\<rparr>)
       (\<lambda>s. Done (generate_influencer_agents_l2 s))"

section \<open>laboratory1: the trend model on a MultiGrid\<close>

text \<open>
  Here an agent holds a reference \<open>grid\<close> to the model's grid (or \<open>None\<close>) and its
  position \<open>pos\<close>, which the grid sets when the agent is placed; the initialization
  check tests \<open>grid\<close>. A grid query at the position \<open>None\<close> fails inside the framework,
  where the position is unpacked into its two coordinates.
\<close>

datatype grid_ref = ModelGrid

record person_l1 =
  grid :: "grid_ref option"
  pos :: "coord option"
  sport_enthusiast_l1 :: bool
  knows_about_trend_l1 :: bool
  gossip_prob_l1 :: real
  skepticism_prob_l1 :: real

record influencer_l1 =
  influencer_grid :: "grid_ref option"

record model_l1 = "person_l1 mesa_model" +
  influencer_group_size_l1 :: int
  influencers_l1 :: "influencer_l1 list"

definition check_grid_initialization_l1 :: "string \<Rightarrow> person_l1 \<Rightarrow> error option" where
  "check_grid_initialization_l1 error_msg a =
     (case grid a of None \<Rightarrow> Some (GridNotInitialized error_msg) | Some g \<Rightarrow> None)"

definition learn_about_trend_l1 :: "nat \<Rightarrow> model_l1 \<Rightarrow> model_l1" where
  "learn_about_trend_l1 j s =
     (case draw_uniform s of (u, s1) \<Rightarrow>
        if u < skepticism_prob_l1 (persons s1 ! j)
        then s1\<lparr>persons := (persons s1)[j := (persons s1 ! j)\<lparr>knows_about_trend_l1 := True\<rparr>]\<rparr>
        else s1)"

text \<open>
  \<open>MultiGrid.remove_agent\<close> takes the agent off the list of its position and sets the
  position to \<open>None\<close>; \<open>MultiGrid.place_agent\<close> appends the agent to the list of the new
  position and sets the position, unless the agent has a position and is on that list
  already; \<open>move_agent\<close> does the one after the other.
\<close>

definition remove_agent_l1 :: "nat \<Rightarrow> model_l1 \<Rightarrow> model_l1 result" where
  "remove_agent_l1 i s =
     (case pos (persons s ! i) of
        None \<Rightarrow> Raised FrameworkError s
      | Some c \<Rightarrow>
          and_then (remove_agent i c s)
            (\<lambda>s1. Done (s1\<lparr>persons := (persons s1)[i := (persons s1 ! i)\<lparr>pos := None\<rparr>]\<rparr>)))"

definition place_agent :: "nat \<Rightarrow> coord \<Rightarrow> model_l1 \<Rightarrow> model_l1" where
  "place_agent i c s =
     (if pos (persons s ! i) = None \<or> i \<notin> set (cell_agents s c)
      then add_agent i c (s\<lparr>persons := (persons s)[i := (persons s ! i)\<lparr>pos := Some c\<rparr>]\<rparr>)
      else s)"

definition move_agent :: "nat \<Rightarrow> coord \<Rightarrow> model_l1 \<Rightarrow> model_l1 result" where
  "move_agent i c s = and_then (remove_agent_l1 i s) (\<lambda>s1. Done (place_agent i c s1))"

text \<open>
  \<open>move_agent_to_one_of(self, positions, handle_empty='error')\<close> raises when there is
  no position to choose from and moves the agent to \<open>random.choice(positions)\<close> otherwise.
\<close>

definition move_around_l1 :: "nat \<Rightarrow> model_l1 \<Rightarrow> model_l1 result" where
  "move_around_l1 i s =
     (case check_grid_initialization_l1
             ''The agent cannot move around the grid.'' (persons s ! i) of
        Some e \<Rightarrow> Raised e s
      | None \<Rightarrow>
          (case pos (persons s ! i) of
             None \<Rightarrow> Raised FrameworkError s
           | Some c \<Rightarrow>
               (case random_choice (random_py s) (get_neighborhood (grid_width s) (grid_height s) c) of
                  None \<Rightarrow> Raised FrameworkError s
                | Some (c', r) \<Rightarrow> move_agent i c' (s\<lparr>random_py := r\<rparr>))))"

definition gossip_encountered_l1 :: "nat \<Rightarrow> nat \<Rightarrow> model_l1 \<Rightarrow> model_l1" where
  "gossip_encountered_l1 i j s =
     (if \<not> knows_about_trend_l1 (persons s ! j) then
        (if sport_enthusiast_l1 (persons s ! j) then learn_about_trend_l1 j s
         else (case draw_uniform s of (u, s1) \<Rightarrow>
                 if u < gossip_prob_l1 (persons s1 ! i) then learn_about_trend_l1 j s1 else s1))
      else s)"

definition spread_news_l1 :: "nat \<Rightarrow> model_l1 \<Rightarrow> model_l1 result" where
  "spread_news_l1 i s =
     (case check_grid_initialization_l1
             ''The agent cannot spread the news.'' (persons s ! i) of
        Some e \<Rightarrow> Raised e s
      | None \<Rightarrow>
          if knows_about_trend_l1 (persons s ! i) then
            (case pos (persons s ! i) of
               None \<Rightarrow> Raised FrameworkError s
             | Some c \<Rightarrow>
                 (let encountered_agents = cell_agents s c
                  in if i \<in> set encountered_agents
                     then Done (fold (gossip_encountered_l1 i) (remove1 i encountered_agents) s)
                     else Raised NotInList s))
          else Done s)"

definition spread_news_among_followers :: "nat \<Rightarrow> nat list \<Rightarrow> model_l1 \<Rightarrow> model_l1" where
  "spread_news_among_followers k followers s = fold learn_about_trend_l1 followers s"

definition step_l1 :: "model_l1 \<Rightarrow> model_l1 result" where
  "step_l1 s =
     and_then (do_each move_around_l1 (all_agents s) s) (\<lambda>s1.
     and_then (do_each spread_news_l1 (all_agents s1) s1) (\<lambda>s2.
       (let regular_agents = filter (\<lambda>j. \<not> knows_about_trend_l1 (persons s2 ! j)) (all_agents s2);
            influencer_agents = [0..<length (influencers_l1 s2)];
            grouped_regular_agents = groupby (\<lambda>j. sport_enthusiast_l1 (persons s2 ! j)) regular_agents
        in do_each
             (\<lambda>(enthusiast, agents) s'.
                if enthusiast
                then Done (fold (\<lambda>k. spread_news_among_followers k agents) influencer_agents s')
                else do_each move_around_l1 agents s')
             grouped_regular_agents s2)))"

definition perform_step_l1 :: "model_l1 \<Rightarrow> model_l1 result" where
  "perform_step_l1 s =
     (if length (filter (\<lambda>agent. \<not> knows_about_trend_l1 agent) (persons s)) = 0
      then Done (s\<lparr>running := False\<rparr>)
      else step_l1 s)"

definition new_person_l1 :: "bool \<Rightarrow> bool \<Rightarrow> real \<Rightarrow> real \<Rightarrow> person_l1" where
  "new_person_l1 enthusiast knows gossip skepticism =
     \<lparr>grid = Some ModelGrid, pos = None, sport_enthusiast_l1 = enthusiast,
      knows_about_trend_l1 = knows, gossip_prob_l1 = gossip, skepticism_prob_l1 = skepticism\<rparr>"

fun place_l1 :: "nat \<Rightarrow> int list \<Rightarrow> int list \<Rightarrow> model_l1 \<Rightarrow> model_l1" where
  "place_l1 i (x # xs) (y # ys) s =
     (if i < length (persons s) then place_l1 (Suc i) xs ys (place_agent i (x, y) s) else s)"
| "place_l1 i xs ys s = s"

definition place_agents_on_grid_l1 :: "model_l1 \<Rightarrow> model_l1 result" where
  "place_agents_on_grid_l1 s =
     (case rng_integers (rng s) 0 (grid_width s) (population_size s) of
        None \<Rightarrow> Raised FrameworkError s
      | Some (x_range, g1) \<Rightarrow>
          (case rng_integers g1 0 (grid_height s) (population_size s) of
             None \<Rightarrow> Raised FrameworkError (s\<lparr>rng := g1\<rparr>)
           | Some (y_range, g2) \<Rightarrow>
               if persons s = [] then Raised KeyError (s\<lparr>rng := g2\<rparr>)
               else Done (place_l1 0 x_range y_range (s\<lparr>rng := g2\<rparr>))))"

definition generate_person_agents_l1 :: "model_l1 \<Rightarrow> model_l1 result" where
  "generate_person_agents_l1 s =
     (case random_randint (random_py s) 1 (population_size s) of
        None \<Rightarrow> Raised FrameworkError s
      | Some (sport_enthusiasts, r) \<Rightarrow>
          (let non_sport_enthusiasts = population_size s - sport_enthusiasts
           in place_agents_on_grid_l1
                (s\<lparr>random_py := r,
                   persons := persons s
                     @ create_agents sport_enthusiasts (new_person_l1 True False 0.5 0.2)
                     @ create_agents non_sport_enthusiasts (new_person_l1 False False 0.5 0.2)
                     @ [new_person_l1 True True 0.5 0.2],
                   population_size := population_size s + 1\<rparr>)))"

definition generate_influencer_agents_l1 :: "model_l1 \<Rightarrow> model_l1" where
  "generate_influencer_agents_l1 s =
     s\<lparr>influencers_l1 := influencers_l1 s
          @ create_agents (influencer_group_size_l1 s) \<lparr>influencer_grid = Some ModelGrid\<rparr>\<rparr>"

definition init_l1 :: "int \<Rightarrow> int \<Rightarrow> int \<Rightarrow> int \<Rightarrow> random_source \<Rightarrow> (nat \<Rightarrow> nat) \<Rightarrow> model_l1 result" where
  "init_l1 population influencer_group w h r g =
     and_then
       (generate_person_agents_l1
          \<lparr>running = True, random_py = r, rng = g, population_size = population,
           grid_width = w, grid_height = h, persons = [], cell_agents = (\<lambda>c. []),
           influencer_group_size_l1 = influencer_group, influencers_l1 = []\<rparr>)
       (\<lambda>s. Done (generate_influencer_agents_l1 s))"

section \<open>What a tick leaves alone\<close>

text \<open>
  For each model, the relation between a state and a later one that every operation
  keeps: the running flag and the grid stay as they are, no agent appears or disappears,
  no trait changes, and an agent that is infected (knows the trend) stays so.
\<close>

definition frame_hw :: "model_hw \<Rightarrow> model_hw \<Rightarrow> bool" where
  "frame_hw s s' \<longleftrightarrow>
     running s' = running s \<and> grid_width s' = grid_width s \<and> grid_height s' = grid_height s \<and>
     length (persons s') = length (persons s) \<and>
     (\<forall>j<length (persons s).
        (is_infected (persons s ! j) \<longrightarrow> is_infected (persons s' ! j)) \<and>
        has_comorbidities (persons s' ! j) = has_comorbidities (persons s ! j) \<and>
        moving_probability (persons s' ! j) = moving_probability (persons s ! j))"

definition frame_l2 :: "model_l2 \<Rightarrow> model_l2 \<Rightarrow> bool" where
  "frame_l2 s s' \<longleftrightarrow>
     running s' = running s \<and> grid_width s' = grid_width s \<and> grid_height s' = grid_height s \<and>
     length (persons s') = length (persons s) \<and>
     length (influencers s') = length (influencers s) \<and>
     (\<forall>j<length (persons s).
        (knows_about_trend (persons s ! j) \<longrightarrow> knows_about_trend (persons s' ! j)) \<and>
        sport_enthusiast (persons s' ! j) = sport_enthusiast (persons s ! j) \<and>
        gossip_prob (persons s' ! j) = gossip_prob (persons s ! j) \<and>
        skepticism_prob (persons s' ! j) = skepticism_prob (persons s ! j))"

definition frame_l1 :: "model_l1 \<Rightarrow> model_l1 \<Rightarrow> bool" where
  "frame_l1 s s' \<longleftrightarrow>
     running s' = running s \<and> grid_width s' = grid_width s \<and> grid_height s' = grid_height s \<and>
     length (persons s') = length (persons s) \<and>
     length (influencers_l1 s') = length (influencers_l1 s) \<and>
     (\<forall>j<length (persons s).
        (knows_about_trend_l1 (persons s ! j) \<longrightarrow> knows_about_trend_l1 (persons s' ! j)) \<and>
        grid (persons s' ! j) = grid (persons s ! j) \<and>
        sport_enthusiast_l1 (persons s' ! j) = sport_enthusiast_l1 (persons s ! j) \<and>
        gossip_prob_l1 (persons s' ! j) = gossip_prob_l1 (persons s ! j) \<and>
        skepticism_prob_l1 (persons s' ! j) = skepticism_prob_l1 (persons s ! j))"

text \<open>
  Across the guard of \<open>_stop_condition\<close> the running flag may fall, and nothing else of
  the frame changes.
\<close>

definition later_hw :: "model_hw \<Rightarrow> model_hw \<Rightarrow> bool" where
  "later_hw s s' \<longleftrightarrow> (running s' \<longrightarrow> running s) \<and> frame_hw (s\<lparr>running := running s'\<rparr>) s'"

definition later_l2 :: "model_l2 \<Rightarrow> model_l2 \<Rightarrow> bool" where
  "later_l2 s s' \<longleftrightarrow> (running s' \<longrightarrow> running s) \<and> frame_l2 (s\<lparr>running := running s'\<rparr>) s'"

definition later_l1 :: "model_l1 \<Rightarrow> model_l1 \<Rightarrow> bool" where
  "later_l1 s s' \<longleftrightarrow> (running s' \<longrightarrow> running s) \<and> frame_l1 (s\<lparr>running := running s'\<rparr>) s'"

text \<open>
  \<open>ticks step n\<close>: the host calls the model's step \<open>n\<close> times in a row; an exception ends
  the run.
\<close>

fun ticks :: "('s \<Rightarrow> 's result) \<Rightarrow> nat \<Rightarrow> 's \<Rightarrow> 's result" where
  "ticks f 0 s = Done s"
| "ticks f (Suc n) s = and_then (f s) (ticks f n)"

text \<open>
  The grid and the agents agree when the list of every cell holds, each once, the agents
  whose reference (\<open>cell\<close>, or \<open>pos\<close> in \<open>laboratory1\<close>) is that cell.
\<close>

definition grid_consistent :: "('p \<Rightarrow> coord option) \<Rightarrow> ('p, 'm) mesa_model_scheme \<Rightarrow> bool" where
  "grid_consistent place_of s \<longleftrightarrow>
     (\<forall>c. distinct (cell_agents s c)
          \<and> set (cell_agents s c) = {j. j < length (persons s) \<and> place_of (persons s ! j) = Some c})"

text \<open>
  Two states have the same placement when neither the lists of the cells nor the
  references of the agents differ.
\<close>

definition same_places :: "('p \<Rightarrow> coord option) \<Rightarrow> ('p, 'm) mesa_model_scheme
    \<Rightarrow> ('p, 'm) mesa_model_scheme \<Rightarrow> bool" where
  "same_places place_of s s' \<longleftrightarrow>
     cell_agents s' = cell_agents s \<and> map place_of (persons s') = map place_of (persons s)"

text \<open>
  The lists of the cells after the agent \<open>i\<close> has gone from the cell \<open>c\<close> to the cell
  \<open>c'\<close>: it is taken off the list of \<open>c\<close> and stands last on the list of \<open>c'\<close>.
\<close>

definition arrival :: "nat \<Rightarrow> coord \<Rightarrow> coord \<Rightarrow> (coord \<Rightarrow> nat list) \<Rightarrow> coord \<Rightarrow> nat list" where
  "arrival i c c' agents =
     (agents(c := remove1 i (agents c)))(c' := (agents(c := remove1 i (agents c))) c' @ [i])"

text \<open>The number the stop condition compares with zero.\<close>

definition uninfected_count :: "model_hw \<Rightarrow> nat" where
  "uninfected_count s = length (filter (\<lambda>agent. \<not> is_infected agent) (persons s))"

definition uninformed_count_l2 :: "model_l2 \<Rightarrow> nat" where
  "uninformed_count_l2 s = length (filter (\<lambda>agent. \<not> knows_about_trend agent) (persons s))"

definition uninformed_count_l1 :: "model_l1 \<Rightarrow> nat" where
  "uninformed_count_l1 s = length (filter (\<lambda>agent. \<not> knows_about_trend_l1 agent) (persons s))"

section \<open>Example states\<close>

text \<open>
  A disease model on a 3 by 3 grid: an infected agent and a comorbid one on the cell
  (1, 1), a third agent that was never placed, and the empty cell (0, 0) contaminated
  with a persistence counter of 2.
\<close>

definition example_hw :: model_hw where
  "example_hw =
     \<lparr>running = True, random_py = \<lparr>uniforms = (\<lambda>n. 9 / 10), picks = (\<lambda>n. 0)\<rparr>,
      rng = (\<lambda>k. k), population_size = 3, grid_width = 3, grid_height = 3,
      persons =
        [\<lparr>cell = Some (1, 1), is_infected = True, has_comorbidities = False,
          moving_probability = 1 / 2\<rparr>,
         \<lparr>cell = Some (1, 1), is_infected = False, has_comorbidities = True,
          moving_probability = 1 / 2\<rparr>,
         \<lparr>cell = None, is_infected = False, has_comorbidities = False,
          moving_probability = 1 / 2\<rparr>],
      cell_agents = (\<lambda>c. if c = (1, 1) then [0, 1] else []),
      infected_population_size = 1, comorbidities_population_size = 1,
      model_moving_probability = 1 / 2,
      properties = (\<lambda>c. if c = (0, 0) then \<lparr>cell_is_infected = True, virus_persistence = 2\<rparr>
                         else \<lparr>cell_is_infected = False, virus_persistence = 0\<rparr>),
      infected_property_layer = (\<lambda>c. c = (0, 0)),
      direct_infections = 0, location_infections = 0\<rparr>"

text \<open>
  A trend model of \<open>laboratory_2\<close> on a 3 by 3 grid: an enthusiast who knows the trend
  and an agent who is no enthusiast and does not know it, both on the cell (1, 1), a third
  agent that was never placed, and one influencer. Every draw of \<open>random()\<close> gives 0.1.
\<close>

definition example_l2 :: model_l2 where
  "example_l2 =
     \<lparr>running = True, random_py = \<lparr>uniforms = (\<lambda>n. 1 / 10), picks = (\<lambda>n. 0)\<rparr>,
      rng = (\<lambda>k. k), population_size = 3, grid_width = 3, grid_height = 3,
      persons =
        [\<lparr>cell = Some (1, 1), sport_enthusiast = True, trend_gossip_counter = 0,
          knows_about_trend = True, gossip_prob = 1 / 2, skepticism_prob = 7 / 10\<rparr>,
         \<lparr>cell = Some (1, 1), sport_enthusiast = False, trend_gossip_counter = 0,
          knows_about_trend = False, gossip_prob = 1 / 2, skepticism_prob = 7 / 10\<rparr>,
         \<lparr>cell = None, sport_enthusiast = True, trend_gossip_counter = 0,
          knows_about_trend = False, gossip_prob = 1 / 2, skepticism_prob = 1 / 2\<rparr>],
      cell_agents = (\<lambda>c. if c = (1, 1) then [0, 1] else []),
      influencer_group_size = 1, influencers = [\<lparr>reached_followers_counter = 0\<rparr>],
      direct_interactions_count = 0, indirect_interactions_count = 0,
      successful_direct_interactions_count = 0, successful_indirect_interactions_count = 0,
      sport_facility = (\<lambda>c. None)\<rparr>"

text \<open>
  The same population in \<open>laboratory1\<close>; the third agent has neither a grid nor a
  position.
\<close>

definition example_l1 :: model_l1 where
  "example_l1 =
     \<lparr>running = True, random_py = \<lparr>uniforms = (\<lambda>n. 1 / 10), picks = (\<lambda>n. 0)\<rparr>,
      rng = (\<lambda>k. k), population_size = 3, grid_width = 3, grid_height = 3,
      persons =
        [\<lparr>grid = Some ModelGrid, pos = Some (1, 1), sport_enthusiast_l1 = True,
          knows_about_trend_l1 = True, gossip_prob_l1 = 1 / 2, skepticism_prob_l1 = 1 / 5\<rparr>,
         \<lparr>grid = Some ModelGrid, pos = Some (1, 1), sport_enthusiast_l1 = False,
          knows_about_trend_l1 = False, gossip_prob_l1 = 1 / 2, skepticism_prob_l1 = 1 / 5\<rparr>,
         \<lparr>grid = None, pos = None, sport_enthusiast_l1 = True,
          knows_about_trend_l1 = False, gossip_prob_l1 = 1 / 2, skepticism_prob_l1 = 1 / 5\<rparr>],
      cell_agents = (\<lambda>c. if c = (1, 1) then [0, 1] else []),
      influencer_group_size_l1 = 1, influencers_l1 = [\<lparr>influencer_grid = Some ModelGrid\<rparr>]\<rparr>"


text \<open>
  The same crowd in \<open>laboratory_2\<close>: agent 0 knows the trend, the agents 1 and 2 do not
  and are no sport enthusiasts.
\<close>

definition example_l2_crowd :: model_l2 where
  "example_l2_crowd =
     example_l2
       \<lparr>random_py := \<lparr>uniforms = (\<lambda>n. if n = 0 then 1 / 10 else 9 / 10), picks = (\<lambda>n. 0)\<rparr>,
        persons :=
          [\<lparr>cell = Some (1, 1), sport_enthusiast = True, trend_gossip_counter = 0,
            knows_about_trend = True, gossip_prob = 1 / 2, skepticism_prob = 7 / 10\<rparr>,
           \<lparr>cell = Some (1, 1), sport_enthusiast = False, trend_gossip_counter = 0,
            knows_about_trend = False, gossip_prob = 1 / 2, skepticism_prob = 7 / 10\<rparr>,
           \<lparr>cell = Some (1, 1), sport_enthusiast = False, trend_gossip_counter = 0,
            knows_about_trend = False, gossip_prob = 1 / 2, skepticism_prob = 7 / 10\<rparr>],
        cell_agents := (\<lambda>c. if c = (1, 1) then [0, 2, 1] else [])\<rparr>"

text \<open>
  The same crowd in \<open>laboratory1\<close>; here the first two draws of \<open>random()\<close> give 0.1.
\<close>

definition example_l1_crowd :: model_l1 where
  "example_l1_crowd =
     example_l1
       \<lparr>random_py := \<lparr>uniforms = (\<lambda>n. if n < 2 then 1 / 10 else 9 / 10), picks = (\<lambda>n. 0)\<rparr>,
        persons :=
          [\<lparr>grid = Some ModelGrid, pos = Some (1, 1), sport_enthusiast_l1 = True,
            knows_about_trend_l1 = True, gossip_prob_l1 = 1 / 2, skepticism_prob_l1 = 1 / 5\<rparr>,
           \<lparr>grid = Some ModelGrid, pos = Some (1, 1), sport_enthusiast_l1 = False,
            knows_about_trend_l1 = False, gossip_prob_l1 = 1 / 2, skepticism_prob_l1 = 1 / 5\<rparr>,
           \<lparr>grid = Some ModelGrid, pos = Some (1, 1), sport_enthusiast_l1 = False,
            knows_about_trend_l1 = False, gossip_prob_l1 = 1 / 2, skepticism_prob_l1 = 1 / 5\<rparr>],
        cell_agents := (\<lambda>c. if c = (1, 1) then [0, 2, 1] else [])\<rparr>"

text \<open>The two trend models on a torus of a single cell, with two agents on it.\<close>

definition example_l2_one_cell :: model_l2 where
  "example_l2_one_cell =
     example_l2
       \<lparr>population_size := 2, grid_width := 1, grid_height := 1,
        persons :=
          [\<lparr>cell = Some (0, 0), sport_enthusiast = True, trend_gossip_counter = 0,
            knows_about_trend = True, gossip_prob = 1 / 2, skepticism_prob = 7 / 10\<rparr>,
           \<lparr>cell = Some (0, 0), sport_enthusiast = False, trend_gossip_counter = 0,
            knows_about_trend = False, gossip_prob = 1 / 2, skepticism_prob = 7 / 10\<rparr>],
        cell_agents := (\<lambda>c. if c = (0, 0) then [0, 1] else [])\<rparr>"

definition example_l1_one_cell :: model_l1 where
  "example_l1_one_cell =
     example_l1
       \<lparr>population_size := 2, grid_width := 1, grid_height := 1,
        persons :=
          [\<lparr>grid = Some ModelGrid, pos = Some (0, 0), sport_enthusiast_l1 = True,
            knows_about_trend_l1 = True, gossip_prob_l1 = 1 / 2, skepticism_prob_l1 = 1 / 5\<rparr>,
           \<lparr>grid = Some ModelGrid, pos = Some (0, 0), sport_enthusiast_l1 = False,
            knows_about_trend_l1 = False, gossip_prob_l1 = 1 / 2, skepticism_prob_l1 = 1 / 5\<rparr>],
        cell_agents := (\<lambda>c. if c = (0, 0) then [0, 1] else [])\<rparr>"

text \<open>
  The example of \<open>laboratory1\<close> joined by a fourth agent as its constructor leaves it:
  it holds the grid, knows the trend and has not been placed.
\<close>

definition example_l1_newcomer :: model_l1 where
  "example_l1_newcomer =
     example_l1\<lparr>persons := persons example_l1 @ [new_person_l1 True True 0.5 0.2]\<rparr>"

section \<open>Lifting a relation through loops\<close>

lemma nth_update_if: "j < length xs \<Longrightarrow> xs[i := v] ! j = (if i = j then v else xs ! j)"
  by (cases "i = j") simp_all

lemma fold_rel:
  assumes "\<And>a. R a a" and "\<And>a b c. R a b \<Longrightarrow> R b c \<Longrightarrow> R a c" and "\<And>x a. R a (f x a)"
  shows "R s (fold f xs s)"
proof (induction xs arbitrary: s)
  case Nil
  show ?case by (simp add: assms(1))
next
  case (Cons x xs)
  have "R s (f x s)" by (rule assms(3))
  moreover have "R (f x s) (fold f xs (f x s))" by (rule Cons.IH)
  ultimately show ?case using assms(2) by auto
qed

lemma do_each_rel:
  assumes "\<And>a. R a a" and "\<And>a b c. R a b \<Longrightarrow> R b c \<Longrightarrow> R a c"
    and "\<And>x a. R a (state_of (f x a))"
  shows "R s (state_of (do_each f xs s))"
proof (induction xs arbitrary: s)
  case Nil
  show ?case by (simp add: assms(1))
next
  case (Cons x xs)
  show ?case
  proof (cases "f x s")
    case (Done s')
    have "R s s'" using assms(3)[of s x] Done by simp
    moreover have "R s' (state_of (do_each f xs s'))" by (rule Cons.IH)
    ultimately show ?thesis using Done assms(2) by auto
  next
    case (Raised e s')
    then show ?thesis using assms(3)[of s x] by simp
  qed
qed

lemma and_then_rel:
  assumes "\<And>a b c. R a b \<Longrightarrow> R b c \<Longrightarrow> R a c"
    and "R s (state_of r)" and "\<And>a. R a (state_of (f a))"
  shows "R s (state_of (and_then r f))"
proof (cases r)
  case (Done s')
  then show ?thesis using assms(2) assms(3)[of s'] assms(1) by (auto simp: and_then_def)
next
  case (Raised e s')
  then show ?thesis using assms(2) by (simp add: and_then_def)
qed

section \<open>The disease model keeps its frame\<close>

lemma frame_hw_refl: "frame_hw s s"
  by (simp add: frame_hw_def)

lemma frame_hw_trans: "frame_hw a b \<Longrightarrow> frame_hw b c \<Longrightarrow> frame_hw a c"
  by (simp add: frame_hw_def)

lemma frame_hw_draw: "draw_uniform s = (u, s1) \<Longrightarrow> frame_hw s s1"
  by (auto simp: frame_hw_def draw_uniform_def random_random_def)

lemma frame_hw_get_infected: "frame_hw s (get_infected j d s)"
  by (auto simp: frame_hw_def get_infected_def Let_def nth_update_if)

lemma frame_hw_set_cell: "frame_hw s (state_of (set_cell i c s))"
  by (auto simp: frame_hw_def set_cell_def and_then_def remove_agent_def add_agent_def
      nth_update_if split: option.splits)

lemma frame_hw_move_to_random_neighbor: "frame_hw s (state_of (move_to_random_neighbor i c s))"
proof (cases "random_choice (random_py s) (neighborhood (grid_width s) (grid_height s) c)")
  case None
  then show ?thesis by (simp add: move_to_random_neighbor_def frame_hw_refl)
next
  case (Some p)
  obtain c' r where p: "p = (c', r)" by (cases p)
  have "frame_hw s (s\<lparr>random_py := r\<rparr>)" by (simp add: frame_hw_def)
  then have "frame_hw s (state_of (set_cell i c' (s\<lparr>random_py := r\<rparr>)))"
    using frame_hw_set_cell by (rule frame_hw_trans)
  then show ?thesis using Some p by (simp add: move_to_random_neighbor_def move_to_def)
qed

lemma frame_hw_move_around: "frame_hw s (state_of (move_around_hw i s))"
proof (cases "cell (persons s ! i)")
  case None
  then show ?thesis
    by (simp add: move_around_hw_def check_grid_initialization_def frame_hw_refl)
next
  case (Some c)
  obtain u s1 where d: "draw_uniform s = (u, s1)" by (cases "draw_uniform s")
  have "frame_hw s s1" using d by (rule frame_hw_draw)
  moreover have "frame_hw s1 (state_of (move_to_random_neighbor i c s1))"
    by (rule frame_hw_move_to_random_neighbor)
  ultimately show ?thesis using Some d
    by (auto simp: move_around_hw_def check_grid_initialization_def intro: frame_hw_trans)
qed

lemma frame_hw_infect_encountered: "frame_hw s (infect_encountered j s)"
proof -
  obtain u s1 where d: "draw_uniform s = (u, s1)" by (cases "draw_uniform s")
  have a: "frame_hw s s1" using d by (rule frame_hw_draw)
  have b: "frame_hw s (get_infected j True s1)"
    using a frame_hw_get_infected[of s1 j True] by (rule frame_hw_trans)
  show ?thesis using a b d
    by (simp add: infect_encountered_def Let_def frame_hw_refl)
qed

lemma frame_hw_contaminate:
  "frame_hw s (s\<lparr>properties := f\<rparr>)"
  by (simp add: frame_hw_def)

lemma frame_hw_spread_virus: "frame_hw s (state_of (spread_virus i s))"
proof (cases "cell (persons s ! i)")
  case None
  then show ?thesis
    by (simp add: spread_virus_def check_grid_initialization_def frame_hw_refl)
next
  case (Some c)
  have loop: "frame_hw a (fold infect_encountered xs a)" for a xs
    by (rule fold_rel[where R = frame_hw]) (auto intro: frame_hw_refl frame_hw_trans frame_hw_infect_encountered)
  show ?thesis using Some
    by (auto simp: spread_virus_def check_grid_initialization_def Let_def frame_hw_refl
        intro: loop frame_hw_trans[OF frame_hw_contaminate loop])
qed

lemma frame_hw_get_infected_from_cell: "frame_hw s (state_of (get_infected_from_cell i s))"
proof (cases "cell (persons s ! i)")
  case None
  then show ?thesis
    by (simp add: get_infected_from_cell_def check_grid_initialization_def frame_hw_refl)
next
  case (Some c)
  obtain u s1 where d: "draw_uniform s = (u, s1)" by (cases "draw_uniform s")
  have a: "frame_hw s s1" using d by (rule frame_hw_draw)
  have b: "frame_hw s (get_infected i False s1)"
    using a frame_hw_get_infected[of s1 i False] by (rule frame_hw_trans)
  show ?thesis using Some a b d
    by (auto simp: get_infected_from_cell_def check_grid_initialization_def frame_hw_refl
        split: sum.splits)
qed

lemma frame_hw_decay_cell: "frame_hw s (decay_cell c s)"
  by (simp add: frame_hw_def decay_cell_def Let_def)

lemma frame_hw_step: "frame_hw s (state_of (step_hw s))"
  unfolding step_hw_def
  apply (rule and_then_rel[where R = frame_hw], erule (1) frame_hw_trans)
   apply (rule do_each_rel[where R = frame_hw], rule frame_hw_refl, erule (1) frame_hw_trans,
      rule frame_hw_move_around)
  apply (rule and_then_rel[where R = frame_hw], erule (1) frame_hw_trans)
   apply (rule do_each_rel[where R = frame_hw], rule frame_hw_refl, erule (1) frame_hw_trans,
      rule frame_hw_spread_virus)
  apply (rule and_then_rel[where R = frame_hw], erule (1) frame_hw_trans)
   apply (rule do_each_rel[where R = frame_hw], rule frame_hw_refl, erule (1) frame_hw_trans,
      rule frame_hw_get_infected_from_cell)
  apply simp
  apply (rule fold_rel[where R = frame_hw], rule frame_hw_refl, erule (1) frame_hw_trans,
      rule frame_hw_decay_cell)
  done

section \<open>The trend model of laboratory_2 keeps its frame\<close>

lemma frame_l2_refl: "frame_l2 s s"
  by (simp add: frame_l2_def)

lemma frame_l2_trans: "frame_l2 a b \<Longrightarrow> frame_l2 b c \<Longrightarrow> frame_l2 a c"
  by (simp add: frame_l2_def)

lemma frame_l2_draw: "draw_uniform s = (u, s1) \<Longrightarrow> frame_l2 s s1"
  by (auto simp: frame_l2_def draw_uniform_def random_random_def)

lemma frame_l2_learn_about_trend: "frame_l2 s (learn_about_trend_l2 j d s)"
  by (auto simp: frame_l2_def learn_about_trend_l2_def Let_def nth_update_if
      draw_uniform_def random_random_def)

lemma frame_l2_interact: "frame_l2 s (interact_l2 j s)"
proof -
  have "frame_l2 s (s\<lparr>direct_interactions_count := direct_interactions_count s + 1\<rparr>)"
    by (simp add: frame_l2_def)
  then show ?thesis
    unfolding interact_l2_def using frame_l2_learn_about_trend by (rule frame_l2_trans)
qed

lemma frame_l2_gossip_encountered: "frame_l2 s (gossip_encountered_l2 i j s)"
proof -
  obtain u s1 where d: "draw_uniform s = (u, s1)" by (cases "draw_uniform s")
  have a: "frame_l2 s s1" using d by (rule frame_l2_draw)
  have b: "frame_l2 s (interact_l2 j s1)"
    using a frame_l2_interact by (rule frame_l2_trans)
  show ?thesis using a b d
    by (simp add: gossip_encountered_l2_def frame_l2_refl frame_l2_interact)
qed

lemma frame_l2_set_cell: "frame_l2 s (state_of (set_cell i c s))"
  by (auto simp: frame_l2_def set_cell_def and_then_def remove_agent_def add_agent_def
      nth_update_if split: option.splits)

lemma frame_l2_move_to_random_neighbor: "frame_l2 s (state_of (move_to_random_neighbor i c s))"
proof (cases "random_choice (random_py s) (neighborhood (grid_width s) (grid_height s) c)")
  case None
  then show ?thesis by (simp add: move_to_random_neighbor_def frame_l2_refl)
next
  case (Some p)
  obtain c' r where p: "p = (c', r)" by (cases p)
  have "frame_l2 s (s\<lparr>random_py := r\<rparr>)" by (simp add: frame_l2_def)
  then have "frame_l2 s (state_of (set_cell i c' (s\<lparr>random_py := r\<rparr>)))"
    using frame_l2_set_cell by (rule frame_l2_trans)
  then show ?thesis using Some p by (simp add: move_to_random_neighbor_def move_to_def)
qed

lemma frame_l2_move_around: "frame_l2 s (state_of (move_around_l2 i s))"
  by (cases "cell (persons s ! i)")
    (simp_all add: move_around_l2_def check_grid_initialization_def frame_l2_refl
      frame_l2_move_to_random_neighbor)

lemma frame_l2_spread_news: "frame_l2 s (state_of (spread_news_l2 i s))"
proof (cases "cell (persons s ! i)")
  case None
  then show ?thesis
    by (simp add: spread_news_l2_def check_grid_initialization_def frame_l2_refl)
next
  case (Some c)
  have loop: "frame_l2 a (fold (gossip_encountered_l2 i) xs a)" for a xs
    by (rule fold_rel[where R = frame_l2])
      (auto intro: frame_l2_refl frame_l2_trans frame_l2_gossip_encountered)
  show ?thesis using Some
    by (simp add: spread_news_l2_def check_grid_initialization_def Let_def frame_l2_refl loop)
qed

lemma frame_l2_reach_follower: "frame_l2 s (reach_follower k j s)"
proof -
  have "frame_l2 s (s\<lparr>influencers := (influencers s)[k := (influencers s ! k)
             \<lparr>reached_followers_counter := reached_followers_counter (influencers s ! k) + 1\<rparr>],
          indirect_interactions_count := indirect_interactions_count s + 1\<rparr>)"
    by (simp add: frame_l2_def)
  then show ?thesis
    unfolding reach_follower_def using frame_l2_learn_about_trend by (rule frame_l2_trans)
qed

lemma frame_l2_spread_news_among_random_followers:
  "frame_l2 s (spread_news_among_random_followers k followers s)"
  unfolding spread_news_among_random_followers_def
proof (rule fold_rel[where R = frame_l2])
  fix j and a :: model_l2
  obtain u s1 where d: "draw_uniform a = (u, s1)" by (cases "draw_uniform a")
  have x: "frame_l2 a s1" using d by (rule frame_l2_draw)
  have y: "frame_l2 a (reach_follower k j s1)"
    using x frame_l2_reach_follower by (rule frame_l2_trans)
  show "frame_l2 a (case draw_uniform a of (u, s1) \<Rightarrow> if u < 0.5 then reach_follower k j s1 else s1)"
    using d x y by simp
qed (auto intro: frame_l2_refl frame_l2_trans)

lemma frame_l2_spread_news_on_event:
  "frame_l2 s (state_of (spread_news_on_event k event_participants s))"
  unfolding spread_news_on_event_def
  by (rule do_each_rel[where R = frame_l2])
    (auto intro: frame_l2_refl frame_l2_trans frame_l2_reach_follower split: option.splits)

lemma frame_l2_influencer_agents_step: "frame_l2 s (state_of (influencer_agents_step s))"
proof -
  have inner: "frame_l2 a (fold (\<lambda>k. spread_news_among_random_followers k agents) ks a)"
    for a agents ks
    by (rule fold_rel[where R = frame_l2])
      (auto intro: frame_l2_refl frame_l2_trans frame_l2_spread_news_among_random_followers)
  have moves: "frame_l2 a (state_of (do_each move_around_l2 agents a))" for a agents
    by (rule do_each_rel[where R = frame_l2])
      (auto intro: frame_l2_refl frame_l2_trans frame_l2_move_around)
  show ?thesis
    unfolding influencer_agents_step_def Let_def
    by (rule do_each_rel[where R = frame_l2])
      (auto intro: frame_l2_refl frame_l2_trans inner moves)
qed

lemma frame_l2_step: "frame_l2 s (state_of (step_l2 s))"
  unfolding step_l2_def
  apply (rule and_then_rel[where R = frame_l2], erule (1) frame_l2_trans)
   apply (rule do_each_rel[where R = frame_l2], rule frame_l2_refl, erule (1) frame_l2_trans,
      rule frame_l2_move_around)
  apply (rule and_then_rel[where R = frame_l2], erule (1) frame_l2_trans)
   apply (rule do_each_rel[where R = frame_l2], rule frame_l2_refl, erule (1) frame_l2_trans,
      rule frame_l2_spread_news)
  apply (rule frame_l2_influencer_agents_step)
  done

section \<open>The trend model of laboratory1 keeps its frame\<close>

lemma frame_l1_refl: "frame_l1 s s"
  by (simp add: frame_l1_def)

lemma frame_l1_trans: "frame_l1 a b \<Longrightarrow> frame_l1 b c \<Longrightarrow> frame_l1 a c"
  by (simp add: frame_l1_def)

lemma frame_l1_draw: "draw_uniform s = (u, s1) \<Longrightarrow> frame_l1 s s1"
  by (auto simp: frame_l1_def draw_uniform_def random_random_def)

lemma frame_l1_learn_about_trend: "frame_l1 s (learn_about_trend_l1 j s)"
  by (auto simp: frame_l1_def learn_about_trend_l1_def nth_update_if
      draw_uniform_def random_random_def)

lemma frame_l1_move_agent: "frame_l1 s (state_of (move_agent i c s))"
  by (auto simp: frame_l1_def move_agent_def remove_agent_l1_def remove_agent_def
      place_agent_def add_agent_def and_then_def nth_update_if split: option.splits)

lemma frame_l1_move_around: "frame_l1 s (state_of (move_around_l1 i s))"
proof (cases "grid (persons s ! i)")
  case None
  then show ?thesis
    by (simp add: move_around_l1_def check_grid_initialization_l1_def frame_l1_refl)
next
  case g: (Some gr)
  show ?thesis
  proof (cases "pos (persons s ! i)")
    case None
    then show ?thesis using g
      by (simp add: move_around_l1_def check_grid_initialization_l1_def frame_l1_refl)
  next
    case (Some c)
    show ?thesis
    proof (cases "random_choice (random_py s) (get_neighborhood (grid_width s) (grid_height s) c)")
      case None
      then show ?thesis using g Some
        by (simp add: move_around_l1_def check_grid_initialization_l1_def frame_l1_refl)
    next
      case p: (Some p)
      obtain c' r where q: "p = (c', r)" by (cases p)
      have "frame_l1 s (s\<lparr>random_py := r\<rparr>)" by (simp add: frame_l1_def)
      then have "frame_l1 s (state_of (move_agent i c' (s\<lparr>random_py := r\<rparr>)))"
        using frame_l1_move_agent by (rule frame_l1_trans)
      then show ?thesis using g Some p q
        by (simp add: move_around_l1_def check_grid_initialization_l1_def)
    qed
  qed
qed

lemma frame_l1_gossip_encountered: "frame_l1 s (gossip_encountered_l1 i j s)"
proof -
  obtain u s1 where d: "draw_uniform s = (u, s1)" by (cases "draw_uniform s")
  have a: "frame_l1 s s1" using d by (rule frame_l1_draw)
  have b: "frame_l1 s (learn_about_trend_l1 j s1)"
    using a frame_l1_learn_about_trend by (rule frame_l1_trans)
  show ?thesis using a b d
    by (simp add: gossip_encountered_l1_def frame_l1_refl frame_l1_learn_about_trend)
qed

lemma frame_l1_spread_news: "frame_l1 s (state_of (spread_news_l1 i s))"
proof -
  have loop: "frame_l1 a (fold (gossip_encountered_l1 i) xs a)" for a xs
    by (rule fold_rel[where R = frame_l1])
      (auto intro: frame_l1_refl frame_l1_trans frame_l1_gossip_encountered)
  show ?thesis
    by (simp add: spread_news_l1_def check_grid_initialization_l1_def Let_def frame_l1_refl loop
        split: option.splits)
qed

lemma frame_l1_spread_news_among_followers:
  "frame_l1 s (spread_news_among_followers k followers s)"
  unfolding spread_news_among_followers_def
  by (rule fold_rel[where R = frame_l1])
    (auto intro: frame_l1_refl frame_l1_trans frame_l1_learn_about_trend)

lemma frame_l1_step: "frame_l1 s (state_of (step_l1 s))"
proof -
  have inner: "frame_l1 a (fold (\<lambda>k. spread_news_among_followers k agents) ks a)"
    for a agents ks
    by (rule fold_rel[where R = frame_l1])
      (auto intro: frame_l1_refl frame_l1_trans frame_l1_spread_news_among_followers)
  have moves: "frame_l1 a (state_of (do_each move_around_l1 agents a))" for a agents
    by (rule do_each_rel[where R = frame_l1])
      (auto intro: frame_l1_refl frame_l1_trans frame_l1_move_around)
  have last: "frame_l1 a (state_of (do_each
             (\<lambda>(enthusiast, agents) s'.
                if enthusiast
                then Done (fold (\<lambda>k. spread_news_among_followers k agents) ks s')
                else do_each move_around_l1 agents s') groups a))" for a ks groups
    by (rule do_each_rel[where R = frame_l1])
      (auto intro: frame_l1_refl frame_l1_trans inner moves)
  show ?thesis
    unfolding step_l1_def Let_def
    apply (rule and_then_rel[where R = frame_l1], erule (1) frame_l1_trans)
     apply (rule do_each_rel[where R = frame_l1], rule frame_l1_refl, erule (1) frame_l1_trans,
        rule frame_l1_move_around)
    apply (rule and_then_rel[where R = frame_l1], erule (1) frame_l1_trans)
     apply (rule do_each_rel[where R = frame_l1], rule frame_l1_refl, erule (1) frame_l1_trans,
        rule frame_l1_spread_news)
    apply (rule last)
    done
qed

section \<open>Runs of several ticks\<close>

lemma ticks_rel:
  assumes "\<And>a. R a a" and "\<And>a b c. R a b \<Longrightarrow> R b c \<Longrightarrow> R a c"
    and "\<And>a. R a (state_of (f a))"
  shows "R s (state_of (ticks f n s))"
proof (induction n arbitrary: s)
  case 0
  show ?case by (simp add: assms(1))
next
  case (Suc n)
  show ?case
    unfolding ticks.simps
    by (rule and_then_rel[where R = R]) (auto intro: assms Suc.IH)
qed

lemma ticks_Suc_end: "ticks f (Suc n) s = and_then (ticks f n s) f"
proof (induction n arbitrary: s)
  case 0
  show ?case by (cases "f s") (simp_all add: and_then_def)
next
  case (Suc n)
  have e: "ticks f (Suc n) = (\<lambda>a. and_then (ticks f n a) f)"
    by (rule ext) (rule Suc.IH)
  have "ticks f (Suc (Suc n)) s = and_then (f s) (ticks f (Suc n))" by simp
  also have "\<dots> = and_then (f s) (\<lambda>a. and_then (ticks f n a) f)"
    by (simp only: e)
  also have "\<dots> = and_then (and_then (f s) (ticks f n)) f"
    by (cases "f s") (simp_all add: and_then_def)
  finally show ?case by simp
qed

lemma later_hw_refl: "later_hw s s"
  by (simp add: later_hw_def frame_hw_def)

lemma later_hw_trans: "later_hw a b \<Longrightarrow> later_hw b c \<Longrightarrow> later_hw a c"
  by (simp add: later_hw_def frame_hw_def)

lemma frame_hw_later: "frame_hw s s' \<Longrightarrow> later_hw s s'"
  by (simp add: later_hw_def frame_hw_def)

lemma later_hw_perform_step: "later_hw s (state_of (perform_step_hw s))"
  by (simp add: perform_step_hw_def frame_hw_later frame_hw_step)
    (simp add: later_hw_def frame_hw_def)

lemma later_hw_ticks: "later_hw s (state_of (ticks perform_step_hw n s))"
  by (rule ticks_rel[where R = later_hw])
    (auto intro: later_hw_refl later_hw_trans later_hw_perform_step)

lemma later_l2_refl: "later_l2 s s"
  by (simp add: later_l2_def frame_l2_def)

lemma later_l2_trans: "later_l2 a b \<Longrightarrow> later_l2 b c \<Longrightarrow> later_l2 a c"
  by (simp add: later_l2_def frame_l2_def)

lemma frame_l2_later: "frame_l2 s s' \<Longrightarrow> later_l2 s s'"
  by (simp add: later_l2_def frame_l2_def)

lemma later_l2_perform_step: "later_l2 s (state_of (perform_step_l2 s))"
  by (simp add: perform_step_l2_def frame_l2_later frame_l2_step)
    (simp add: later_l2_def frame_l2_def)

lemma later_l2_ticks: "later_l2 s (state_of (ticks perform_step_l2 n s))"
  by (rule ticks_rel[where R = later_l2])
    (auto intro: later_l2_refl later_l2_trans later_l2_perform_step)

lemma later_l1_refl: "later_l1 s s"
  by (simp add: later_l1_def frame_l1_def)

lemma later_l1_trans: "later_l1 a b \<Longrightarrow> later_l1 b c \<Longrightarrow> later_l1 a c"
  by (simp add: later_l1_def frame_l1_def)

lemma frame_l1_later: "frame_l1 s s' \<Longrightarrow> later_l1 s s'"
  by (simp add: later_l1_def frame_l1_def)

lemma later_l1_perform_step: "later_l1 s (state_of (perform_step_l1 s))"
  by (simp add: perform_step_l1_def frame_l1_later frame_l1_step)
    (simp add: later_l1_def frame_l1_def)

lemma later_l1_ticks: "later_l1 s (state_of (ticks perform_step_l1 n s))"
  by (rule ticks_rel[where R = later_l1])
    (auto intro: later_l1_refl later_l1_trans later_l1_perform_step)

lemma frame_hw_infected:
  "frame_hw s s' \<Longrightarrow> j < length (persons s) \<Longrightarrow> is_infected (persons s ! j)
     \<Longrightarrow> is_infected (persons s' ! j)"
  by (simp add: frame_hw_def)

lemma later_hw_infected:
  "later_hw s s' \<Longrightarrow> j < length (persons s) \<Longrightarrow> is_infected (persons s ! j)
     \<Longrightarrow> is_infected (persons s' ! j)"
  by (simp add: later_hw_def frame_hw_def)

lemma frame_l2_knows:
  "frame_l2 s s' \<Longrightarrow> j < length (persons s) \<Longrightarrow> knows_about_trend (persons s ! j)
     \<Longrightarrow> knows_about_trend (persons s' ! j)"
  by (simp add: frame_l2_def)

lemma later_l2_knows:
  "later_l2 s s' \<Longrightarrow> j < length (persons s) \<Longrightarrow> knows_about_trend (persons s ! j)
     \<Longrightarrow> knows_about_trend (persons s' ! j)"
  by (simp add: later_l2_def frame_l2_def)

lemma frame_l1_knows:
  "frame_l1 s s' \<Longrightarrow> j < length (persons s) \<Longrightarrow> knows_about_trend_l1 (persons s ! j)
     \<Longrightarrow> knows_about_trend_l1 (persons s' ! j)"
  by (simp add: frame_l1_def)

lemma later_l1_knows:
  "later_l1 s s' \<Longrightarrow> j < length (persons s) \<Longrightarrow> knows_about_trend_l1 (persons s ! j)
     \<Longrightarrow> knows_about_trend_l1 (persons s' ! j)"
  by (simp add: later_l1_def frame_l1_def)

section \<open>Passive acquisition in the disease model\<close>

lemma neighborhood_3_3_1_1: "neighborhood 3 3 (1, 1) = [(0, 1), (1, 0), (1, 2), (2, 1)]"
  by code_simp

lemma example_hw_persons:
  "persons example_hw =
     [\<lparr>cell = Some (1, 1), is_infected = True, has_comorbidities = False,
       moving_probability = 1 / 2\<rparr>,
      \<lparr>cell = Some (1, 1), is_infected = False, has_comorbidities = True,
       moving_probability = 1 / 2\<rparr>,
      \<lparr>cell = None, is_infected = False, has_comorbidities = False,
       moving_probability = 1 / 2\<rparr>]"
  by (simp add: example_hw_def)

lemma example_hw_grid: "grid_width example_hw = 3" "grid_height example_hw = 3"
  by (simp_all add: example_hw_def)

lemma example_hw_properties:
  "properties example_hw =
     (\<lambda>c. if c = (0, 0) then \<lparr>cell_is_infected = True, virus_persistence = 2\<rparr>
          else \<lparr>cell_is_infected = False, virus_persistence = 0\<rparr>)"
  by (simp add: example_hw_def)

lemma get_infection_probabilty_le:
  "get_infection_probabilty i s = Inr p \<Longrightarrow> p \<le> 3 / 4"
  by (auto simp: get_infection_probabilty_def in_neighbourhood_of_infection_def
      check_grid_initialization_def Let_def split: option.splits if_splits)

text \<open>
  Claim C5, first half: the infection probability of a placed agent is the sum of the
  contribution of its trait (0.25 with comorbidities, 0 without) and of its location (0.5 on
  a contaminated cell, 0.25 next to one), with no cap; it is 0 when the cell is neither
  contaminated nor next to a contaminated cell. Second half, amended: the sum is at most
  0.75, so it never exceeds 1.
\<close>

theorem get_infection_probabilty_sum:
  assumes "cell (persons s ! i) = Some c"
  shows "get_infection_probabilty i s =
           Inr (if cell_is_infected (properties s c)
                then (if has_comorbidities (persons s ! i) then 0.25 else 0) + 0.5
                else if list_ex (\<lambda>d. cell_is_infected (properties s d))
                          (neighborhood (grid_width s) (grid_height s) c)
                     then (if has_comorbidities (persons s ! i) then 0.25 else 0) + 0.25
                     else 0)
         \<and> (\<exists>p. get_infection_probabilty i s = Inr p \<and> p \<le> 0.75)"
  using assms
  by (simp add: get_infection_probabilty_def in_neighbourhood_of_infection_def
      check_grid_initialization_def)

theorem get_infection_probabilty_sum_witness:
  "cell (persons example_hw ! 1) = Some (1, 1)
   \<and> get_infection_probabilty 1 example_hw = Inr 0
   \<and> get_infection_probabilty 1
        (example_hw\<lparr>properties := (\<lambda>c. \<lparr>cell_is_infected = True, virus_persistence = 0\<rparr>)\<rparr>)
      = Inr 0.75"
proof -
  let ?s = "example_hw\<lparr>properties := (\<lambda>c. \<lparr>cell_is_infected = True, virus_persistence = 0\<rparr>)\<rparr>"
  have c: "cell (persons example_hw ! 1) = Some (1, 1)"
    by (simp add: example_hw_persons)
  have c': "cell (persons ?s ! 1) = Some (1, 1)"
    by (simp add: example_hw_persons)
  have "get_infection_probabilty 1 example_hw = Inr 0"
    using get_infection_probabilty_sum[OF c]
    by (simp add: example_hw_persons example_hw_grid example_hw_properties neighborhood_3_3_1_1)
  moreover have "get_infection_probabilty 1 ?s = Inr 0.75"
    using get_infection_probabilty_sum[OF c']
    by (simp add: example_hw_persons)
  ultimately show ?thesis using c by simp
qed

text \<open>
  Claim C5 as stated says that some agent and cell make the sum exceed 1.0. No state of
  the model does.
\<close>

theorem get_infection_probabilty_above_one_counterexample:
  "\<not> (\<exists>s i p. get_infection_probabilty i s = Inr p \<and> 1 < p)"
proof
  assume "\<exists>s i p. get_infection_probabilty i s = Inr p \<and> 1 < p"
  then obtain s i p where "get_infection_probabilty i s = Inr p" and "1 < p"
    by blast
  then show False
    using get_infection_probabilty_le[of i s p] by simp
qed

section \<open>The ratio reporters\<close>

text \<open>
  Claim C7: each ratio reporter returns 0 when its attempt counter is 0 and the success
  counter divided by the attempt counter otherwise; it never raises, although the
  division it contains raises on a zero divisor.
\<close>

theorem ratio_reporters_total:
  "direct_interaction_success_ration s =
     Inr (if direct_interactions_count s = 0 then 0
          else real_of_int (successful_direct_interactions_count s)
               / real_of_int (direct_interactions_count s))
   \<and> indirect_interaction_success_ration s =
     Inr (if indirect_interactions_count s = 0 then 0
          else real_of_int (successful_indirect_interactions_count s)
               / real_of_int (indirect_interactions_count s))
   \<and> truediv a 0 = Inl ZeroDivisionError"
  by (simp add: direct_interaction_success_ration_def indirect_interaction_success_ration_def
      truediv_def)

section \<open>Facts about the example states\<close>

lemma example_l2_persons:
  "persons example_l2 =
        [\<lparr>cell = Some (1, 1), sport_enthusiast = True, trend_gossip_counter = 0,
          knows_about_trend = True, gossip_prob = 1 / 2, skepticism_prob = 7 / 10\<rparr>,
         \<lparr>cell = Some (1, 1), sport_enthusiast = False, trend_gossip_counter = 0,
          knows_about_trend = False, gossip_prob = 1 / 2, skepticism_prob = 7 / 10\<rparr>,
         \<lparr>cell = None, sport_enthusiast = True, trend_gossip_counter = 0,
          knows_about_trend = False, gossip_prob = 1 / 2, skepticism_prob = 1 / 2\<rparr>]"
  by (simp add: example_l2_def)

lemma example_l1_persons:
  "persons example_l1 =
        [\<lparr>grid = Some ModelGrid, pos = Some (1, 1), sport_enthusiast_l1 = True,
          knows_about_trend_l1 = True, gossip_prob_l1 = 1 / 2, skepticism_prob_l1 = 1 / 5\<rparr>,
         \<lparr>grid = Some ModelGrid, pos = Some (1, 1), sport_enthusiast_l1 = False,
          knows_about_trend_l1 = False, gossip_prob_l1 = 1 / 2, skepticism_prob_l1 = 1 / 5\<rparr>,
         \<lparr>grid = None, pos = None, sport_enthusiast_l1 = True,
          knows_about_trend_l1 = False, gossip_prob_l1 = 1 / 2, skepticism_prob_l1 = 1 / 5\<rparr>]"
  by (simp add: example_l1_def)

section \<open>Monotonicity of the informed and infected flags\<close>

text \<open>
  Claim C1: in each of the three models, an agent whose infected flag (its
  knows-about-trend flag) is true keeps it through every operation: moving, spreading,
  passive acquisition from the cell, the delivery by an influencer, the decay of the
  cells, a whole tick with or without its guard, and any number of ticks.
\<close>

theorem informed_never_reverts:
  "(j < length (persons h) \<and> is_infected (persons h ! j) \<longrightarrow>
      is_infected (persons (state_of (move_around_hw i h)) ! j) \<and>
      is_infected (persons (state_of (spread_virus i h)) ! j) \<and>
      is_infected (persons (state_of (get_infected_from_cell i h)) ! j) \<and>
      is_infected (persons (get_infected i d h) ! j) \<and>
      is_infected (persons (decay_cell c h) ! j) \<and>
      is_infected (persons (state_of (step_hw h)) ! j) \<and>
      is_infected (persons (state_of (perform_step_hw h)) ! j) \<and>
      is_infected (persons (state_of (ticks perform_step_hw n h)) ! j))
   \<and> (j < length (persons t) \<and> knows_about_trend (persons t ! j) \<longrightarrow>
      knows_about_trend (persons (state_of (move_around_l2 i t)) ! j) \<and>
      knows_about_trend (persons (state_of (spread_news_l2 i t)) ! j) \<and>
      knows_about_trend (persons (learn_about_trend_l2 i d t) ! j) \<and>
      knows_about_trend (persons (spread_news_among_random_followers k followers t) ! j) \<and>
      knows_about_trend (persons (state_of (spread_news_on_event k followers t)) ! j) \<and>
      knows_about_trend (persons (state_of (influencer_agents_step t)) ! j) \<and>
      knows_about_trend (persons (state_of (step_l2 t)) ! j) \<and>
      knows_about_trend (persons (state_of (perform_step_l2 t)) ! j) \<and>
      knows_about_trend (persons (state_of (ticks perform_step_l2 n t)) ! j))
   \<and> (j < length (persons u) \<and> knows_about_trend_l1 (persons u ! j) \<longrightarrow>
      knows_about_trend_l1 (persons (state_of (move_around_l1 i u)) ! j) \<and>
      knows_about_trend_l1 (persons (state_of (spread_news_l1 i u)) ! j) \<and>
      knows_about_trend_l1 (persons (learn_about_trend_l1 i u) ! j) \<and>
      knows_about_trend_l1 (persons (spread_news_among_followers k followers u) ! j) \<and>
      knows_about_trend_l1 (persons (state_of (step_l1 u)) ! j) \<and>
      knows_about_trend_l1 (persons (state_of (perform_step_l1 u)) ! j) \<and>
      knows_about_trend_l1 (persons (state_of (ticks perform_step_l1 n u)) ! j))"
proof (intro conjI impI)
  assume a: "j < length (persons h) \<and> is_infected (persons h ! j)"
  show "is_infected (persons (state_of (move_around_hw i h)) ! j)"
    using a frame_hw_infected[OF frame_hw_move_around] by simp
  show "is_infected (persons (state_of (spread_virus i h)) ! j)"
    using a frame_hw_infected[OF frame_hw_spread_virus] by simp
  show "is_infected (persons (state_of (get_infected_from_cell i h)) ! j)"
    using a frame_hw_infected[OF frame_hw_get_infected_from_cell] by simp
  show "is_infected (persons (get_infected i d h) ! j)"
    using a frame_hw_infected[OF frame_hw_get_infected] by simp
  show "is_infected (persons (decay_cell c h) ! j)"
    using a frame_hw_infected[OF frame_hw_decay_cell] by simp
  show "is_infected (persons (state_of (step_hw h)) ! j)"
    using a frame_hw_infected[OF frame_hw_step] by simp
  show "is_infected (persons (state_of (perform_step_hw h)) ! j)"
    using a later_hw_infected[OF later_hw_perform_step] by simp
  show "is_infected (persons (state_of (ticks perform_step_hw n h)) ! j)"
    using a later_hw_infected[OF later_hw_ticks] by simp
next
  assume a: "j < length (persons t) \<and> knows_about_trend (persons t ! j)"
  show "knows_about_trend (persons (state_of (move_around_l2 i t)) ! j)"
    using a frame_l2_knows[OF frame_l2_move_around] by simp
  show "knows_about_trend (persons (state_of (spread_news_l2 i t)) ! j)"
    using a frame_l2_knows[OF frame_l2_spread_news] by simp
  show "knows_about_trend (persons (learn_about_trend_l2 i d t) ! j)"
    using a frame_l2_knows[OF frame_l2_learn_about_trend] by simp
  show "knows_about_trend (persons (spread_news_among_random_followers k followers t) ! j)"
    using a frame_l2_knows[OF frame_l2_spread_news_among_random_followers] by simp
  show "knows_about_trend (persons (state_of (spread_news_on_event k followers t)) ! j)"
    using a frame_l2_knows[OF frame_l2_spread_news_on_event] by simp
  show "knows_about_trend (persons (state_of (influencer_agents_step t)) ! j)"
    using a frame_l2_knows[OF frame_l2_influencer_agents_step] by simp
  show "knows_about_trend (persons (state_of (step_l2 t)) ! j)"
    using a frame_l2_knows[OF frame_l2_step] by simp
  show "knows_about_trend (persons (state_of (perform_step_l2 t)) ! j)"
    using a later_l2_knows[OF later_l2_perform_step] by simp
  show "knows_about_trend (persons (state_of (ticks perform_step_l2 n t)) ! j)"
    using a later_l2_knows[OF later_l2_ticks] by simp
next
  assume a: "j < length (persons u) \<and> knows_about_trend_l1 (persons u ! j)"
  show "knows_about_trend_l1 (persons (state_of (move_around_l1 i u)) ! j)"
    using a frame_l1_knows[OF frame_l1_move_around] by simp
  show "knows_about_trend_l1 (persons (state_of (spread_news_l1 i u)) ! j)"
    using a frame_l1_knows[OF frame_l1_spread_news] by simp
  show "knows_about_trend_l1 (persons (learn_about_trend_l1 i u) ! j)"
    using a frame_l1_knows[OF frame_l1_learn_about_trend] by simp
  show "knows_about_trend_l1 (persons (spread_news_among_followers k followers u) ! j)"
    using a frame_l1_knows[OF frame_l1_spread_news_among_followers] by simp
  show "knows_about_trend_l1 (persons (state_of (step_l1 u)) ! j)"
    using a frame_l1_knows[OF frame_l1_step] by simp
  show "knows_about_trend_l1 (persons (state_of (perform_step_l1 u)) ! j)"
    using a later_l1_knows[OF later_l1_perform_step] by simp
  show "knows_about_trend_l1 (persons (state_of (ticks perform_step_l1 n u)) ! j)"
    using a later_l1_knows[OF later_l1_ticks] by simp
qed

theorem informed_never_reverts_witness:
  "0 < length (persons example_hw) \<and> is_infected (persons example_hw ! 0)
   \<and> is_infected (persons (state_of (perform_step_hw example_hw)) ! 0)
   \<and> is_infected (persons (state_of (ticks perform_step_hw 5 example_hw)) ! 0)
   \<and> 0 < length (persons example_l2) \<and> knows_about_trend (persons example_l2 ! 0)
   \<and> knows_about_trend (persons (state_of (perform_step_l2 example_l2)) ! 0)
   \<and> knows_about_trend (persons (state_of (ticks perform_step_l2 5 example_l2)) ! 0)
   \<and> 0 < length (persons example_l1) \<and> knows_about_trend_l1 (persons example_l1 ! 0)
   \<and> knows_about_trend_l1 (persons (state_of (perform_step_l1 example_l1)) ! 0)
   \<and> knows_about_trend_l1 (persons (state_of (ticks perform_step_l1 5 example_l1)) ! 0)"
proof -
  have h: "0 < length (persons example_hw) \<and> is_infected (persons example_hw ! 0)"
    by (simp add: example_hw_persons)
  have t: "0 < length (persons example_l2) \<and> knows_about_trend (persons example_l2 ! 0)"
    by (simp add: example_l2_persons)
  have u: "0 < length (persons example_l1) \<and> knows_about_trend_l1 (persons example_l1 ! 0)"
    by (simp add: example_l1_persons)
  note inst = informed_never_reverts[where j = 0 and h = example_hw and t = example_l2
      and u = example_l1 and n = 5]
  show ?thesis
    using h t u inst by blast
qed

section \<open>The stop condition\<close>

lemma perform_step_hw_keeps_guard:
  assumes "running s \<or> uninfected_count s = 0" and "perform_step_hw s = Done s'"
  shows "running s' \<or> uninfected_count s' = 0"
proof (cases "uninfected_count s = 0")
  case True
  then show ?thesis using assms(2)
    by (auto simp: perform_step_hw_def uninfected_count_def)
next
  case False
  then have "step_hw s = Done s'" using assms(2)
    by (simp add: perform_step_hw_def uninfected_count_def)
  then have "frame_hw s s'" using frame_hw_step[of s] by simp
  then show ?thesis using False assms(1) by (simp add: frame_hw_def)
qed

lemma ticks_hw_keep_guard:
  "running s \<or> uninfected_count s = 0 \<Longrightarrow> ticks perform_step_hw n s = Done s'
     \<Longrightarrow> running s' \<or> uninfected_count s' = 0"
proof (induction n arbitrary: s)
  case 0
  then show ?case by simp
next
  case (Suc n)
  show ?case
  proof (cases "perform_step_hw s")
    case (Done s1)
    have "running s1 \<or> uninfected_count s1 = 0"
      using Suc.prems(1) Done by (rule perform_step_hw_keeps_guard)
    moreover have "ticks perform_step_hw n s1 = Done s'"
      using Suc.prems(2) Done by (simp add: and_then_def)
    ultimately show ?thesis by (rule Suc.IH)
  next
    case (Raised e s1)
    then show ?thesis using Suc.prems(2) by (simp add: and_then_def)
  qed
qed

lemma perform_step_l2_keeps_guard:
  assumes "running s \<or> uninformed_count_l2 s = 0" and "perform_step_l2 s = Done s'"
  shows "running s' \<or> uninformed_count_l2 s' = 0"
proof (cases "uninformed_count_l2 s = 0")
  case True
  then show ?thesis using assms(2)
    by (auto simp: perform_step_l2_def uninformed_count_l2_def)
next
  case False
  then have "step_l2 s = Done s'" using assms(2)
    by (simp add: perform_step_l2_def uninformed_count_l2_def)
  then have "frame_l2 s s'" using frame_l2_step[of s] by simp
  then show ?thesis using False assms(1) by (simp add: frame_l2_def)
qed

lemma ticks_l2_keep_guard:
  "running s \<or> uninformed_count_l2 s = 0 \<Longrightarrow> ticks perform_step_l2 n s = Done s'
     \<Longrightarrow> running s' \<or> uninformed_count_l2 s' = 0"
proof (induction n arbitrary: s)
  case 0
  then show ?case by simp
next
  case (Suc n)
  show ?case
  proof (cases "perform_step_l2 s")
    case (Done s1)
    have "running s1 \<or> uninformed_count_l2 s1 = 0"
      using Suc.prems(1) Done by (rule perform_step_l2_keeps_guard)
    moreover have "ticks perform_step_l2 n s1 = Done s'"
      using Suc.prems(2) Done by (simp add: and_then_def)
    ultimately show ?thesis by (rule Suc.IH)
  next
    case (Raised e s1)
    then show ?thesis using Suc.prems(2) by (simp add: and_then_def)
  qed
qed

lemma perform_step_l1_keeps_guard:
  assumes "running s \<or> uninformed_count_l1 s = 0" and "perform_step_l1 s = Done s'"
  shows "running s' \<or> uninformed_count_l1 s' = 0"
proof (cases "uninformed_count_l1 s = 0")
  case True
  then show ?thesis using assms(2)
    by (auto simp: perform_step_l1_def uninformed_count_l1_def)
next
  case False
  then have "step_l1 s = Done s'" using assms(2)
    by (simp add: perform_step_l1_def uninformed_count_l1_def)
  then have "frame_l1 s s'" using frame_l1_step[of s] by simp
  then show ?thesis using False assms(1) by (simp add: frame_l1_def)
qed

lemma ticks_l1_keep_guard:
  "running s \<or> uninformed_count_l1 s = 0 \<Longrightarrow> ticks perform_step_l1 n s = Done s'
     \<Longrightarrow> running s' \<or> uninformed_count_l1 s' = 0"
proof (induction n arbitrary: s)
  case 0
  then show ?case by simp
next
  case (Suc n)
  show ?case
  proof (cases "perform_step_l1 s")
    case (Done s1)
    have "running s1 \<or> uninformed_count_l1 s1 = 0"
      using Suc.prems(1) Done by (rule perform_step_l1_keeps_guard)
    moreover have "ticks perform_step_l1 n s1 = Done s'"
      using Suc.prems(2) Done by (simp add: and_then_def)
    ultimately show ?thesis by (rule Suc.IH)
  next
    case (Raised e s1)
    then show ?thesis using Suc.prems(2) by (simp add: and_then_def)
  qed
qed

lemma later_hw_running: "later_hw s s' \<Longrightarrow> \<not> running s \<Longrightarrow> \<not> running s'"
  by (simp add: later_hw_def)

lemma later_l2_running: "later_l2 s s' \<Longrightarrow> \<not> running s \<Longrightarrow> \<not> running s'"
  by (simp add: later_l2_def)

lemma later_l1_running: "later_l1 s s' \<Longrightarrow> \<not> running s \<Longrightarrow> \<not> running s'"
  by (simp add: later_l1_def)

lemma stop_condition_hw:
  "(uninfected_count s = 0 \<longrightarrow> perform_step_hw s = Done (s\<lparr>running := False\<rparr>))
   \<and> (uninfected_count s \<noteq> 0 \<longrightarrow>
        perform_step_hw s = step_hw s \<and> running (state_of (perform_step_hw s)) = running s)
   \<and> (\<not> running s \<longrightarrow> \<not> running (state_of (ticks perform_step_hw n s)))
   \<and> (running s \<and> ticks perform_step_hw n s = Done s' \<longrightarrow>
        (running (state_of (perform_step_hw s')) \<longleftrightarrow> uninfected_count s' \<noteq> 0))"
proof (intro conjI impI)
  assume "uninfected_count s = 0"
  then show "perform_step_hw s = Done (s\<lparr>running := False\<rparr>)"
    by (simp add: perform_step_hw_def uninfected_count_def)
next
  assume a: "uninfected_count s \<noteq> 0"
  then show "perform_step_hw s = step_hw s"
    by (simp add: perform_step_hw_def uninfected_count_def)
  then show "running (state_of (perform_step_hw s)) = running s"
    using frame_hw_step[of s] by (simp add: frame_hw_def)
next
  assume "\<not> running s"
  then show "\<not> running (state_of (ticks perform_step_hw n s))"
    using later_hw_running[OF later_hw_ticks] by simp
next
  assume a: "running s \<and> ticks perform_step_hw n s = Done s'"
  then have g: "running s' \<or> uninfected_count s' = 0"
    using ticks_hw_keep_guard[of s n s'] by simp
  show "running (state_of (perform_step_hw s')) \<longleftrightarrow> uninfected_count s' \<noteq> 0"
  proof (cases "uninfected_count s' = 0")
    case True
    then show ?thesis by (simp add: perform_step_hw_def uninfected_count_def)
  next
    case False
    then have "perform_step_hw s' = step_hw s'"
      by (simp add: perform_step_hw_def uninfected_count_def)
    then have "running (state_of (perform_step_hw s')) = running s'"
      using frame_hw_step[of s'] by (simp add: frame_hw_def)
    then show ?thesis using False g by simp
  qed
qed

lemma stop_condition_l2:
  "(uninformed_count_l2 s = 0 \<longrightarrow> perform_step_l2 s = Done (s\<lparr>running := False\<rparr>))
   \<and> (uninformed_count_l2 s \<noteq> 0 \<longrightarrow>
        perform_step_l2 s = step_l2 s \<and> running (state_of (perform_step_l2 s)) = running s)
   \<and> (\<not> running s \<longrightarrow> \<not> running (state_of (ticks perform_step_l2 n s)))
   \<and> (running s \<and> ticks perform_step_l2 n s = Done s' \<longrightarrow>
        (running (state_of (perform_step_l2 s')) \<longleftrightarrow> uninformed_count_l2 s' \<noteq> 0))"
proof (intro conjI impI)
  assume "uninformed_count_l2 s = 0"
  then show "perform_step_l2 s = Done (s\<lparr>running := False\<rparr>)"
    by (simp add: perform_step_l2_def uninformed_count_l2_def)
next
  assume a: "uninformed_count_l2 s \<noteq> 0"
  then show "perform_step_l2 s = step_l2 s"
    by (simp add: perform_step_l2_def uninformed_count_l2_def)
  then show "running (state_of (perform_step_l2 s)) = running s"
    using frame_l2_step[of s] by (simp add: frame_l2_def)
next
  assume "\<not> running s"
  then show "\<not> running (state_of (ticks perform_step_l2 n s))"
    using later_l2_running[OF later_l2_ticks] by simp
next
  assume a: "running s \<and> ticks perform_step_l2 n s = Done s'"
  then have g: "running s' \<or> uninformed_count_l2 s' = 0"
    using ticks_l2_keep_guard[of s n s'] by simp
  show "running (state_of (perform_step_l2 s')) \<longleftrightarrow> uninformed_count_l2 s' \<noteq> 0"
  proof (cases "uninformed_count_l2 s' = 0")
    case True
    then show ?thesis by (simp add: perform_step_l2_def uninformed_count_l2_def)
  next
    case False
    then have "perform_step_l2 s' = step_l2 s'"
      by (simp add: perform_step_l2_def uninformed_count_l2_def)
    then have "running (state_of (perform_step_l2 s')) = running s'"
      using frame_l2_step[of s'] by (simp add: frame_l2_def)
    then show ?thesis using False g by simp
  qed
qed

lemma stop_condition_l1:
  "(uninformed_count_l1 s = 0 \<longrightarrow> perform_step_l1 s = Done (s\<lparr>running := False\<rparr>))
   \<and> (uninformed_count_l1 s \<noteq> 0 \<longrightarrow>
        perform_step_l1 s = step_l1 s \<and> running (state_of (perform_step_l1 s)) = running s)
   \<and> (\<not> running s \<longrightarrow> \<not> running (state_of (ticks perform_step_l1 n s)))
   \<and> (running s \<and> ticks perform_step_l1 n s = Done s' \<longrightarrow>
        (running (state_of (perform_step_l1 s')) \<longleftrightarrow> uninformed_count_l1 s' \<noteq> 0))"
proof (intro conjI impI)
  assume "uninformed_count_l1 s = 0"
  then show "perform_step_l1 s = Done (s\<lparr>running := False\<rparr>)"
    by (simp add: perform_step_l1_def uninformed_count_l1_def)
next
  assume a: "uninformed_count_l1 s \<noteq> 0"
  then show "perform_step_l1 s = step_l1 s"
    by (simp add: perform_step_l1_def uninformed_count_l1_def)
  then show "running (state_of (perform_step_l1 s)) = running s"
    using frame_l1_step[of s] by (simp add: frame_l1_def)
next
  assume "\<not> running s"
  then show "\<not> running (state_of (ticks perform_step_l1 n s))"
    using later_l1_running[OF later_l1_ticks] by simp
next
  assume a: "running s \<and> ticks perform_step_l1 n s = Done s'"
  then have g: "running s' \<or> uninformed_count_l1 s' = 0"
    using ticks_l1_keep_guard[of s n s'] by simp
  show "running (state_of (perform_step_l1 s')) \<longleftrightarrow> uninformed_count_l1 s' \<noteq> 0"
  proof (cases "uninformed_count_l1 s' = 0")
    case True
    then show ?thesis by (simp add: perform_step_l1_def uninformed_count_l1_def)
  next
    case False
    then have "perform_step_l1 s' = step_l1 s'"
      by (simp add: perform_step_l1_def uninformed_count_l1_def)
    then have "running (state_of (perform_step_l1 s')) = running s'"
      using frame_l1_step[of s'] by (simp add: frame_l1_def)
    then show ?thesis using False g by simp
  qed
qed

text \<open>
  Claim C2: the step of each model first tests whether no agent is left uninfected
  (uninformed). If so it only sets the running flag to false: no agent acts and nothing else
  changes. If not it runs the body of the step, which leaves the flag as it is. So in a
  run that starts with the flag true, the flag falls at a tick exactly when every agent
  was already infected (informed) at the start of that tick, that is at the tick after the
  last agent became infected, and never before; and once false it stays false through
  any number of ticks.
\<close>

theorem stop_condition_guard:
  "((uninfected_count h = 0 \<longrightarrow> perform_step_hw h = Done (h\<lparr>running := False\<rparr>))
    \<and> (uninfected_count h \<noteq> 0 \<longrightarrow>
         perform_step_hw h = step_hw h \<and> running (state_of (perform_step_hw h)) = running h)
    \<and> (\<not> running h \<longrightarrow> \<not> running (state_of (ticks perform_step_hw n h)))
    \<and> (running h \<and> ticks perform_step_hw n h = Done h' \<longrightarrow>
         (running (state_of (perform_step_hw h')) \<longleftrightarrow> uninfected_count h' \<noteq> 0)))
   \<and> ((uninformed_count_l2 t = 0 \<longrightarrow> perform_step_l2 t = Done (t\<lparr>running := False\<rparr>))
    \<and> (uninformed_count_l2 t \<noteq> 0 \<longrightarrow>
         perform_step_l2 t = step_l2 t \<and> running (state_of (perform_step_l2 t)) = running t)
    \<and> (\<not> running t \<longrightarrow> \<not> running (state_of (ticks perform_step_l2 n t)))
    \<and> (running t \<and> ticks perform_step_l2 n t = Done t' \<longrightarrow>
         (running (state_of (perform_step_l2 t')) \<longleftrightarrow> uninformed_count_l2 t' \<noteq> 0)))
   \<and> ((uninformed_count_l1 u = 0 \<longrightarrow> perform_step_l1 u = Done (u\<lparr>running := False\<rparr>))
    \<and> (uninformed_count_l1 u \<noteq> 0 \<longrightarrow>
         perform_step_l1 u = step_l1 u \<and> running (state_of (perform_step_l1 u)) = running u)
    \<and> (\<not> running u \<longrightarrow> \<not> running (state_of (ticks perform_step_l1 n u)))
    \<and> (running u \<and> ticks perform_step_l1 n u = Done u' \<longrightarrow>
         (running (state_of (perform_step_l1 u')) \<longleftrightarrow> uninformed_count_l1 u' \<noteq> 0)))"
  by (rule conjI, rule stop_condition_hw, rule conjI, rule stop_condition_l2,
      rule stop_condition_l1)

lemma example_counts:
  "uninfected_count example_hw = 2" "uninformed_count_l2 example_l2 = 2"
  "uninformed_count_l1 example_l1 = 2"
  "running example_hw" "running example_l2" "running example_l1"
  by (simp_all add: uninfected_count_def uninformed_count_l2_def uninformed_count_l1_def
      example_hw_persons example_l2_persons example_l1_persons)
    (simp_all add: example_hw_def example_l2_def example_l1_def)

lemma stopped_counts:
  "uninfected_count (example_hw\<lparr>running := False, persons := [persons example_hw ! 0]\<rparr>) = 0"
  "uninformed_count_l2 (example_l2\<lparr>running := False, persons := [persons example_l2 ! 0]\<rparr>) = 0"
  "uninformed_count_l1 (example_l1\<lparr>running := False, persons := [persons example_l1 ! 0]\<rparr>) = 0"
  by (simp_all add: uninfected_count_def uninformed_count_l2_def uninformed_count_l1_def
      example_hw_persons example_l2_persons example_l1_persons)

theorem stop_condition_guard_witness:
  "uninfected_count example_hw \<noteq> 0 \<and> running example_hw
   \<and> ticks perform_step_hw 0 example_hw = Done example_hw
   \<and> perform_step_hw example_hw = step_hw example_hw
   \<and> running (state_of (perform_step_hw example_hw))
   \<and> uninformed_count_l2 example_l2 \<noteq> 0 \<and> running example_l2
   \<and> ticks perform_step_l2 0 example_l2 = Done example_l2
   \<and> perform_step_l2 example_l2 = step_l2 example_l2
   \<and> running (state_of (perform_step_l2 example_l2))
   \<and> uninformed_count_l1 example_l1 \<noteq> 0 \<and> running example_l1
   \<and> ticks perform_step_l1 0 example_l1 = Done example_l1
   \<and> perform_step_l1 example_l1 = step_l1 example_l1
   \<and> running (state_of (perform_step_l1 example_l1))
   \<and> uninfected_count (example_hw\<lparr>running := False, persons := [persons example_hw ! 0]\<rparr>) = 0
   \<and> \<not> running (example_hw\<lparr>running := False, persons := [persons example_hw ! 0]\<rparr>)
   \<and> perform_step_hw (example_hw\<lparr>running := False, persons := [persons example_hw ! 0]\<rparr>)
       = Done (example_hw\<lparr>running := False, persons := [persons example_hw ! 0]\<rparr>)
   \<and> \<not> running (state_of (ticks perform_step_hw 3 (example_hw\<lparr>running := False, persons := [persons example_hw ! 0]\<rparr>)))
   \<and> uninformed_count_l2 (example_l2\<lparr>running := False, persons := [persons example_l2 ! 0]\<rparr>) = 0
   \<and> \<not> running (example_l2\<lparr>running := False, persons := [persons example_l2 ! 0]\<rparr>)
   \<and> perform_step_l2 (example_l2\<lparr>running := False, persons := [persons example_l2 ! 0]\<rparr>)
       = Done (example_l2\<lparr>running := False, persons := [persons example_l2 ! 0]\<rparr>)
   \<and> \<not> running (state_of (ticks perform_step_l2 3 (example_l2\<lparr>running := False, persons := [persons example_l2 ! 0]\<rparr>)))
   \<and> uninformed_count_l1 (example_l1\<lparr>running := False, persons := [persons example_l1 ! 0]\<rparr>) = 0
   \<and> \<not> running (example_l1\<lparr>running := False, persons := [persons example_l1 ! 0]\<rparr>)
   \<and> perform_step_l1 (example_l1\<lparr>running := False, persons := [persons example_l1 ! 0]\<rparr>)
       = Done (example_l1\<lparr>running := False, persons := [persons example_l1 ! 0]\<rparr>)
   \<and> \<not> running (state_of (ticks perform_step_l1 3 (example_l1\<lparr>running := False, persons := [persons example_l1 ! 0]\<rparr>)))"
proof -
  note a = stop_condition_guard[where h = example_hw and h' = example_hw
      and t = example_l2 and t' = example_l2 and u = example_l1 and u' = example_l1 and n = 0]
  note b = stop_condition_guard[where h = "example_hw\<lparr>running := False, persons := [persons example_hw ! 0]\<rparr>"
      and t = "example_l2\<lparr>running := False, persons := [persons example_l2 ! 0]\<rparr>"
      and u = "example_l1\<lparr>running := False, persons := [persons example_l1 ! 0]\<rparr>" and n = 3]
  have r: "\<not> running (example_hw\<lparr>running := False, persons := [persons example_hw ! 0]\<rparr>)"
    "\<not> running (example_l2\<lparr>running := False, persons := [persons example_l2 ! 0]\<rparr>)"
    "\<not> running (example_l1\<lparr>running := False, persons := [persons example_l1 ! 0]\<rparr>)"
    by simp_all
  have z: "ticks perform_step_hw 0 example_hw = Done example_hw"
    "ticks perform_step_l2 0 example_l2 = Done example_l2"
    "ticks perform_step_l1 0 example_l1 = Done example_l1"
    by simp_all
  have e: "uninfected_count example_hw \<noteq> 0" "uninformed_count_l2 example_l2 \<noteq> 0"
    "uninformed_count_l1 example_l1 \<noteq> 0"
    by (simp_all add: example_counts)
  have s: "(example_hw\<lparr>running := False, persons := [persons example_hw ! 0]\<rparr>)\<lparr>running := False\<rparr>
             = example_hw\<lparr>running := False, persons := [persons example_hw ! 0]\<rparr>"
    "(example_l2\<lparr>running := False, persons := [persons example_l2 ! 0]\<rparr>)\<lparr>running := False\<rparr>
             = example_l2\<lparr>running := False, persons := [persons example_l2 ! 0]\<rparr>"
    "(example_l1\<lparr>running := False, persons := [persons example_l1 ! 0]\<rparr>)\<lparr>running := False\<rparr>
             = example_l1\<lparr>running := False, persons := [persons example_l1 ! 0]\<rparr>"
    by simp_all
  show ?thesis
    using a b r z e s example_counts(4-6) stopped_counts by metis
qed

section \<open>The population\<close>

lemma place_rel:
  assumes "\<And>a. R a a" and "\<And>a b c. R a b \<Longrightarrow> R b c \<Longrightarrow> R a c"
    and "\<And>i c a. R a (state_of (set_cell i c a))"
  shows "R s (state_of (place i xs ys s))"
proof (induction i xs ys s rule: place.induct)
  case (1 i x xs y ys s)
  show ?case
  proof (cases "i < length (persons s)")
    case True
    show ?thesis
    proof (cases "set_cell i (x, y) s")
      case (Done s')
      have "R s s'" using assms(3)[of s i "(x, y)"] Done by simp
      moreover have "R s' (state_of (place (Suc i) xs ys s'))" using 1 True Done by simp
      ultimately show ?thesis using True Done assms(2) by auto
    next
      case (Raised e s')
      then show ?thesis using True assms(3)[of s i "(x, y)"] by simp
    qed
  next
    case False
    then show ?thesis by (simp add: assms(1))
  qed
qed (simp_all add: assms(1))

lemma place_l1_rel:
  assumes "\<And>a. R a a" and "\<And>a b c. R a b \<Longrightarrow> R b c \<Longrightarrow> R a c"
    and "\<And>i c a. R a (place_agent i c a)"
  shows "R s (place_l1 i xs ys s)"
proof (induction i xs ys s rule: place_l1.induct)
  case (1 i x xs y ys s)
  show ?case
  proof (cases "i < length (persons s)")
    case True
    have "R s (place_agent i (x, y) s)" by (rule assms(3))
    moreover have "R (place_agent i (x, y) s) (place_l1 (Suc i) xs ys (place_agent i (x, y) s))"
      using 1 True by simp
    ultimately show ?thesis using True assms(2) by auto
  next
    case False
    then show ?thesis by (simp add: assms(1))
  qed
qed (simp_all add: assms(1))

lemma map_update_same: "f v = f (xs ! i) \<Longrightarrow> map f (xs[i := v]) = map f xs"
  by (cases "i < length xs") (simp_all add: list_eq_iff_nth_eq nth_update_if not_less)

lemma set_cell_persons:
  assumes "\<And>a c. f (a\<lparr>cell := c\<rparr>) = f a"
  shows "map f (persons (state_of (set_cell i c s))) = map f (persons s)"
  by (auto simp: set_cell_def and_then_def remove_agent_def add_agent_def map_update_same assms
      split: option.splits)

lemma place_agent_persons:
  assumes "\<And>a c. f (a\<lparr>pos := c\<rparr>) = f a"
  shows "map f (persons (place_agent i c s)) = map f (persons s)"
  by (simp add: place_agent_def add_agent_def map_update_same assms)

lemma map_place:
  assumes "\<And>a c. f (a\<lparr>cell := c\<rparr>) = f a"
  shows "map f (persons (state_of (place i xs ys s))) = map f (persons s)"
  by (rule place_rel[where R = "\<lambda>a b. map f (persons b) = map f (persons a)"])
    (simp_all add: set_cell_persons[of f, OF assms])

lemma map_place_l1:
  assumes "\<And>a c. f (a\<lparr>pos := c\<rparr>) = f a"
  shows "map f (persons (place_l1 i xs ys s)) = map f (persons s)"
  by (rule place_l1_rel[where R = "\<lambda>a b. map f (persons b) = map f (persons a)"])
    (simp_all add: place_agent_persons[of f, OF assms])

lemma place_agents_on_grid_persons:
  assumes "\<And>a c. f (a\<lparr>cell := c\<rparr>) = f a"
  shows "map f (persons (state_of (place_agents_on_grid s))) = map f (persons s)"
  by (simp add: place_agents_on_grid_def map_place[of f, OF assms] split: option.splits)

lemma place_agents_on_grid_l1_persons:
  assumes "\<And>a c. f (a\<lparr>pos := c\<rparr>) = f a"
  shows "map f (persons (state_of (place_agents_on_grid_l1 s))) = map f (persons s)"
  by (simp add: place_agents_on_grid_l1_def map_place_l1[of f, OF assms] split: option.splits)

lemma place_agents_on_grid_influencers:
  "influencers (state_of (place_agents_on_grid (s :: model_l2))) = influencers s
   \<and> influencer_group_size (state_of (place_agents_on_grid s)) = influencer_group_size s"
proof -
  have "influencers (state_of (place i xs ys a)) = influencers a
        \<and> influencer_group_size (state_of (place i xs ys a)) = influencer_group_size a"
    for i xs ys and a :: model_l2
    by (rule place_rel[where R = "\<lambda>a b. influencers b = influencers a
          \<and> influencer_group_size b = influencer_group_size a"])
      (auto simp: set_cell_def and_then_def remove_agent_def add_agent_def split: option.splits)
  then show ?thesis
    by (simp add: place_agents_on_grid_def split: option.splits)
qed

lemma place_agents_on_grid_l1_influencers:
  "influencers_l1 (state_of (place_agents_on_grid_l1 (s :: model_l1))) = influencers_l1 s
   \<and> influencer_group_size_l1 (state_of (place_agents_on_grid_l1 s)) = influencer_group_size_l1 s"
proof -
  have "influencers_l1 (place_l1 i xs ys a) = influencers_l1 a
        \<and> influencer_group_size_l1 (place_l1 i xs ys a) = influencer_group_size_l1 a"
    for i xs ys and a :: model_l1
    by (rule place_l1_rel[where R = "\<lambda>a b. influencers_l1 b = influencers_l1 a
          \<and> influencer_group_size_l1 b = influencer_group_size_l1 a"])
      (auto simp: place_agent_def add_agent_def)
  then show ?thesis
    by (simp add: place_agents_on_grid_l1_def split: option.splits)
qed

text \<open>
  While the agents from \<open>i\<close> on have no cell yet, the loop of \<open>place_agents_on_grid\<close>
  runs to its end.
\<close>

lemma place_done:
  assumes "\<forall>j. i \<le> j \<and> j < length (persons s) \<longrightarrow> cell (persons s ! j) = None"
  shows "\<exists>s'. place i xs ys s = Done s'"
  using assms
proof (induction i xs ys s rule: place.induct)
  case (1 i x xs y ys s)
  show ?case
  proof (cases "i < length (persons s)")
    case True
    then have n: "cell (persons s ! i) = None" using 1(2) by simp
    let ?s' = "add_agent i (x, y) (s\<lparr>persons := (persons s)[i := (persons s ! i)\<lparr>cell := Some (x, y)\<rparr>]\<rparr>)"
    have d: "set_cell i (x, y) s = Done ?s'"
      using n by (simp add: set_cell_def and_then_def)
    have "\<forall>j. Suc i \<le> j \<and> j < length (persons ?s') \<longrightarrow> cell (persons ?s' ! j) = None"
      using 1(2) by (simp add: add_agent_def)
    then have "\<exists>s'. place (Suc i) xs ys ?s' = Done s'"
      using 1(1)[OF True d] by simp
    then show ?thesis using True d by simp
  next
    case False
    then show ?thesis by simp
  qed
qed simp_all

lemma init_hw_buckets:
  assumes "init_hw population infected comorbid p w h r g = Done s"
  shows "map (\<lambda>a. (is_infected a, has_comorbidities a)) (persons s) =
           replicate (nat infected) (True, False) @ replicate (nat comorbid) (False, True)
           @ replicate (nat (population - infected - comorbid)) (False, False)"
proof -
  let ?f = "\<lambda>a. (is_infected a, has_comorbidities a)"
  let ?s0 = "\<lparr>running = True, random_py = r, rng = g, population_size = population,
           grid_width = w, grid_height = h, persons = [], cell_agents = (\<lambda>c. []),
           infected_population_size = infected, comorbidities_population_size = comorbid,
           model_moving_probability = p,
           properties = (\<lambda>c. \<lparr>cell_is_infected = False, virus_persistence = 0\<rparr>),
           infected_property_layer = (\<lambda>c. False),
           direct_infections = 0, location_infections = 0\<rparr> :: model_hw"
  obtain s1 where g: "generate_person_agents_hw ?s0 = Done s1"
    and s: "s = initialize_infected_property_layer s1"
    using assms by (cases "generate_person_agents_hw ?s0") (auto simp: init_hw_def and_then_def)
  have "map ?f (persons s1) = map ?f (persons (state_of (generate_person_agents_hw ?s0)))"
    using g by simp
  also have "\<dots> = replicate (nat infected) (True, False) @ replicate (nat comorbid) (False, True)
           @ replicate (nat (population - infected - comorbid)) (False, False)"
    unfolding generate_person_agents_hw_def
    by (subst place_agents_on_grid_persons) (simp_all add: create_agents_def new_person_hw_def)
  finally show ?thesis using s by (simp add: initialize_infected_property_layer_def)
qed

lemma init_l2_buckets:
  assumes "init_l2 population influencer_group facilities w h r g = Done s"
  shows "1 \<le> population \<and>
         map (\<lambda>a. (sport_enthusiast a, knows_about_trend a)) (persons s) =
           replicate (nat (1 + int (picks r 0 mod nat population))) (True, False)
           @ replicate (nat (population - (1 + int (picks r 0 mod nat population)))) (False, False)
           @ [(True, True)]
         \<and> length (influencers s) = nat influencer_group"
proof -
  let ?f = "\<lambda>a. (sport_enthusiast a, knows_about_trend a)"
  let ?s0 = "\<lparr>running = True, random_py = r, rng = g, population_size = population,
           grid_width = w, grid_height = h, persons = [], cell_agents = (\<lambda>c. []),
           influencer_group_size = influencer_group, influencers = [],
           direct_interactions_count = 0, indirect_interactions_count = 0,
           successful_direct_interactions_count = 0,
           successful_indirect_interactions_count = 0,
           sport_facility = (\<lambda>c. None)\<rparr> :: model_l2"
  obtain s1 where g: "generate_person_agents_l2 ?s0 = Done s1"
    and s: "s = generate_influencer_agents_l2 s1"
    using assms by (cases "generate_person_agents_l2 ?s0") (auto simp: init_l2_def and_then_def)
  have pop: "1 \<le> population"
    using g by (auto simp: generate_person_agents_l2_def random_randint_def split: if_splits)
  let ?k = "1 + int (picks r 0 mod nat population)"
  let ?s1 = "?s0\<lparr>random_py := r\<lparr>picks := \<lambda>n. picks r (Suc n)\<rparr>,
                   persons := persons ?s0
                     @ create_agents ?k (new_person_l2 True False 0.5 0.5)
                     @ create_agents (population - ?k) (new_person_l2 False False 0.5 0.7)
                     @ [new_person_l2 True True 0.5 0.7],
                   population_size := population_size ?s0 + 1\<rparr>"
  have e: "generate_person_agents_l2 ?s0 = place_agents_on_grid ?s1"
    using pop by (simp add: generate_person_agents_l2_def random_randint_def Let_def)
  have "map ?f (persons s1) = map ?f (persons (state_of (place_agents_on_grid ?s1)))"
    using g e by simp
  also have "\<dots> = map ?f (persons ?s1)"
    by (rule place_agents_on_grid_persons) simp
  also have "\<dots> = replicate (nat ?k) (True, False)
           @ replicate (nat (population - ?k)) (False, False) @ [(True, True)]"
    by (simp add: create_agents_def new_person_l2_def)
  finally have m: "map ?f (persons s1) = replicate (nat ?k) (True, False)
           @ replicate (nat (population - ?k)) (False, False) @ [(True, True)]" .
  have "influencers s1 = influencers (state_of (place_agents_on_grid ?s1))"
    using g e by simp
  also have "\<dots> = []"
    by (simp add: place_agents_on_grid_influencers)
  finally have i: "influencers s1 = []" .
  have "influencer_group_size s1 = influencer_group_size (state_of (place_agents_on_grid ?s1))"
    using g e by simp
  also have "\<dots> = influencer_group"
    by (simp add: place_agents_on_grid_influencers)
  finally have n: "influencer_group_size s1 = influencer_group" .
  show ?thesis using pop m i n s
    by (simp add: generate_influencer_agents_l2_def create_agents_def)
qed

lemma init_l1_buckets:
  assumes "init_l1 population influencer_group w h r g = Done s"
  shows "1 \<le> population \<and>
         map (\<lambda>a. (sport_enthusiast_l1 a, knows_about_trend_l1 a)) (persons s) =
           replicate (nat (1 + int (picks r 0 mod nat population))) (True, False)
           @ replicate (nat (population - (1 + int (picks r 0 mod nat population)))) (False, False)
           @ [(True, True)]
         \<and> length (influencers_l1 s) = nat influencer_group"
proof -
  let ?f = "\<lambda>a. (sport_enthusiast_l1 a, knows_about_trend_l1 a)"
  let ?s0 = "\<lparr>running = True, random_py = r, rng = g, population_size = population,
           grid_width = w, grid_height = h, persons = [], cell_agents = (\<lambda>c. []),
           influencer_group_size_l1 = influencer_group, influencers_l1 = []\<rparr> :: model_l1"
  obtain s1 where g: "generate_person_agents_l1 ?s0 = Done s1"
    and s: "s = generate_influencer_agents_l1 s1"
    using assms by (cases "generate_person_agents_l1 ?s0") (auto simp: init_l1_def and_then_def)
  have pop: "1 \<le> population"
    using g by (auto simp: generate_person_agents_l1_def random_randint_def split: if_splits)
  let ?k = "1 + int (picks r 0 mod nat population)"
  let ?s1 = "?s0\<lparr>random_py := r\<lparr>picks := \<lambda>n. picks r (Suc n)\<rparr>,
                   persons := persons ?s0
                     @ create_agents ?k (new_person_l1 True False 0.5 0.2)
                     @ create_agents (population - ?k) (new_person_l1 False False 0.5 0.2)
                     @ [new_person_l1 True True 0.5 0.2],
                   population_size := population_size ?s0 + 1\<rparr>"
  have e: "generate_person_agents_l1 ?s0 = place_agents_on_grid_l1 ?s1"
    using pop by (simp add: generate_person_agents_l1_def random_randint_def Let_def)
  have "map ?f (persons s1) = map ?f (persons (state_of (place_agents_on_grid_l1 ?s1)))"
    using g e by simp
  also have "\<dots> = map ?f (persons ?s1)"
    by (rule place_agents_on_grid_l1_persons) simp
  also have "\<dots> = replicate (nat ?k) (True, False)
           @ replicate (nat (population - ?k)) (False, False) @ [(True, True)]"
    by (simp add: create_agents_def new_person_l1_def)
  finally have m: "map ?f (persons s1) = replicate (nat ?k) (True, False)
           @ replicate (nat (population - ?k)) (False, False) @ [(True, True)]" .
  have "influencers_l1 s1 = influencers_l1 (state_of (place_agents_on_grid_l1 ?s1))"
    using g e by simp
  also have "\<dots> = []"
    by (simp add: place_agents_on_grid_l1_influencers)
  finally have i: "influencers_l1 s1 = []" .
  have "influencer_group_size_l1 s1 = influencer_group_size_l1 (state_of (place_agents_on_grid_l1 ?s1))"
    using g e by simp
  also have "\<dots> = influencer_group"
    by (simp add: place_agents_on_grid_l1_influencers)
  finally have n: "influencer_group_size_l1 s1 = influencer_group" .
  show ?thesis using pop m i n s
    by (simp add: generate_influencer_agents_l1_def create_agents_def)
qed

lemma unplaced_replicate:
  "j < length (replicate n a) \<Longrightarrow> cell a = None \<Longrightarrow> cell (replicate n a ! j) = None"
  by simp

lemma place_agents_on_grid_done:
  assumes "0 \<le> population_size s" and "0 < grid_width s" and "0 < grid_height s"
    and "persons s \<noteq> []" and "\<forall>a \<in> set (persons s). cell a = None"
  shows "\<exists>s'. place_agents_on_grid s = Done s'"
proof -
  obtain x_range g1
    where x: "rng_integers (rng s) 0 (grid_width s) (population_size s) = Some (x_range, g1)"
    using assms(1,2) by (simp add: rng_integers_def)
  obtain y_range g2
    where y: "rng_integers g1 0 (grid_height s) (population_size s) = Some (y_range, g2)"
    using assms(1,3) by (simp add: rng_integers_def)
  have "\<exists>s'. place 0 x_range y_range (s\<lparr>rng := g2\<rparr>) = Done s'"
    by (rule place_done) (use assms(5) in auto)
  then show ?thesis
    using x y assms(4) by (simp add: place_agents_on_grid_def)
qed

lemma init_hw_total:
  assumes "0 \<le> population" and "0 < w" and "0 < h"
    and "0 < infected \<or> 0 < comorbid \<or> infected + comorbid < population"
  shows "\<exists>s. init_hw population infected comorbid p w h r g = Done s"
proof -
  let ?s0 = "\<lparr>running = True, random_py = r, rng = g, population_size = population,
           grid_width = w, grid_height = h, persons = [], cell_agents = (\<lambda>c. []),
           infected_population_size = infected, comorbidities_population_size = comorbid,
           model_moving_probability = p,
           properties = (\<lambda>c. \<lparr>cell_is_infected = False, virus_persistence = 0\<rparr>),
           infected_property_layer = (\<lambda>c. False),
           direct_infections = 0, location_infections = 0\<rparr> :: model_hw"
  have "\<exists>s'. generate_person_agents_hw ?s0 = Done s'"
    unfolding generate_person_agents_hw_def
    by (rule place_agents_on_grid_done)
      (use assms in \<open>auto simp: create_agents_def new_person_hw_def\<close>)
  then show ?thesis
    by (auto simp: init_hw_def and_then_def)
qed

lemma init_l2_total:
  assumes "1 \<le> population" and "0 < w" and "0 < h"
  shows "\<exists>s. init_l2 population influencer_group facilities w h r g = Done s"
proof -
  let ?s0 = "\<lparr>running = True, random_py = r, rng = g, population_size = population,
           grid_width = w, grid_height = h, persons = [], cell_agents = (\<lambda>c. []),
           influencer_group_size = influencer_group, influencers = [],
           direct_interactions_count = 0, indirect_interactions_count = 0,
           successful_direct_interactions_count = 0,
           successful_indirect_interactions_count = 0,
           sport_facility = (\<lambda>c. None)\<rparr> :: model_l2"
  let ?k = "1 + int (picks r 0 mod nat population)"
  let ?s1 = "?s0\<lparr>random_py := r\<lparr>picks := \<lambda>n. picks r (Suc n)\<rparr>,
                   persons := persons ?s0
                     @ create_agents ?k (new_person_l2 True False 0.5 0.5)
                     @ create_agents (population - ?k) (new_person_l2 False False 0.5 0.7)
                     @ [new_person_l2 True True 0.5 0.7],
                   population_size := population_size ?s0 + 1\<rparr>"
  have e: "generate_person_agents_l2 ?s0 = place_agents_on_grid ?s1"
    using assms(1) by (simp add: generate_person_agents_l2_def random_randint_def Let_def)
  have "\<exists>s'. place_agents_on_grid ?s1 = Done s'"
    by (rule place_agents_on_grid_done)
      (use assms in \<open>auto simp: create_agents_def new_person_l2_def\<close>)
  then show ?thesis
    using e by (auto simp: init_l2_def and_then_def)
qed

lemma init_l1_total:
  assumes "1 \<le> population" and "0 < w" and "0 < h"
  shows "\<exists>s. init_l1 population influencer_group w h r g = Done s"
  using assms
  by (simp add: init_l1_def and_then_def generate_person_agents_l1_def place_agents_on_grid_l1_def
      rng_integers_def random_randint_def Let_def)

lemma later_hw_population:
  assumes "later_hw s s'"
  shows "length (persons s') = length (persons s)
         \<and> map has_comorbidities (persons s') = map has_comorbidities (persons s)"
  using assms by (auto simp: later_hw_def frame_hw_def list_eq_iff_nth_eq)

lemma later_l2_population:
  assumes "later_l2 s s'"
  shows "length (persons s') = length (persons s)
         \<and> length (influencers s') = length (influencers s)
         \<and> map sport_enthusiast (persons s') = map sport_enthusiast (persons s)"
  using assms by (auto simp: later_l2_def frame_l2_def list_eq_iff_nth_eq)

lemma later_l1_population:
  assumes "later_l1 s s'"
  shows "length (persons s') = length (persons s)
         \<and> length (influencers_l1 s') = length (influencers_l1 s)
         \<and> map sport_enthusiast_l1 (persons s') = map sport_enthusiast_l1 (persons s)"
  using assms by (auto simp: later_l1_def frame_l1_def list_eq_iff_nth_eq)

text \<open>
  Claim C9, amended. Every agent is created in the constructor. In the disease model the
  constructor's arguments give the size of each bucket: the infected, the comorbid and the
  remaining agents. In the two trend models the arguments give the totals only
  (\<open>population_size + 1\<close> persons, one of them an enthusiast who knows the trend, and
  \<open>influencer_group_size\<close> influencers): the number of enthusiasts among the others is
  drawn with \<open>randint(1, population_size)\<close> from the model's random source. No run of ticks
  adds or removes an agent or changes a trait.
\<close>

theorem population_fixed:
  "(init_hw population infected comorbid p w hh r g = Done h \<longrightarrow>
      map (\<lambda>a. (is_infected a, has_comorbidities a)) (persons h) =
        replicate (nat infected) (True, False) @ replicate (nat comorbid) (False, True)
        @ replicate (nat (population - infected - comorbid)) (False, False))
   \<and> (init_l2 population influencer_group facilities w hh r g = Done t \<longrightarrow>
      1 \<le> population \<and>
      map (\<lambda>a. (sport_enthusiast a, knows_about_trend a)) (persons t) =
        replicate (nat (1 + int (picks r 0 mod nat population))) (True, False)
        @ replicate (nat (population - (1 + int (picks r 0 mod nat population)))) (False, False)
        @ [(True, True)]
      \<and> length (persons t) = nat population + 1
      \<and> length (influencers t) = nat influencer_group)
   \<and> (init_l1 population influencer_group w hh r g = Done u \<longrightarrow>
      1 \<le> population \<and>
      map (\<lambda>a. (sport_enthusiast_l1 a, knows_about_trend_l1 a)) (persons u) =
        replicate (nat (1 + int (picks r 0 mod nat population))) (True, False)
        @ replicate (nat (population - (1 + int (picks r 0 mod nat population)))) (False, False)
        @ [(True, True)]
      \<and> length (persons u) = nat population + 1
      \<and> length (influencers_l1 u) = nat influencer_group)
   \<and> length (persons (state_of (ticks perform_step_hw n s1))) = length (persons s1)
   \<and> map has_comorbidities (persons (state_of (ticks perform_step_hw n s1)))
       = map has_comorbidities (persons s1)
   \<and> length (persons (state_of (ticks perform_step_l2 n s2))) = length (persons s2)
   \<and> length (influencers (state_of (ticks perform_step_l2 n s2))) = length (influencers s2)
   \<and> map sport_enthusiast (persons (state_of (ticks perform_step_l2 n s2)))
       = map sport_enthusiast (persons s2)
   \<and> length (persons (state_of (ticks perform_step_l1 n s3))) = length (persons s3)
   \<and> length (influencers_l1 (state_of (ticks perform_step_l1 n s3))) = length (influencers_l1 s3)
   \<and> map sport_enthusiast_l1 (persons (state_of (ticks perform_step_l1 n s3)))
       = map sport_enthusiast_l1 (persons s3)"
proof -
  have k: "nat (1 + int (m mod nat population)) + nat (population - (1 + int (m mod nat population)))
             = nat population" if "1 \<le> population" for m
  proof -
    have "m mod nat population < nat population"
      using that by simp
    then have "int (m mod nat population) < int (nat population)"
      by (simp only: of_nat_less_iff)
    then have "int (m mod nat population) < population"
      using that by simp
    then show ?thesis
      using that by linarith
  qed
  have l2: "length (persons t) = nat population + 1"
    if "init_l2 population influencer_group facilities w hh r g = Done t"
  proof -
    have "length (map (\<lambda>a. (sport_enthusiast a, knows_about_trend a)) (persons t))
            = nat population + 1"
      using init_l2_buckets[OF that] k[of "picks r 0"] by (simp only: length_append length_replicate) simp
    then show ?thesis by simp
  qed
  have l1: "length (persons u) = nat population + 1"
    if "init_l1 population influencer_group w hh r g = Done u"
  proof -
    have "length (map (\<lambda>a. (sport_enthusiast_l1 a, knows_about_trend_l1 a)) (persons u))
            = nat population + 1"
      using init_l1_buckets[OF that] k[of "picks r 0"] by (simp only: length_append length_replicate) simp
    then show ?thesis by simp
  qed
  show ?thesis
    using init_hw_buckets[of population infected comorbid p w hh r g h]
      init_l2_buckets[of population influencer_group facilities w hh r g t]
      init_l1_buckets[of population influencer_group w hh r g u]
      l2 l1
      later_hw_population[OF later_hw_ticks, of n s1]
      later_l2_population[OF later_l2_ticks, of n s2]
      later_l1_population[OF later_l1_ticks, of n s3]
    by blast
qed

lemma done_state_of: "\<exists>s. r = Done s \<Longrightarrow> r = Done (state_of r)"
  by auto

lemma count_via_map: "length (filter P xs) = length (filter fst (map (\<lambda>a. (P a, Q a)) xs))"
  by (simp add: filter_map comp_def)

theorem population_fixed_witness:
  "init_hw 3 1 1 (1 / 2) 3 3 \<lparr>uniforms = (\<lambda>n. 0), picks = (\<lambda>n. 0)\<rparr> (\<lambda>k. k)
     = Done (state_of (init_hw 3 1 1 (1 / 2) 3 3 \<lparr>uniforms = (\<lambda>n. 0), picks = (\<lambda>n. 0)\<rparr> (\<lambda>k. k)))
   \<and> map (\<lambda>a. (is_infected a, has_comorbidities a))
        (persons (state_of (init_hw 3 1 1 (1 / 2) 3 3 \<lparr>uniforms = (\<lambda>n. 0), picks = (\<lambda>n. 0)\<rparr> (\<lambda>k. k))))
       = [(True, False), (False, True), (False, False)]
   \<and> init_l2 2 1 3 3 3 \<lparr>uniforms = (\<lambda>n. 0), picks = (\<lambda>n. 0)\<rparr> (\<lambda>k. k)
     = Done (state_of (init_l2 2 1 3 3 3 \<lparr>uniforms = (\<lambda>n. 0), picks = (\<lambda>n. 0)\<rparr> (\<lambda>k. k)))
   \<and> map (\<lambda>a. (sport_enthusiast a, knows_about_trend a))
        (persons (state_of (init_l2 2 1 3 3 3 \<lparr>uniforms = (\<lambda>n. 0), picks = (\<lambda>n. 0)\<rparr> (\<lambda>k. k))))
       = [(True, False), (False, False), (True, True)]
   \<and> init_l1 2 1 3 3 \<lparr>uniforms = (\<lambda>n. 0), picks = (\<lambda>n. 0)\<rparr> (\<lambda>k. k)
     = Done (state_of (init_l1 2 1 3 3 \<lparr>uniforms = (\<lambda>n. 0), picks = (\<lambda>n. 0)\<rparr> (\<lambda>k. k)))
   \<and> map (\<lambda>a. (sport_enthusiast_l1 a, knows_about_trend_l1 a))
        (persons (state_of (init_l1 2 1 3 3 \<lparr>uniforms = (\<lambda>n. 0), picks = (\<lambda>n. 0)\<rparr> (\<lambda>k. k))))
       = [(True, False), (False, False), (True, True)]
   \<and> length (persons (state_of (ticks perform_step_hw 2 example_hw))) = 3"
proof -
  let ?r = "\<lparr>uniforms = (\<lambda>n. 0), picks = (\<lambda>n. 0)\<rparr>"
  let ?g = "\<lambda>k::nat. k"
  have a: "init_hw 3 1 1 (1 / 2) 3 3 ?r ?g = Done (state_of (init_hw 3 1 1 (1 / 2) 3 3 ?r ?g))"
    by (rule done_state_of, rule init_hw_total) simp_all
  have b: "init_l2 2 1 3 3 3 ?r ?g = Done (state_of (init_l2 2 1 3 3 3 ?r ?g))"
    by (rule done_state_of, rule init_l2_total) simp_all
  have c: "init_l1 2 1 3 3 ?r ?g = Done (state_of (init_l1 2 1 3 3 ?r ?g))"
    by (rule done_state_of, rule init_l1_total) simp_all
  note inst = population_fixed[where population = 3 and infected = 1 and comorbid = 1
      and p = "1 / 2" and w = 3 and hh = 3 and r = ?r and g = ?g
      and h = "state_of (init_hw 3 1 1 (1 / 2) 3 3 ?r ?g)" and n = 2 and ?s1.0 = example_hw]
  note inst2 = population_fixed[where population = 2 and influencer_group = 1
      and facilities = 3 and w = 3 and hh = 3 and r = ?r and g = ?g
      and t = "state_of (init_l2 2 1 3 3 3 ?r ?g)"
      and u = "state_of (init_l1 2 1 3 3 ?r ?g)"]
  have n1: "replicate (nat 1) x = [x]" for x :: "bool \<times> bool"
    by simp
  have hw: "map (\<lambda>a. (is_infected a, has_comorbidities a))
        (persons (state_of (init_hw 3 1 1 (1 / 2) 3 3 ?r ?g)))
       = [(True, False), (False, True), (False, False)]"
    using inst a by (simp add: n1)
  have l2: "map (\<lambda>a. (sport_enthusiast a, knows_about_trend a))
        (persons (state_of (init_l2 2 1 3 3 3 ?r ?g)))
       = [(True, False), (False, False), (True, True)]"
    using inst2 b by (simp add: n1)
  have l1: "map (\<lambda>a. (sport_enthusiast_l1 a, knows_about_trend_l1 a))
        (persons (state_of (init_l1 2 1 3 3 ?r ?g)))
       = [(True, False), (False, False), (True, True)]"
    using inst2 c by (simp add: n1)
  have len: "length (persons (state_of (ticks perform_step_hw 2 example_hw))) = 3"
    using inst by (simp add: example_hw_persons)
  show ?thesis using a b c hw l2 l1 len by simp
qed

text \<open>
  Claim C9 as stated has the arguments of the constructor determine the size of every
  trait bucket. Two constructions of the \<open>laboratory_2\<close> model with the same arguments
  (as \<open>TrendSpreadModel(2, 1, 3, 3, 3)\<close>, the seed left at \<open>None\<close>) whose random
  sources differ hold two and three sport enthusiasts.
\<close>

theorem enthusiasts_not_fixed_counterexample:
  "length (filter sport_enthusiast
     (persons (state_of (init_l2 2 1 3 3 3 \<lparr>uniforms = (\<lambda>n. 0), picks = (\<lambda>n. 0)\<rparr> (\<lambda>k. k))))) = 2
   \<and> length (filter sport_enthusiast
     (persons (state_of (init_l2 2 1 3 3 3 \<lparr>uniforms = (\<lambda>n. 0), picks = (\<lambda>n. 1)\<rparr> (\<lambda>k. k))))) = 3"
proof -
  let ?r0 = "\<lparr>uniforms = (\<lambda>n. 0), picks = (\<lambda>n. 0)\<rparr>"
  let ?r1 = "\<lparr>uniforms = (\<lambda>n. 0), picks = (\<lambda>n. 1)\<rparr>"
  let ?g = "\<lambda>k::nat. k"
  have a: "init_l2 2 1 3 3 3 ?r0 ?g = Done (state_of (init_l2 2 1 3 3 3 ?r0 ?g))"
    by (rule done_state_of, rule init_l2_total) simp_all
  have b: "init_l2 2 1 3 3 3 ?r1 ?g = Done (state_of (init_l2 2 1 3 3 3 ?r1 ?g))"
    by (rule done_state_of, rule init_l2_total) simp_all
  have n1: "replicate (nat 1) x = [x]" "replicate 2 x = [x, x]" for x :: "bool \<times> bool"
    by (simp_all add: numeral_2_eq_2)
  have "map (\<lambda>a. (sport_enthusiast a, knows_about_trend a))
          (persons (state_of (init_l2 2 1 3 3 3 ?r0 ?g)))
        = [(True, False), (False, False), (True, True)]"
    using init_l2_buckets[OF a] by (simp add: n1)
  then have x: "length (filter sport_enthusiast (persons (state_of (init_l2 2 1 3 3 3 ?r0 ?g)))) = 2"
    by (simp add: count_via_map[where Q = knows_about_trend])
  have "map (\<lambda>a. (sport_enthusiast a, knows_about_trend a))
          (persons (state_of (init_l2 2 1 3 3 3 ?r1 ?g)))
        = [(True, False), (True, False), (True, True)]"
    using init_l2_buckets[OF b] by (simp add: n1)
  then have y: "length (filter sport_enthusiast (persons (state_of (init_l2 2 1 3 3 3 ?r1 ?g)))) = 3"
    by (simp add: count_via_map[where Q = knows_about_trend])
  show ?thesis using x y by simp
qed

section \<open>The decay of contaminated cells\<close>

lemma decay_cell_persons: "persons (decay_cell c s) = persons s"
  by (simp add: decay_cell_def Let_def)

lemma decay_cell_cell_agents: "cell_agents (decay_cell c s) = cell_agents s"
  by (simp add: decay_cell_def Let_def)

lemma decay_cell_contaminated:
  assumes "cell_is_infected (properties s c)"
  shows "cell_is_infected (properties (decay_cell c s) c) \<longleftrightarrow>
           (list_ex (\<lambda>j. is_infected (persons s ! j)) (cell_agents s c)
            \<or> virus_persistence (properties s c) + 1 \<le> 2)"
    and "virus_persistence (properties (decay_cell c s) c) =
           (if list_ex (\<lambda>j. is_infected (persons s ! j)) (cell_agents s c) then 0
            else if 2 < virus_persistence (properties s c) + 1 then 0
            else virus_persistence (properties s c) + 1)"
  using assms by (auto simp: decay_cell_def Let_def)

lemma decay_cell_clean: "\<not> cell_is_infected (properties s c) \<Longrightarrow> decay_cell c s = s"
  by (simp add: decay_cell_def)

lemma decay_cell_other: "d \<noteq> c \<Longrightarrow> properties (decay_cell c s) d = properties s d"
  by (simp add: decay_cell_def Let_def)

lemma decay_cell_local:
  assumes "properties s1 c = properties s2 c" and "persons s1 = persons s2"
    and "cell_agents s1 = cell_agents s2"
  shows "properties (decay_cell c s1) c = properties (decay_cell c s2) c"
  using assms by (simp add: decay_cell_def Let_def)

lemma fold_decay_cell_persons: "persons (fold decay_cell cs s) = persons s"
  by (induction cs arbitrary: s) (simp_all add: decay_cell_persons)

lemma fold_decay_cell_other:
  "c \<notin> set cs \<Longrightarrow> properties (fold decay_cell cs s) c = properties s c"
  by (induction cs arbitrary: s) (auto simp: decay_cell_other)

lemma fold_decay_cell_once:
  "distinct cs \<Longrightarrow> c \<in> set cs
     \<Longrightarrow> properties (fold decay_cell cs s) c = properties (decay_cell c s) c"
proof (induction cs arbitrary: s)
  case Nil
  then show ?case by simp
next
  case (Cons x xs)
  show ?case
  proof (cases "x = c")
    case True
    then have "c \<notin> set xs" using Cons.prems(1) by simp
    then show ?thesis using True by (simp add: fold_decay_cell_other)
  next
    case False
    then have "c \<in> set xs" and "distinct xs" using Cons.prems by simp_all
    then have "properties (fold decay_cell xs (decay_cell x s)) c
                 = properties (decay_cell c (decay_cell x s)) c"
      using Cons.IH by blast
    also have "\<dots> = properties (decay_cell c s) c"
      using False
      by (intro decay_cell_local)
        (simp_all add: decay_cell_other decay_cell_persons decay_cell_cell_agents)
    finally show ?thesis by simp
  qed
qed

lemma distinct_all_cells: "distinct (all_cells w h)"
  by (simp add: all_cells_def distinct_product)

text \<open>
  Claim C3, amended. For a contaminated cell the decay step resets the persistence
  counter to zero when an infected agent stands on the cell and increments it otherwise;
  the cell reverts to uncontaminated, with the counter back at zero, exactly when the
  counter so updated exceeds 2, that is on the third decay step in a row without an
  infected agent on the cell, and not earlier. An uncontaminated cell is left alone, the
  loop over the grid applies this to each cell once, and a counter within 0..2 stays
  there: it never reaches 4.
\<close>

theorem decay_threshold:
  "(cell_is_infected (properties s c) \<longrightarrow>
      (cell_is_infected (properties (decay_cell c s) c) \<longleftrightarrow>
         (list_ex (\<lambda>j. is_infected (persons s ! j)) (cell_agents s c)
          \<or> virus_persistence (properties s c) + 1 \<le> 2))
      \<and> virus_persistence (properties (decay_cell c s) c) =
           (if list_ex (\<lambda>j. is_infected (persons s ! j)) (cell_agents s c) then 0
            else if 2 < virus_persistence (properties s c) + 1 then 0
            else virus_persistence (properties s c) + 1))
   \<and> (\<not> cell_is_infected (properties s c) \<longrightarrow> decay_cell c s = s)
   \<and> (c \<in> set (all_cells w h) \<longrightarrow>
        properties (fold decay_cell (all_cells w h) s) c = properties (decay_cell c s) c)
   \<and> (0 \<le> virus_persistence (properties s c) \<and> virus_persistence (properties s c) \<le> 2 \<longrightarrow>
        0 \<le> virus_persistence (properties (decay_cell c s) c)
        \<and> virus_persistence (properties (decay_cell c s) c) \<le> 2)
   \<and> (cell_is_infected (properties s c) \<and> virus_persistence (properties s c) = 0
        \<and> \<not> list_ex (\<lambda>j. is_infected (persons s ! j)) (cell_agents s c) \<longrightarrow>
        cell_is_infected (properties (decay_cell c s) c)
        \<and> cell_is_infected (properties (decay_cell c (decay_cell c s)) c)
        \<and> \<not> cell_is_infected (properties (decay_cell c (decay_cell c (decay_cell c s))) c))"
proof (intro conjI impI)
  assume a: "cell_is_infected (properties s c)"
  show "cell_is_infected (properties (decay_cell c s) c) \<longleftrightarrow>
         (list_ex (\<lambda>j. is_infected (persons s ! j)) (cell_agents s c)
          \<or> virus_persistence (properties s c) + 1 \<le> 2)"
    using a by (rule decay_cell_contaminated(1))
  show "virus_persistence (properties (decay_cell c s) c) =
           (if list_ex (\<lambda>j. is_infected (persons s ! j)) (cell_agents s c) then 0
            else if 2 < virus_persistence (properties s c) + 1 then 0
            else virus_persistence (properties s c) + 1)"
    using a by (rule decay_cell_contaminated(2))
next
  assume "\<not> cell_is_infected (properties s c)"
  then show "decay_cell c s = s" by (rule decay_cell_clean)
next
  assume "c \<in> set (all_cells w h)"
  then show "properties (fold decay_cell (all_cells w h) s) c = properties (decay_cell c s) c"
    using distinct_all_cells by (rule fold_decay_cell_once[rotated])
next
  assume a: "0 \<le> virus_persistence (properties s c) \<and> virus_persistence (properties s c) \<le> 2"
  show "0 \<le> virus_persistence (properties (decay_cell c s) c)"
    using a by (cases "cell_is_infected (properties s c)")
      (simp_all add: decay_cell_contaminated(2) decay_cell_clean)
  show "virus_persistence (properties (decay_cell c s) c) \<le> 2"
    using a by (cases "cell_is_infected (properties s c)")
      (simp_all add: decay_cell_contaminated(2) decay_cell_clean)
next
  assume a: "cell_is_infected (properties s c) \<and> virus_persistence (properties s c) = 0
        \<and> \<not> list_ex (\<lambda>j. is_infected (persons s ! j)) (cell_agents s c)"
  have 1: "cell_is_infected (properties (decay_cell c s) c)"
    "virus_persistence (properties (decay_cell c s) c) = 1"
    using a by (simp_all add: decay_cell_contaminated)
  have 2: "cell_is_infected (properties (decay_cell c (decay_cell c s)) c)"
    "virus_persistence (properties (decay_cell c (decay_cell c s)) c) = 2"
    using a 1 by (simp_all add: decay_cell_contaminated decay_cell_persons decay_cell_cell_agents)
  have 3: "\<not> cell_is_infected (properties (decay_cell c (decay_cell c (decay_cell c s))) c)"
    using a 2 by (simp add: decay_cell_contaminated decay_cell_persons decay_cell_cell_agents)
  show "cell_is_infected (properties (decay_cell c s) c)" by (rule 1)
  show "cell_is_infected (properties (decay_cell c (decay_cell c s)) c)" by (rule 2)
  show "\<not> cell_is_infected (properties (decay_cell c (decay_cell c (decay_cell c s))) c)"
    by (rule 3)
qed

lemma example_hw_empty_cell: "cell_agents example_hw (0, 0) = []"
  by (simp add: example_hw_def)

lemma origin_in_grid: "(0, 0) \<in> set (all_cells 3 3)"
  by (simp add: all_cells_def)

theorem decay_threshold_witness:
  "cell_is_infected (properties example_hw (0, 0))
   \<and> virus_persistence (properties example_hw (0, 0)) = 2
   \<and> \<not> list_ex (\<lambda>j. is_infected (persons example_hw ! j)) (cell_agents example_hw (0, 0))
   \<and> (0, 0) \<in> set (all_cells 3 3)
   \<and> \<not> cell_is_infected (properties (decay_cell (0, 0) example_hw) (0, 0))
   \<and> virus_persistence (properties (decay_cell (0, 0) example_hw) (0, 0)) = 0
   \<and> properties (fold decay_cell (all_cells 3 3) example_hw) (0, 0)
       = properties (decay_cell (0, 0) example_hw) (0, 0)
   \<and> \<not> cell_is_infected (properties example_hw (1, 1))
   \<and> decay_cell (1, 1) example_hw = example_hw
   \<and> cell_is_infected (properties (decay_cell (0, 0)
        (example_hw\<lparr>properties := (\<lambda>c. \<lparr>cell_is_infected = True, virus_persistence = 0\<rparr>)\<rparr>)) (0, 0))
   \<and> \<not> cell_is_infected (properties (decay_cell (0, 0) (decay_cell (0, 0) (decay_cell (0, 0)
        (example_hw\<lparr>properties := (\<lambda>c. \<lparr>cell_is_infected = True, virus_persistence = 0\<rparr>)\<rparr>)))) (0, 0))"
proof -
  let ?s = "example_hw\<lparr>properties := (\<lambda>c. \<lparr>cell_is_infected = True, virus_persistence = 0\<rparr>)\<rparr>"
  note a = decay_threshold[where s = example_hw and c = "(0, 0)" and w = 3 and h = 3]
  note b = decay_threshold[where s = example_hw and c = "(1, 1)"]
  note c = decay_threshold[where s = ?s and c = "(0, 0)"]
  have e: "cell_is_infected (properties example_hw (0, 0))"
    "virus_persistence (properties example_hw (0, 0)) = 2"
    "\<not> cell_is_infected (properties example_hw (1, 1))"
    by (simp_all add: example_hw_properties)
  have o: "\<not> list_ex (\<lambda>j. is_infected (persons example_hw ! j)) (cell_agents example_hw (0, 0))"
    by (simp add: example_hw_empty_cell)
  have o': "\<not> list_ex (\<lambda>j. is_infected (persons ?s ! j)) (cell_agents ?s (0, 0))"
    using o by simp
  have e': "cell_is_infected (properties ?s (0, 0))" "virus_persistence (properties ?s (0, 0)) = 0"
    by simp_all
  have 1: "\<not> cell_is_infected (properties (decay_cell (0, 0) example_hw) (0, 0))"
    using a e o by simp
  have 2: "virus_persistence (properties (decay_cell (0, 0) example_hw) (0, 0)) = 0"
    using a e o by simp
  have 3: "properties (fold decay_cell (all_cells 3 3) example_hw) (0, 0)
       = properties (decay_cell (0, 0) example_hw) (0, 0)"
    using a origin_in_grid by blast
  have 4: "decay_cell (1, 1) example_hw = example_hw"
    using b e(3) by blast
  have 5: "cell_is_infected (properties (decay_cell (0, 0) ?s) (0, 0))"
    "\<not> cell_is_infected (properties (decay_cell (0, 0) (decay_cell (0, 0) (decay_cell (0, 0) ?s))) (0, 0))"
    using c e' o' by blast+
  show ?thesis
    using e o origin_in_grid 1 2 3 4 5 by blast
qed

text \<open>
  Claim C3 as stated has the cell revert exactly when the counter exceeds 3. The empty
  contaminated cell (0, 0) of the example has a counter of 2; one decay step takes it to
  3, which does not exceed 3, and the cell is uncontaminated with its counter at 0.
\<close>

theorem decay_threshold_counterexample:
  "cell_is_infected (properties example_hw (0, 0))
   \<and> virus_persistence (properties example_hw (0, 0)) + 1 = 3
   \<and> \<not> 3 < virus_persistence (properties example_hw (0, 0)) + 1
   \<and> \<not> cell_is_infected (properties (decay_cell (0, 0) example_hw) (0, 0))
   \<and> virus_persistence (properties (decay_cell (0, 0) example_hw) (0, 0)) = 0"
  using decay_cell_contaminated[of example_hw "(0, 0)"]
  by (simp add: example_hw_properties example_hw_empty_cell)

section \<open>Learning about the trend in laboratory_2\<close>

text \<open>
  Claim C10: whatever \<open>skepticism_prob\<close> the agent \<open>j\<close> holds (\<open>p\<close> below), a call of
  \<open>learn_about_trend\<close> sets its flag exactly when the draw is above 0.2, adds one to its
  \<open>trend_gossip_counter\<close> in either case, and counts a success exactly when the flag was
  set; the stored \<open>skepticism_prob\<close> is neither read nor changed.
\<close>

theorem learn_about_trend_fixed_threshold:
  assumes "j < length (persons s)"
    and "s' = s\<lparr>persons := (persons s)[j := (persons s ! j)\<lparr>skepticism_prob := p\<rparr>]\<rparr>"
  shows "(knows_about_trend (persons (learn_about_trend_l2 j d s') ! j) \<longleftrightarrow>
            (0.2 < uniforms (random_py s) 0 \<or> knows_about_trend (persons s ! j)))
    \<and> trend_gossip_counter (persons (learn_about_trend_l2 j d s') ! j)
          = trend_gossip_counter (persons s ! j) + 1
    \<and> skepticism_prob (persons (learn_about_trend_l2 j d s') ! j) = p
    \<and> successful_direct_interactions_count (learn_about_trend_l2 j d s')
          = successful_direct_interactions_count s
            + (if d \<and> 0.2 < uniforms (random_py s) 0 then 1 else 0)
    \<and> successful_indirect_interactions_count (learn_about_trend_l2 j d s')
          = successful_indirect_interactions_count s
            + (if \<not> d \<and> 0.2 < uniforms (random_py s) 0 then 1 else 0)
    \<and> uniforms (random_py (learn_about_trend_l2 j d s')) = (\<lambda>n. uniforms (random_py s) (Suc n))"
  using assms
  by (simp add: learn_about_trend_l2_def Let_def draw_uniform_def random_random_def)

lemma example_l2_random: "random_py example_l2 = \<lparr>uniforms = (\<lambda>n. 1 / 10), picks = (\<lambda>n. 0)\<rparr>"
  by (simp add: example_l2_def)

theorem learn_about_trend_fixed_threshold_witness:
  "(1::nat) < length (persons example_l2)
   \<and> \<not> knows_about_trend (persons (learn_about_trend_l2 1 True
         (example_l2\<lparr>persons := (persons example_l2)
            [1 := (persons example_l2 ! 1)\<lparr>skepticism_prob := 0\<rparr>]\<rparr>)) ! 1)
   \<and> trend_gossip_counter (persons (learn_about_trend_l2 1 True
         (example_l2\<lparr>persons := (persons example_l2)
            [1 := (persons example_l2 ! 1)\<lparr>skepticism_prob := 0\<rparr>]\<rparr>)) ! 1) = 1
   \<and> knows_about_trend (persons (learn_about_trend_l2 1 True
         (example_l2\<lparr>random_py := \<lparr>uniforms = (\<lambda>n. 1 / 2), picks = (\<lambda>n. 0)\<rparr>,
            persons := (persons example_l2)
            [1 := (persons example_l2 ! 1)\<lparr>skepticism_prob := 1\<rparr>]\<rparr>)) ! 1)"
proof -
  let ?e = "example_l2\<lparr>random_py := \<lparr>uniforms = (\<lambda>n. 1 / 2), picks = (\<lambda>n. 0)\<rparr>\<rparr>"
  have l: "(1::nat) < length (persons example_l2)" "(1::nat) < length (persons ?e)"
    by (simp_all add: example_l2_persons)
  note a = learn_about_trend_fixed_threshold[OF l(1) refl, where p = 0 and d = True]
  note b = learn_about_trend_fixed_threshold[OF l(2) refl, where p = 1 and d = True]
  have 1: "\<not> knows_about_trend (persons (learn_about_trend_l2 1 True
         (example_l2\<lparr>persons := (persons example_l2)
            [1 := (persons example_l2 ! 1)\<lparr>skepticism_prob := 0\<rparr>]\<rparr>)) ! 1)"
    using a by (simp add: example_l2_persons example_l2_random)
  have 2: "trend_gossip_counter (persons (learn_about_trend_l2 1 True
         (example_l2\<lparr>persons := (persons example_l2)
            [1 := (persons example_l2 ! 1)\<lparr>skepticism_prob := 0\<rparr>]\<rparr>)) ! 1) = 1"
    using a by (simp add: example_l2_persons)
  have 3: "knows_about_trend (persons (learn_about_trend_l2 1 True
         (example_l2\<lparr>random_py := \<lparr>uniforms = (\<lambda>n. 1 / 2), picks = (\<lambda>n. 0)\<rparr>,
            persons := (persons example_l2)
            [1 := (persons example_l2 ! 1)\<lparr>skepticism_prob := 1\<rparr>]\<rparr>)) ! 1)"
    using b by simp
  show ?thesis using l(1) 1 2 3 by simp
qed

section \<open>The grid and the agents agree\<close>

text \<open>
  The lists of the cells and the references of the agents are two views of the same
  placement. The constructors establish their agreement and every operation keeps it, so
  it holds in every state that a model reaches; there an agent is on the list of its cell,
  and \<open>list.remove\<close> never fails.
\<close>

lemma do_each_inv:
  assumes "\<And>x a. x \<in> set xs \<Longrightarrow> P a \<Longrightarrow> P (state_of (f x a))" and "P s"
  shows "P (state_of (do_each f xs s))"
  using assms
proof (induction xs arbitrary: s)
  case Nil
  then show ?case by simp
next
  case (Cons x xs)
  have p: "P (state_of (f x s))" using Cons.prems by simp
  show ?case
  proof (cases "f x s")
    case (Done s')
    then have "P s'" using p by simp
    then have "P (state_of (do_each f xs s'))"
      using Cons.IH Cons.prems(1) by simp
    then show ?thesis using Done by simp
  next
    case (Raised e s')
    then show ?thesis using p by simp
  qed
qed

lemma fold_inv:
  assumes "\<And>x a. P a \<Longrightarrow> P (f x a)" and "P s"
  shows "P (fold f xs s)"
  using assms(2) by (induction xs arbitrary: s) (simp_all add: assms(1))

lemma and_then_inv:
  assumes "P (state_of r)" and "\<And>a. P a \<Longrightarrow> P (state_of (f a))"
  shows "P (state_of (and_then r f))"
  using assms by (cases r) (simp_all add: and_then_def)

lemma ticks_inv:
  assumes "\<And>a. P a \<Longrightarrow> P (state_of (f a))" and "P s"
  shows "P (state_of (ticks f n s))"
  using assms(2)
proof (induction n arbitrary: s)
  case 0
  then show ?case by simp
next
  case (Suc n)
  show ?case
    unfolding ticks.simps
    by (rule and_then_inv) (auto intro: assms(1) Suc)
qed

lemma grid_consistentD:
  assumes "grid_consistent place_of s"
  shows "distinct (cell_agents s c)"
    and "j \<in> set (cell_agents s c) \<longleftrightarrow> j < length (persons s) \<and> place_of (persons s ! j) = Some c"
proof -
  have d: "distinct (cell_agents s c)"
    and e: "set (cell_agents s c) = {j. j < length (persons s) \<and> place_of (persons s ! j) = Some c}"
    using assms unfolding grid_consistent_def by blast+
  show "distinct (cell_agents s c)" by (rule d)
  show "j \<in> set (cell_agents s c) \<longleftrightarrow> j < length (persons s) \<and> place_of (persons s ! j) = Some c"
    unfolding e by simp
qed

lemma grid_consistentI:
  assumes "\<And>c. distinct (cell_agents s c)"
    and "\<And>c j. j \<in> set (cell_agents s c)
           \<longleftrightarrow> j < length (persons s) \<and> place_of (persons s ! j) = Some c"
  shows "grid_consistent place_of s"
proof -
  have "set (cell_agents s c) = {j. j < length (persons s) \<and> place_of (persons s ! j) = Some c}"
    for c
    using assms(2)[of _ c] by blast
  then show ?thesis
    unfolding grid_consistent_def using assms(1) by blast
qed

text \<open>An operation that touches neither the lists nor the references keeps the agreement.\<close>

lemma grid_consistent_same_places:
  assumes "grid_consistent place_of s" and "cell_agents s' = cell_agents s"
    and "map place_of (persons s') = map place_of (persons s)"
  shows "grid_consistent place_of s'"
proof (rule grid_consistentI)
  have len: "length (persons s') = length (persons s)"
    using assms(3) by (rule map_eq_imp_length_eq)
  have nth: "place_of (persons s' ! j) = place_of (persons s ! j)" if "j < length (persons s)" for j
    using assms(3) that len by (metis nth_map)
  show "distinct (cell_agents s' c)" for c
    unfolding assms(2) using assms(1) by (rule grid_consistentD(1))
  show "j \<in> set (cell_agents s' c)
          \<longleftrightarrow> j < length (persons s') \<and> place_of (persons s' ! j) = Some c" for c j
    unfolding assms(2) grid_consistentD(2)[OF assms(1)] len using nth by auto
qed

text \<open>An agent that is on no list comes to stand last on the list of its new cell.\<close>

lemma grid_consistent_arrival:
  assumes "\<And>d. distinct (agents d)"
    and "\<And>d j. j \<in> set (agents d) \<longleftrightarrow> j \<noteq> i \<and> j < length ps \<and> place_of (ps ! j) = Some d"
    and "i < length ps" and "place_of a = Some c"
    and "persons s' = ps[i := a]" and "cell_agents s' = agents(c := agents c @ [i])"
  shows "grid_consistent place_of s'"
proof (rule grid_consistentI)
  show "distinct (cell_agents s' d)" for d
    unfolding assms(6) using assms(1)[of d] assms(1)[of c] assms(2)[of i c] by simp
  show "j \<in> set (cell_agents s' d)
          \<longleftrightarrow> j < length (persons s') \<and> place_of (persons s' ! j) = Some d" for d j
  proof (cases "j = i")
    case True
    then show ?thesis
      unfolding assms(5,6) using assms(2)[of i d] assms(3,4) by auto
  next
    case False
    then show ?thesis
      unfolding assms(5,6) using assms(2)[of j d] assms(2)[of j c] by auto
  qed
qed

text \<open>An agent that is on the list of its cell leaves it and joins the end of the new list.\<close>

lemma set_cell_moves:
  assumes "cell (persons s ! i) = Some c" and "i \<in> set (cell_agents s c)"
  shows "set_cell i c' s =
           Done (s\<lparr>persons := (persons s)[i := (persons s ! i)\<lparr>cell := Some c'\<rparr>],
                   cell_agents := ((cell_agents s)(c := remove1 i (cell_agents s c)))
                     (c' := ((cell_agents s)(c := remove1 i (cell_agents s c))) c' @ [i])\<rparr>)"
  using assms by (simp add: set_cell_def and_then_def remove_agent_def add_agent_def)

lemma move_agent_moves:
  assumes "pos (persons s ! i) = Some c" and "i \<in> set (cell_agents s c)"
    and "i < length (persons s)"
  shows "move_agent i c' s =
           Done (s\<lparr>persons := (persons s)[i := (persons s ! i)\<lparr>pos := Some c'\<rparr>],
                   cell_agents := ((cell_agents s)(c := remove1 i (cell_agents s c)))
                     (c' := ((cell_agents s)(c := remove1 i (cell_agents s c))) c' @ [i])\<rparr>)"
  using assms
  by (simp add: move_agent_def remove_agent_l1_def and_then_def remove_agent_def place_agent_def
      add_agent_def)

lemma set_cell_unplaced:
  assumes "cell (persons s ! i) = None"
  shows "set_cell i c s =
           Done (s\<lparr>persons := (persons s)[i := (persons s ! i)\<lparr>cell := Some c\<rparr>],
                   cell_agents := (cell_agents s)(c := cell_agents s c @ [i])\<rparr>)"
  using assms by (simp add: set_cell_def and_then_def add_agent_def)

lemma grid_consistent_set_cell:
  assumes "grid_consistent cell s" and "i < length (persons s)"
  shows "grid_consistent cell (state_of (set_cell i c s))"
    and "raised (set_cell i c s) = None"
proof -
  note d = grid_consistentD[OF assms(1)]
  have "grid_consistent cell (state_of (set_cell i c s)) \<and> raised (set_cell i c s) = None"
  proof (cases "cell (persons s ! i)")
    case None
    note e = set_cell_unplaced[OF None, of c]
    have "grid_consistent cell (state_of (set_cell i c s))"
      unfolding e
    proof (rule grid_consistent_arrival[where agents = "cell_agents s" and ps = "persons s"
          and i = i and c = c and a = "(persons s ! i)\<lparr>cell := Some c\<rparr>"])
      show "j \<in> set (cell_agents s d)
              \<longleftrightarrow> j \<noteq> i \<and> j < length (persons s) \<and> cell (persons s ! j) = Some d" for d j
        unfolding d(2) using None by auto
    qed (simp_all add: d(1) assms(2))
    then show ?thesis by (simp add: e)
  next
    case (Some old)
    have m: "i \<in> set (cell_agents s old)"
      unfolding d(2) using Some assms(2) by simp
    note e = set_cell_moves[OF Some m, of c]
    let ?agents = "(cell_agents s)(old := remove1 i (cell_agents s old))"
    have "grid_consistent cell (state_of (set_cell i c s))"
      unfolding e
    proof (rule grid_consistent_arrival[where agents = ?agents and ps = "persons s"
          and i = i and c = c and a = "(persons s ! i)\<lparr>cell := Some c\<rparr>"])
      show "distinct (?agents d)" for d
        using d(1)[of d] d(1)[of old] by simp
      show "j \<in> set (?agents d)
              \<longleftrightarrow> j \<noteq> i \<and> j < length (persons s) \<and> cell (persons s ! j) = Some d" for d j
      proof (cases "d = old")
        case True
        then show ?thesis
          using d(1)[of old] d(2)[of j old] by auto
      next
        case False
        then show ?thesis
          using d(2)[of j d] Some by auto
      qed
    qed (simp_all add: assms(2))
    then show ?thesis by (simp add: e)
  qed
  then show "grid_consistent cell (state_of (set_cell i c s))"
    and "raised (set_cell i c s) = None"
    by simp_all
qed

lemma grid_consistent_move_agent:
  assumes "grid_consistent pos s" and "i < length (persons s)" and "pos (persons s ! i) = Some old"
  shows "grid_consistent pos (state_of (move_agent i c s))"
    and "raised (move_agent i c s) = None"
proof -
  note d = grid_consistentD[OF assms(1)]
  have m: "i \<in> set (cell_agents s old)"
    unfolding d(2) using assms(2,3) by simp
  note e = move_agent_moves[OF assms(3) m assms(2), of c]
  let ?agents = "(cell_agents s)(old := remove1 i (cell_agents s old))"
  show "grid_consistent pos (state_of (move_agent i c s))"
    unfolding e
  proof (rule grid_consistent_arrival[where agents = ?agents and ps = "persons s"
        and i = i and c = c and a = "(persons s ! i)\<lparr>pos := Some c\<rparr>"])
    show "distinct (?agents d)" for d
      using d(1)[of d] d(1)[of old] by simp
    show "j \<in> set (?agents d)
            \<longleftrightarrow> j \<noteq> i \<and> j < length (persons s) \<and> pos (persons s ! j) = Some d" for d j
    proof (cases "d = old")
      case True
      then show ?thesis
        using d(1)[of old] d(2)[of j old] by auto
    next
      case False
      then show ?thesis
        using d(2)[of j d] assms(3) by auto
    qed
  qed (simp_all add: assms(2))
  show "raised (move_agent i c s) = None" by (simp add: e)
qed


lemma same_places_refl: "same_places place_of s s"
  by (simp add: same_places_def)

lemma same_places_trans:
  "same_places place_of a b \<Longrightarrow> same_places place_of b c \<Longrightarrow> same_places place_of a c"
  by (simp add: same_places_def)

lemma same_places_consistent:
  "same_places place_of s s' \<Longrightarrow> grid_consistent place_of s \<Longrightarrow> grid_consistent place_of s'"
  unfolding same_places_def using grid_consistent_same_places by blast

lemma same_places_length: "same_places place_of s s' \<Longrightarrow> length (persons s') = length (persons s)"
  unfolding same_places_def using map_eq_imp_length_eq by blast

lemma same_places_random: "same_places place_of s (s\<lparr>random_py := r\<rparr>)"
  by (simp add: same_places_def)

lemma same_places_draw: "draw_uniform s = (u, s1) \<Longrightarrow> same_places place_of s s1"
  by (auto simp: same_places_def draw_uniform_def random_random_def)

subsection \<open>The disease model\<close>

lemma same_places_get_infected: "same_places cell s (get_infected j d s)"
  by (simp add: same_places_def get_infected_def Let_def map_update_same)

lemma same_places_infect_encountered: "same_places cell s (infect_encountered j s)"
proof -
  obtain u s1 where d: "draw_uniform s = (u, s1)" by (cases "draw_uniform s")
  have a: "same_places cell s s1" using d by (rule same_places_draw)
  have b: "same_places cell s (get_infected j True s1)"
    using a same_places_get_infected by (rule same_places_trans)
  show ?thesis using a b d
    by (simp add: infect_encountered_def Let_def same_places_refl)
qed

lemma same_places_spread_virus: "same_places cell s (state_of (spread_virus i s))"
proof (cases "cell (persons s ! i)")
  case None
  then show ?thesis
    by (simp add: spread_virus_def check_grid_initialization_def same_places_refl)
next
  case (Some c)
  have loop: "same_places cell a (fold infect_encountered xs a)" for a xs
    by (rule fold_rel[where R = "same_places cell"])
      (auto intro: same_places_refl same_places_trans same_places_infect_encountered)
  have mark: "same_places cell s (s\<lparr>properties := f\<rparr>)" for f
    by (simp add: same_places_def)
  show ?thesis using Some
    by (auto simp: spread_virus_def check_grid_initialization_def Let_def same_places_refl
        intro: loop same_places_trans[OF mark loop])
qed

lemma same_places_get_infected_from_cell:
  "same_places cell s (state_of (get_infected_from_cell i s))"
proof (cases "cell (persons s ! i)")
  case None
  then show ?thesis
    by (simp add: get_infected_from_cell_def check_grid_initialization_def same_places_refl)
next
  case (Some c)
  obtain u s1 where d: "draw_uniform s = (u, s1)" by (cases "draw_uniform s")
  have a: "same_places cell s s1" using d by (rule same_places_draw)
  have b: "same_places cell s (get_infected i False s1)"
    using a same_places_get_infected by (rule same_places_trans)
  show ?thesis using Some a b d
    by (auto simp: get_infected_from_cell_def check_grid_initialization_def same_places_refl
        split: sum.splits)
qed

lemma same_places_decay_cell: "same_places cell s (decay_cell c s)"
  by (simp add: same_places_def decay_cell_def Let_def)

lemma grid_consistent_move_to_random_neighbor:
  assumes "grid_consistent cell s" and "i < length (persons s)"
  shows "grid_consistent cell (state_of (move_to_random_neighbor i c s))"
proof (cases "random_choice (random_py s) (neighborhood (grid_width s) (grid_height s) c)")
  case None
  then show ?thesis using assms(1) by (simp add: move_to_random_neighbor_def)
next
  case (Some p)
  obtain c' r where p: "p = (c', r)" by (cases p)
  have "grid_consistent cell (s\<lparr>random_py := r\<rparr>)"
    using same_places_random assms(1) by (rule same_places_consistent)
  then have "grid_consistent cell (state_of (set_cell i c' (s\<lparr>random_py := r\<rparr>)))"
    by (rule grid_consistent_set_cell(1)) (simp add: assms(2))
  then show ?thesis using Some p by (simp add: move_to_random_neighbor_def move_to_def)
qed

lemma grid_consistent_move_around_hw:
  assumes "grid_consistent cell s" and "i < length (persons s)"
  shows "grid_consistent cell (state_of (move_around_hw i s))"
proof (cases "cell (persons s ! i)")
  case None
  then show ?thesis using assms(1)
    by (simp add: move_around_hw_def check_grid_initialization_def)
next
  case (Some c)
  obtain u s1 where d: "draw_uniform s = (u, s1)" by (cases "draw_uniform s")
  have a: "grid_consistent cell s1"
    using same_places_draw[OF d] assms(1) by (rule same_places_consistent)
  have l: "i < length (persons s1)"
    using same_places_length[OF same_places_draw[OF d, of cell]] assms(2) by simp
  have "grid_consistent cell (state_of (move_to_random_neighbor i c s1))"
    using a l by (rule grid_consistent_move_to_random_neighbor)
  then show ?thesis using Some d a
    by (simp add: move_around_hw_def check_grid_initialization_def)
qed

text \<open>
  A tick of the disease model keeps the agreement of the grid and the agents, and so
  does every run of ticks.
\<close>

lemma same_places_keeps:
  assumes "same_places place_of a b"
    and "grid_consistent place_of a \<and> length (persons a) = n"
  shows "grid_consistent place_of b \<and> length (persons b) = n"
  using assms same_places_consistent same_places_length by metis

lemma grid_consistent_step_hw:
  assumes "grid_consistent cell s"
  shows "grid_consistent cell (state_of (step_hw s))"
proof -
  let ?P = "\<lambda>a :: model_hw. grid_consistent cell a \<and> length (persons a) = length (persons s)"
  have 1: "?P (state_of (do_each move_around_hw (all_agents s) s))"
  proof (rule do_each_inv[where P = ?P])
    fix x and a :: model_hw
    assume x: "x \<in> set (all_agents s)" and a: "?P a"
    have "x < length (persons a)" using x a by (simp add: all_agents_def)
    then have "grid_consistent cell (state_of (move_around_hw x a))"
      using a grid_consistent_move_around_hw by blast
    moreover have "length (persons (state_of (move_around_hw x a))) = length (persons a)"
      using frame_hw_move_around[of a x] by (simp add: frame_hw_def)
    ultimately show "?P (state_of (move_around_hw x a))" using a by simp
  qed (simp add: assms)
  have rest: "same_places cell a (state_of
      (and_then (do_each spread_virus (all_agents a) a) (\<lambda>s2.
       and_then (do_each get_infected_from_cell (all_agents s2) s2) (\<lambda>s3.
       Done (fold decay_cell (all_cells (grid_width s3) (grid_height s3)) s3)))))" for a
    apply (rule and_then_rel[where R = "same_places cell"], erule (1) same_places_trans)
     apply (rule do_each_rel[where R = "same_places cell"], rule same_places_refl,
        erule (1) same_places_trans, rule same_places_spread_virus)
    apply (rule and_then_rel[where R = "same_places cell"], erule (1) same_places_trans)
     apply (rule do_each_rel[where R = "same_places cell"], rule same_places_refl,
        erule (1) same_places_trans, rule same_places_get_infected_from_cell)
    apply simp
    apply (rule fold_rel[where R = "same_places cell"], rule same_places_refl,
        erule (1) same_places_trans, rule same_places_decay_cell)
    done
  have "?P (state_of (step_hw s))"
    unfolding step_hw_def
  proof (rule and_then_inv[where P = ?P])
    show "?P (state_of (do_each move_around_hw (all_agents s) s))" by (rule 1)
  next
    fix a :: model_hw
    assume "?P a"
    with rest[of a] show "?P (state_of
      (and_then (do_each spread_virus (all_agents a) a) (\<lambda>s2.
       and_then (do_each get_infected_from_cell (all_agents s2) s2) (\<lambda>s3.
       Done (fold decay_cell (all_cells (grid_width s3) (grid_height s3)) s3)))))"
      by (rule same_places_keeps)
  qed
  then show ?thesis by simp
qed

lemma grid_consistent_perform_step_hw:
  assumes "grid_consistent cell s"
  shows "grid_consistent cell (state_of (perform_step_hw s))"
proof -
  have "grid_consistent cell (s\<lparr>running := False\<rparr>)"
    using assms by (rule grid_consistent_same_places) simp_all
  then show ?thesis
    using assms by (simp add: perform_step_hw_def grid_consistent_step_hw)
qed

lemma grid_consistent_ticks_hw:
  "grid_consistent cell s \<Longrightarrow> grid_consistent cell (state_of (ticks perform_step_hw n s))"
  by (rule ticks_inv[where P = "grid_consistent cell"]) (rule grid_consistent_perform_step_hw)


subsection \<open>The trend model of laboratory_2\<close>

lemma same_places_learn_about_trend_l2: "same_places cell s (learn_about_trend_l2 j d s)"
  by (auto simp: same_places_def learn_about_trend_l2_def Let_def draw_uniform_def
      random_random_def list_eq_iff_nth_eq nth_update_if)

lemma same_places_interact_l2: "same_places cell s (interact_l2 j s)"
proof -
  have "same_places cell s (s\<lparr>direct_interactions_count := direct_interactions_count s + 1\<rparr>)"
    by (simp add: same_places_def)
  then show ?thesis
    unfolding interact_l2_def using same_places_learn_about_trend_l2 by (rule same_places_trans)
qed

lemma same_places_gossip_encountered_l2: "same_places cell s (gossip_encountered_l2 i j s)"
proof -
  obtain u s1 where d: "draw_uniform s = (u, s1)" by (cases "draw_uniform s")
  have a: "same_places cell s s1" using d by (rule same_places_draw)
  have b: "same_places cell s (interact_l2 j s1)"
    using a same_places_interact_l2 by (rule same_places_trans)
  show ?thesis using a b d
    by (simp add: gossip_encountered_l2_def same_places_refl same_places_interact_l2)
qed

lemma same_places_spread_news_l2: "same_places cell s (state_of (spread_news_l2 i s))"
proof (cases "cell (persons s ! i)")
  case None
  then show ?thesis
    by (simp add: spread_news_l2_def check_grid_initialization_def same_places_refl)
next
  case (Some c)
  have loop: "same_places cell a (fold (gossip_encountered_l2 i) xs a)" for a xs
    by (rule fold_rel[where R = "same_places cell"])
      (auto intro: same_places_refl same_places_trans same_places_gossip_encountered_l2)
  show ?thesis using Some
    by (simp add: spread_news_l2_def check_grid_initialization_def Let_def same_places_refl loop)
qed

lemma same_places_reach_follower: "same_places cell s (reach_follower k j s)"
proof -
  have "same_places cell s (s\<lparr>influencers := (influencers s)[k := (influencers s ! k)
             \<lparr>reached_followers_counter := reached_followers_counter (influencers s ! k) + 1\<rparr>],
          indirect_interactions_count := indirect_interactions_count s + 1\<rparr>)"
    by (simp add: same_places_def)
  then show ?thesis
    unfolding reach_follower_def using same_places_learn_about_trend_l2 by (rule same_places_trans)
qed

lemma same_places_spread_news_among_random_followers:
  "same_places cell s (spread_news_among_random_followers k followers s)"
  unfolding spread_news_among_random_followers_def
proof (rule fold_rel[where R = "same_places cell"])
  fix j and a :: model_l2
  obtain u s1 where d: "draw_uniform a = (u, s1)" by (cases "draw_uniform a")
  have x: "same_places cell a s1" using d by (rule same_places_draw)
  have y: "same_places cell a (reach_follower k j s1)"
    using x same_places_reach_follower by (rule same_places_trans)
  show "same_places cell a
          (case draw_uniform a of (u, s1) \<Rightarrow> if u < 0.5 then reach_follower k j s1 else s1)"
    using d x y by simp
qed (auto intro: same_places_refl same_places_trans)

lemma grid_consistent_move_around_l2:
  assumes "grid_consistent cell s" and "i < length (persons s)"
  shows "grid_consistent cell (state_of (move_around_l2 i s))"
  using assms
  by (cases "cell (persons s ! i)")
    (simp_all add: move_around_l2_def check_grid_initialization_def
      grid_consistent_move_to_random_neighbor)

lemma groupby_subset: "(k, g) \<in> set (groupby f xs) \<Longrightarrow> set g \<subseteq> set xs"
  by (auto simp: groupby_def)

lemma grid_consistent_moves_l2:
  assumes "grid_consistent cell a \<and> length (persons a) = n" and "\<forall>x \<in> set agents. x < n"
  shows "grid_consistent cell (state_of (do_each move_around_l2 agents a))
         \<and> length (persons (state_of (do_each move_around_l2 agents a))) = n"
proof (rule do_each_inv[where P = "\<lambda>a :: model_l2. grid_consistent cell a \<and> length (persons a) = n"])
  fix x and b :: model_l2
  assume x: "x \<in> set agents" and b: "grid_consistent cell b \<and> length (persons b) = n"
  have "x < length (persons b)" using x b assms(2) by simp
  then have "grid_consistent cell (state_of (move_around_l2 x b))"
    using b grid_consistent_move_around_l2 by blast
  moreover have "length (persons (state_of (move_around_l2 x b))) = length (persons b)"
    using frame_l2_move_around[of b x] by (simp add: frame_l2_def)
  ultimately show "grid_consistent cell (state_of (move_around_l2 x b))
                   \<and> length (persons (state_of (move_around_l2 x b))) = n"
    using b by simp
qed (rule assms(1))

lemma grid_consistent_influencer_agents_step:
  assumes "grid_consistent cell s"
  shows "grid_consistent cell (state_of (influencer_agents_step s))"
proof -
  let ?n = "length (persons s)"
  let ?P = "\<lambda>a :: model_l2. grid_consistent cell a \<and> length (persons a) = ?n"
  let ?regular = "filter (\<lambda>j. \<not> knows_about_trend (persons s ! j)) (all_agents s)"
  let ?groups = "groupby (\<lambda>j. sport_enthusiast (persons s ! j)) ?regular"
  let ?ks = "[0..<length (influencers s)]"
  have inner: "same_places cell a (fold (\<lambda>k. spread_news_among_random_followers k agents) ks a)"
    for a agents ks
    by (rule fold_rel[where R = "same_places cell"])
      (auto intro: same_places_refl same_places_trans
        same_places_spread_news_among_random_followers)
  have "?P (state_of (do_each
           (\<lambda>(enthusiast, agents) s'.
              if enthusiast
              then Done (fold (\<lambda>k. spread_news_among_random_followers k agents) ?ks s')
              else do_each move_around_l2 agents s')
           ?groups s))"
  proof (rule do_each_inv[where P = ?P])
    fix x and a :: model_l2
    assume x: "x \<in> set ?groups" and a: "?P a"
    obtain enthusiast agents where e: "x = (enthusiast, agents)" by (cases x)
    have "set agents \<subseteq> set ?regular"
      using x unfolding e by (rule groupby_subset)
    then have b: "\<forall>j \<in> set agents. j < ?n"
      by (auto simp: all_agents_def)
    show "?P (state_of ((case x of (enthusiast, agents) \<Rightarrow> \<lambda>s'.
              if enthusiast
              then Done (fold (\<lambda>k. spread_news_among_random_followers k agents) ?ks s')
              else do_each move_around_l2 agents s') a))"
    proof (cases enthusiast)
      case True
      have "?P (fold (\<lambda>k. spread_news_among_random_followers k agents) ?ks a)"
        using inner a by (rule same_places_keeps)
      then show ?thesis using True e by simp
    next
      case False
      have "?P (state_of (do_each move_around_l2 agents a))"
        using a b by (rule grid_consistent_moves_l2)
      then show ?thesis using False e by simp
    qed
  qed (simp add: assms)
  then show ?thesis
    by (simp add: influencer_agents_step_def Let_def)
qed

text \<open>A tick of the trend model of \<open>laboratory_2\<close> keeps the agreement, and so does every run.\<close>

lemma grid_consistent_step_l2:
  assumes "grid_consistent cell s"
  shows "grid_consistent cell (state_of (step_l2 s))"
proof -
  let ?n = "length (persons s)"
  let ?P = "\<lambda>a :: model_l2. grid_consistent cell a \<and> length (persons a) = ?n"
  have 1: "?P (state_of (do_each move_around_l2 (all_agents s) s))"
    by (rule grid_consistent_moves_l2) (simp_all add: assms all_agents_def)
  have 2: "same_places cell a (state_of (do_each spread_news_l2 xs a))" for a xs
    by (rule do_each_rel[where R = "same_places cell"])
      (auto intro: same_places_refl same_places_trans same_places_spread_news_l2)
  have 3: "?P (state_of (influencer_agents_step a))" if "?P a" for a
  proof -
    have "length (persons (state_of (influencer_agents_step a))) = length (persons a)"
      using frame_l2_influencer_agents_step[of a] by (simp add: frame_l2_def)
    then show ?thesis
      using that grid_consistent_influencer_agents_step[of a] by simp
  qed
  have "?P (state_of (step_l2 s))"
    unfolding step_l2_def
  proof (rule and_then_inv[where P = ?P])
    show "?P (state_of (do_each move_around_l2 (all_agents s) s))" by (rule 1)
  next
    fix a :: model_l2
    assume a: "?P a"
    show "?P (state_of (and_then (do_each spread_news_l2 (all_agents a) a) influencer_agents_step))"
    proof (rule and_then_inv[where P = ?P])
      show "?P (state_of (do_each spread_news_l2 (all_agents a) a))"
        using 2 a by (rule same_places_keeps)
    qed (rule 3)
  qed
  then show ?thesis by simp
qed

lemma grid_consistent_perform_step_l2:
  assumes "grid_consistent cell s"
  shows "grid_consistent cell (state_of (perform_step_l2 s))"
proof -
  have "grid_consistent cell (s\<lparr>running := False\<rparr>)"
    using assms by (rule grid_consistent_same_places) simp_all
  then show ?thesis
    using assms by (simp add: perform_step_l2_def grid_consistent_step_l2)
qed

lemma grid_consistent_ticks_l2:
  "grid_consistent cell s \<Longrightarrow> grid_consistent cell (state_of (ticks perform_step_l2 n s))"
  by (rule ticks_inv[where P = "grid_consistent cell"]) (rule grid_consistent_perform_step_l2)


subsection \<open>The trend model of laboratory1\<close>

lemma same_places_learn_about_trend_l1: "same_places pos s (learn_about_trend_l1 j s)"
  by (auto simp: same_places_def learn_about_trend_l1_def draw_uniform_def
      random_random_def list_eq_iff_nth_eq nth_update_if)

lemma same_places_gossip_encountered_l1: "same_places pos s (gossip_encountered_l1 i j s)"
proof -
  obtain u s1 where d: "draw_uniform s = (u, s1)" by (cases "draw_uniform s")
  have a: "same_places pos s s1" using d by (rule same_places_draw)
  have b: "same_places pos s (learn_about_trend_l1 j s1)"
    using a same_places_learn_about_trend_l1 by (rule same_places_trans)
  show ?thesis using a b d
    by (simp add: gossip_encountered_l1_def same_places_refl same_places_learn_about_trend_l1)
qed

lemma same_places_spread_news_l1: "same_places pos s (state_of (spread_news_l1 i s))"
proof -
  have loop: "same_places pos a (fold (gossip_encountered_l1 i) xs a)" for a xs
    by (rule fold_rel[where R = "same_places pos"])
      (auto intro: same_places_refl same_places_trans same_places_gossip_encountered_l1)
  show ?thesis
    by (simp add: spread_news_l1_def check_grid_initialization_l1_def Let_def same_places_refl
        loop split: option.splits)
qed

lemma same_places_spread_news_among_followers:
  "same_places pos s (spread_news_among_followers k followers s)"
  unfolding spread_news_among_followers_def
  by (rule fold_rel[where R = "same_places pos"])
    (auto intro: same_places_refl same_places_trans same_places_learn_about_trend_l1)

lemma grid_consistent_move_around_l1:
  assumes "grid_consistent pos s" and "i < length (persons s)"
  shows "grid_consistent pos (state_of (move_around_l1 i s))"
proof (cases "grid (persons s ! i)")
  case None
  then show ?thesis using assms(1)
    by (simp add: move_around_l1_def check_grid_initialization_l1_def)
next
  case g: (Some gr)
  show ?thesis
  proof (cases "pos (persons s ! i)")
    case None
    then show ?thesis using g assms(1)
      by (simp add: move_around_l1_def check_grid_initialization_l1_def)
  next
    case (Some c)
    show ?thesis
    proof (cases "random_choice (random_py s) (get_neighborhood (grid_width s) (grid_height s) c)")
      case None
      then show ?thesis using g Some assms(1)
        by (simp add: move_around_l1_def check_grid_initialization_l1_def)
    next
      case p: (Some p)
      obtain c' r where q: "p = (c', r)" by (cases p)
      have "grid_consistent pos (s\<lparr>random_py := r\<rparr>)"
        using same_places_random assms(1) by (rule same_places_consistent)
      then have "grid_consistent pos (state_of (move_agent i c' (s\<lparr>random_py := r\<rparr>)))"
        by (rule grid_consistent_move_agent(1)[where old = c]) (simp_all add: assms(2) Some)
      then show ?thesis using g Some p q
        by (simp add: move_around_l1_def check_grid_initialization_l1_def)
    qed
  qed
qed

lemma grid_consistent_moves_l1:
  assumes "grid_consistent pos a \<and> length (persons a) = n" and "\<forall>x \<in> set agents. x < n"
  shows "grid_consistent pos (state_of (do_each move_around_l1 agents a))
         \<and> length (persons (state_of (do_each move_around_l1 agents a))) = n"
proof (rule do_each_inv[where P = "\<lambda>a :: model_l1. grid_consistent pos a \<and> length (persons a) = n"])
  fix x and b :: model_l1
  assume x: "x \<in> set agents" and b: "grid_consistent pos b \<and> length (persons b) = n"
  have "x < length (persons b)" using x b assms(2) by simp
  then have "grid_consistent pos (state_of (move_around_l1 x b))"
    using b grid_consistent_move_around_l1 by blast
  moreover have "length (persons (state_of (move_around_l1 x b))) = length (persons b)"
    using frame_l1_move_around[of b x] by (simp add: frame_l1_def)
  ultimately show "grid_consistent pos (state_of (move_around_l1 x b))
                   \<and> length (persons (state_of (move_around_l1 x b))) = n"
    using b by simp
qed (rule assms(1))

text \<open>A tick of the trend model of \<open>laboratory1\<close> keeps the agreement, and so does every run.\<close>

lemma grid_consistent_step_l1:
  assumes "grid_consistent pos s"
  shows "grid_consistent pos (state_of (step_l1 s))"
proof -
  let ?n = "length (persons s)"
  let ?P = "\<lambda>a :: model_l1. grid_consistent pos a \<and> length (persons a) = ?n"
  have 1: "?P (state_of (do_each move_around_l1 (all_agents s) s))"
    by (rule grid_consistent_moves_l1) (simp_all add: assms all_agents_def)
  have 2: "same_places pos a (state_of (do_each spread_news_l1 xs a))" for a xs
    by (rule do_each_rel[where R = "same_places pos"])
      (auto intro: same_places_refl same_places_trans same_places_spread_news_l1)
  have inner: "same_places pos a (fold (\<lambda>k. spread_news_among_followers k agents) ks a)"
    for a agents ks
    by (rule fold_rel[where R = "same_places pos"])
      (auto intro: same_places_refl same_places_trans same_places_spread_news_among_followers)
  have 3: "?P (state_of (do_each
             (\<lambda>(enthusiast, agents) s'.
                if enthusiast
                then Done (fold (\<lambda>k. spread_news_among_followers k agents) ks s')
                else do_each move_around_l1 agents s')
             (groupby f (filter Q (all_agents a))) a))" if a: "?P a" for a ks f Q
  proof (rule do_each_inv[where P = ?P])
    fix x and b :: model_l1
    assume x: "x \<in> set (groupby f (filter Q (all_agents a)))" and b: "?P b"
    obtain enthusiast agents where e: "x = (enthusiast, agents)" by (cases x)
    have "set agents \<subseteq> set (filter Q (all_agents a))"
      using x unfolding e by (rule groupby_subset)
    then have c: "\<forall>j \<in> set agents. j < ?n"
      using a by (auto simp: all_agents_def)
    show "?P (state_of ((case x of (enthusiast, agents) \<Rightarrow> \<lambda>s'.
                if enthusiast
                then Done (fold (\<lambda>k. spread_news_among_followers k agents) ks s')
                else do_each move_around_l1 agents s') b))"
    proof (cases enthusiast)
      case True
      have "?P (fold (\<lambda>k. spread_news_among_followers k agents) ks b)"
        using inner b by (rule same_places_keeps)
      then show ?thesis using True e by simp
    next
      case False
      have "?P (state_of (do_each move_around_l1 agents b))"
        using b c by (rule grid_consistent_moves_l1)
      then show ?thesis using False e by simp
    qed
  qed (rule a)
  have "?P (state_of (step_l1 s))"
    unfolding step_l1_def Let_def
  proof (rule and_then_inv[where P = ?P])
    show "?P (state_of (do_each move_around_l1 (all_agents s) s))" by (rule 1)
  next
    fix a :: model_l1
    assume a: "?P a"
    show "?P (state_of (and_then (do_each spread_news_l1 (all_agents a) a)
             (\<lambda>s2. do_each
                (\<lambda>(enthusiast, agents) s'.
                   if enthusiast
                   then Done (fold (\<lambda>k. spread_news_among_followers k agents)
                                [0..<length (influencers_l1 s2)] s')
                   else do_each move_around_l1 agents s')
                (groupby (\<lambda>j. sport_enthusiast_l1 (persons s2 ! j))
                   (filter (\<lambda>j. \<not> knows_about_trend_l1 (persons s2 ! j)) (all_agents s2)))
                s2)))"
    proof (rule and_then_inv[where P = ?P])
      show "?P (state_of (do_each spread_news_l1 (all_agents a) a))"
        using 2 a by (rule same_places_keeps)
    qed (rule 3)
  qed
  then show ?thesis by simp
qed

lemma grid_consistent_perform_step_l1:
  assumes "grid_consistent pos s"
  shows "grid_consistent pos (state_of (perform_step_l1 s))"
proof -
  have "grid_consistent pos (s\<lparr>running := False\<rparr>)"
    using assms by (rule grid_consistent_same_places) simp_all
  then show ?thesis
    using assms by (simp add: perform_step_l1_def grid_consistent_step_l1)
qed

lemma grid_consistent_ticks_l1:
  "grid_consistent pos s \<Longrightarrow> grid_consistent pos (state_of (ticks perform_step_l1 n s))"
  by (rule ticks_inv[where P = "grid_consistent pos"]) (rule grid_consistent_perform_step_l1)

subsection \<open>The constructors\<close>

lemma grid_consistent_unplaced:
  assumes "cell_agents s = (\<lambda>c. [])" and "\<forall>a \<in> set (persons s). place_of a = None"
  shows "grid_consistent place_of s"
proof (rule grid_consistentI)
  show "distinct (cell_agents s c)" for c
    by (simp add: assms(1))
  show "j \<in> set (cell_agents s c)
          \<longleftrightarrow> j < length (persons s) \<and> place_of (persons s ! j) = Some c" for c j
    using assms(2) by (auto simp: assms(1))
qed

lemma grid_consistent_place:
  "grid_consistent cell s \<Longrightarrow> grid_consistent cell (state_of (place i xs ys s))"
proof (induction i xs ys s rule: place.induct)
  case (1 i x xs y ys s)
  show ?case
  proof (cases "i < length (persons s)")
    case True
    note c = grid_consistent_set_cell[OF 1(2) True, of "(x, y)"]
    show ?thesis
    proof (cases "set_cell i (x, y) s")
      case (Done s')
      then have "grid_consistent cell s'" using c(1) by simp
      then have "grid_consistent cell (state_of (place (Suc i) xs ys s'))"
        using 1(1)[OF True Done] by simp
      then show ?thesis using True Done by simp
    next
      case (Raised e s')
      then show ?thesis using c(2) by simp
    qed
  next
    case False
    then show ?thesis using 1(2) by simp
  qed
qed simp_all

lemma grid_consistent_place_agents_on_grid:
  assumes "grid_consistent cell s"
  shows "grid_consistent cell (state_of (place_agents_on_grid s))"
proof -
  have r: "grid_consistent cell (s\<lparr>rng := g\<rparr>)" for g
    using assms by (rule grid_consistent_same_places) simp_all
  show ?thesis
    using assms r
    by (simp add: place_agents_on_grid_def grid_consistent_place split: option.splits)
qed

lemma place_agents_on_grid_nonempty:
  assumes "place_agents_on_grid s = Done s'"
  shows "persons s' \<noteq> []"
proof -
  have "persons s \<noteq> []"
    using assms by (auto simp: place_agents_on_grid_def split: option.splits if_splits)
  moreover have "map (\<lambda>a. ()) (persons (state_of (place_agents_on_grid s))) = map (\<lambda>a. ()) (persons s)"
    by (rule place_agents_on_grid_persons) simp
  ultimately show ?thesis
    using assms by auto
qed

lemma place_grid:
  "grid_width (state_of (place i xs ys s)) = grid_width s
   \<and> grid_height (state_of (place i xs ys s)) = grid_height s"
  by (rule place_rel[where R = "\<lambda>a b. grid_width b = grid_width a \<and> grid_height b = grid_height a"])
    (auto simp: set_cell_def and_then_def remove_agent_def add_agent_def split: option.splits)

lemma place_agents_on_grid_grid:
  assumes "place_agents_on_grid s = Done s'"
  shows "grid_width s' = grid_width s \<and> grid_height s' = grid_height s
         \<and> 0 < grid_width s \<and> 0 < grid_height s"
proof -
  have "0 < grid_width s \<and> 0 < grid_height s"
    using assms
    by (auto simp: place_agents_on_grid_def rng_integers_def split: option.splits if_splits)
  moreover have "grid_width (state_of (place_agents_on_grid s)) = grid_width s
        \<and> grid_height (state_of (place_agents_on_grid s)) = grid_height s"
    using place_grid[of 0 _ _ "s\<lparr>rng := g\<rparr>" for g]
    by (simp add: place_agents_on_grid_def split: option.splits)
  ultimately show ?thesis using assms by simp
qed

text \<open>
  Every model that a constructor returns has at least one person, a grid of positive
  width and height, and a grid that agrees with its agents.
\<close>

lemma init_hw_sound:
  assumes "init_hw population infected comorbid p w h r g = Done s"
  shows "persons s \<noteq> []" and "grid_consistent cell s"
    and "grid_width s = w \<and> grid_height s = h \<and> 0 < w \<and> 0 < h"
proof -
  let ?s0 = "\<lparr>running = True, random_py = r, rng = g, population_size = population,
           grid_width = w, grid_height = h, persons = [], cell_agents = (\<lambda>c. []),
           infected_population_size = infected, comorbidities_population_size = comorbid,
           model_moving_probability = p,
           properties = (\<lambda>c. \<lparr>cell_is_infected = False, virus_persistence = 0\<rparr>),
           infected_property_layer = (\<lambda>c. False),
           direct_infections = 0, location_infections = 0\<rparr> :: model_hw"
  let ?s1 = "?s0\<lparr>persons := persons ?s0
            @ create_agents (infected_population_size ?s0)
                (new_person_hw True False (model_moving_probability ?s0))
            @ create_agents (comorbidities_population_size ?s0)
                (new_person_hw False True (model_moving_probability ?s0))
            @ create_agents
                (population_size ?s0 - infected_population_size ?s0 - comorbidities_population_size ?s0)
                (new_person_hw False False (model_moving_probability ?s0))\<rparr>"
  obtain s1 where g: "place_agents_on_grid ?s1 = Done s1"
    and s: "s = initialize_infected_property_layer s1"
    using assms
    by (cases "place_agents_on_grid ?s1")
      (auto simp: init_hw_def and_then_def generate_person_agents_hw_def)
  have "persons s1 \<noteq> []" using g by (rule place_agents_on_grid_nonempty)
  then show "persons s \<noteq> []"
    by (simp add: s initialize_infected_property_layer_def)
  have "grid_consistent cell ?s1"
    by (rule grid_consistent_unplaced) (auto simp: create_agents_def new_person_hw_def)
  then have "grid_consistent cell (state_of (place_agents_on_grid ?s1))"
    by (rule grid_consistent_place_agents_on_grid)
  then have "grid_consistent cell s1" using g by simp
  then show "grid_consistent cell s"
    unfolding s initialize_infected_property_layer_def
    by (rule grid_consistent_same_places) simp_all
  show "grid_width s = w \<and> grid_height s = h \<and> 0 < w \<and> 0 < h"
    using place_agents_on_grid_grid[OF g]
    by (simp add: s initialize_infected_property_layer_def)
qed


lemma init_l2_sound:
  assumes "init_l2 population influencer_group facilities w h r g = Done s"
  shows "persons s \<noteq> []" and "grid_consistent cell s"
    and "grid_width s = w \<and> grid_height s = h \<and> 0 < w \<and> 0 < h"
proof -
  let ?s0 = "\<lparr>running = True, random_py = r, rng = g, population_size = population,
           grid_width = w, grid_height = h, persons = [], cell_agents = (\<lambda>c. []),
           influencer_group_size = influencer_group, influencers = [],
           direct_interactions_count = 0, indirect_interactions_count = 0,
           successful_direct_interactions_count = 0,
           successful_indirect_interactions_count = 0,
           sport_facility = (\<lambda>c. None)\<rparr> :: model_l2"
  obtain s1 where g: "generate_person_agents_l2 ?s0 = Done s1"
    and s: "s = generate_influencer_agents_l2 s1"
    using assms by (cases "generate_person_agents_l2 ?s0") (auto simp: init_l2_def and_then_def)
  have pop: "1 \<le> population"
    using g by (auto simp: generate_person_agents_l2_def random_randint_def split: if_splits)
  let ?k = "1 + int (picks r 0 mod nat population)"
  let ?s1 = "?s0\<lparr>random_py := r\<lparr>picks := \<lambda>n. picks r (Suc n)\<rparr>,
                   persons := persons ?s0
                     @ create_agents ?k (new_person_l2 True False 0.5 0.5)
                     @ create_agents (population - ?k) (new_person_l2 False False 0.5 0.7)
                     @ [new_person_l2 True True 0.5 0.7],
                   population_size := population_size ?s0 + 1\<rparr>"
  have e: "generate_person_agents_l2 ?s0 = place_agents_on_grid ?s1"
    using pop by (simp add: generate_person_agents_l2_def random_randint_def Let_def)
  have p: "place_agents_on_grid ?s1 = Done s1" using g e by simp
  have "persons s1 \<noteq> []" using p by (rule place_agents_on_grid_nonempty)
  then show "persons s \<noteq> []"
    by (simp add: s generate_influencer_agents_l2_def)
  have "grid_consistent cell ?s1"
    by (rule grid_consistent_unplaced) (auto simp: create_agents_def new_person_l2_def)
  then have "grid_consistent cell (state_of (place_agents_on_grid ?s1))"
    by (rule grid_consistent_place_agents_on_grid)
  then have "grid_consistent cell s1" using p by simp
  then show "grid_consistent cell s"
    unfolding s generate_influencer_agents_l2_def
    by (rule grid_consistent_same_places) simp_all
  show "grid_width s = w \<and> grid_height s = h \<and> 0 < w \<and> 0 < h"
    using place_agents_on_grid_grid[OF p]
    by (simp add: s generate_influencer_agents_l2_def)
qed

lemma grid_consistent_place_agent:
  assumes "grid_consistent pos s" and "i < length (persons s)" and "pos (persons s ! i) = None"
  shows "grid_consistent pos (place_agent i c s)"
proof -
  note d = grid_consistentD[OF assms(1)]
  have e: "place_agent i c s =
             s\<lparr>persons := (persons s)[i := (persons s ! i)\<lparr>pos := Some c\<rparr>],
               cell_agents := (cell_agents s)(c := cell_agents s c @ [i])\<rparr>"
    using assms(3) by (simp add: place_agent_def add_agent_def)
  show ?thesis
    unfolding e
  proof (rule grid_consistent_arrival[where agents = "cell_agents s" and ps = "persons s"
        and i = i and c = c and a = "(persons s ! i)\<lparr>pos := Some c\<rparr>"])
    show "j \<in> set (cell_agents s d)
            \<longleftrightarrow> j \<noteq> i \<and> j < length (persons s) \<and> pos (persons s ! j) = Some d" for d j
      unfolding d(2) using assms(3) by auto
  qed (simp_all add: d(1) assms(2))
qed

lemma grid_consistent_place_l1:
  assumes "grid_consistent pos s"
    and "\<forall>j. i \<le> j \<and> j < length (persons s) \<longrightarrow> pos (persons s ! j) = None"
  shows "grid_consistent pos (place_l1 i xs ys s)"
  using assms
proof (induction i xs ys s rule: place_l1.induct)
  case (1 i x xs y ys s)
  show ?case
  proof (cases "i < length (persons s)")
    case True
    then have n: "pos (persons s ! i) = None" using 1(3) by simp
    let ?s' = "place_agent i (x, y) s"
    have e: "persons ?s' = (persons s)[i := (persons s ! i)\<lparr>pos := Some (x, y)\<rparr>]"
      using n by (simp add: place_agent_def add_agent_def)
    have a: "grid_consistent pos ?s'"
      using 1(2) True n by (rule grid_consistent_place_agent)
    have b: "\<forall>j. Suc i \<le> j \<and> j < length (persons ?s') \<longrightarrow> pos (persons ?s' ! j) = None"
      using 1(3) by (simp add: e)
    have "grid_consistent pos (place_l1 (Suc i) xs ys ?s')"
      using 1(1)[OF True a b] .
    then show ?thesis using True by simp
  next
    case False
    then show ?thesis using 1(2) by simp
  qed
qed simp_all

lemma init_l1_sound:
  assumes "init_l1 population influencer_group w h r g = Done s"
  shows "persons s \<noteq> []" and "grid_consistent pos s"
    and "grid_width s = w \<and> grid_height s = h \<and> 0 < w \<and> 0 < h"
proof -
  let ?s0 = "\<lparr>running = True, random_py = r, rng = g, population_size = population,
           grid_width = w, grid_height = h, persons = [], cell_agents = (\<lambda>c. []),
           influencer_group_size_l1 = influencer_group, influencers_l1 = []\<rparr> :: model_l1"
  obtain s1 where g: "generate_person_agents_l1 ?s0 = Done s1"
    and s: "s = generate_influencer_agents_l1 s1"
    using assms by (cases "generate_person_agents_l1 ?s0") (auto simp: init_l1_def and_then_def)
  have pop: "1 \<le> population"
    using g by (auto simp: generate_person_agents_l1_def random_randint_def split: if_splits)
  let ?k = "1 + int (picks r 0 mod nat population)"
  let ?s1 = "?s0\<lparr>random_py := r\<lparr>picks := \<lambda>n. picks r (Suc n)\<rparr>,
                   persons := persons ?s0
                     @ create_agents ?k (new_person_l1 True False 0.5 0.2)
                     @ create_agents (population - ?k) (new_person_l1 False False 0.5 0.2)
                     @ [new_person_l1 True True 0.5 0.2],
                   population_size := population_size ?s0 + 1\<rparr>"
  have e: "generate_person_agents_l1 ?s0 = place_agents_on_grid_l1 ?s1"
    using pop by (simp add: generate_person_agents_l1_def random_randint_def Let_def)
  have p: "place_agents_on_grid_l1 ?s1 = Done s1" using g e by simp
  obtain x_range y_range g2 where d: "0 < w \<and> 0 < h"
    and q: "s1 = place_l1 0 x_range y_range (?s1\<lparr>rng := g2\<rparr>)"
    using p
    by (auto simp: place_agents_on_grid_l1_def rng_integers_def split: option.splits if_splits)
  have u: "\<forall>a \<in> set (persons (?s1\<lparr>rng := g2\<rparr>)). pos a = None"
    by (auto simp: create_agents_def new_person_l1_def)
  have "grid_consistent pos (?s1\<lparr>rng := g2\<rparr>)"
    by (rule grid_consistent_unplaced) (use u in simp_all)
  moreover have "\<forall>j. 0 \<le> j \<and> j < length (persons (?s1\<lparr>rng := g2\<rparr>))
                   \<longrightarrow> pos (persons (?s1\<lparr>rng := g2\<rparr>) ! j) = None"
    using u nth_mem by blast
  ultimately have c: "grid_consistent pos s1"
    unfolding q by (rule grid_consistent_place_l1)
  have m: "map (\<lambda>a. ()) (persons s1) = map (\<lambda>a. ()) (persons (?s1\<lparr>rng := g2\<rparr>))"
    unfolding q by (rule map_place_l1) simp
  have "length (persons s1) = length (persons (?s1\<lparr>rng := g2\<rparr>))"
    using m by (rule map_eq_imp_length_eq)
  then have "persons s1 \<noteq> []" by auto
  then show "persons s \<noteq> []"
    by (simp add: s generate_influencer_agents_l1_def)
  show "grid_consistent pos s"
    unfolding s generate_influencer_agents_l1_def
    using c by (rule grid_consistent_same_places) simp_all
  have "grid_width (place_l1 i xs ys a) = grid_width a
        \<and> grid_height (place_l1 i xs ys a) = grid_height a" for i xs ys and a :: model_l1
    by (rule place_l1_rel[where R = "\<lambda>a b. grid_width b = grid_width a
          \<and> grid_height b = grid_height a"])
      (auto simp: place_agent_def add_agent_def)
  then have "grid_width s1 = w \<and> grid_height s1 = h"
    unfolding q by simp
  then show "grid_width s = w \<and> grid_height s = h \<and> 0 < w \<and> 0 < h"
    using d by (simp add: s generate_influencer_agents_l1_def)
qed

section \<open>Moving around\<close>

lemma set_first_occurrences: "set (first_occurrences xs) = set xs"
  by (simp add: first_occurrences_def)

lemma distinct_first_occurrences: "distinct (first_occurrences xs)"
  by (simp add: first_occurrences_def)

lemma set_neighborhood:
  "set (neighborhood w h (x, y)) =
     {((x - 1) mod w, y), (x, (y - 1) mod h), (x, (y + 1) mod h), ((x + 1) mod w, y)}"
  by (simp add: neighborhood_def von_neumann_def set_first_occurrences)

lemma distinct_neighborhood: "distinct (neighborhood w h c)"
  by (simp add: neighborhood_def distinct_first_occurrences)

lemma neighborhood_not_Nil: "neighborhood w h c \<noteq> []"
proof -
  obtain x y where c: "c = (x, y)" by (cases c)
  have "set (neighborhood w h c) \<noteq> {}"
    unfolding c set_neighborhood by simp
  then show ?thesis by auto
qed

lemma set_get_neighborhood:
  "set (get_neighborhood w h (x, y)) =
     {((x - 1) mod w, y), (x, (y - 1) mod h), (x, (y + 1) mod h), ((x + 1) mod w, y)} - {(x, y)}"
  by (auto simp: get_neighborhood_def von_neumann_def set_first_occurrences)

lemma distinct_get_neighborhood: "distinct (get_neighborhood w h c)"
  by (simp add: get_neighborhood_def distinct_first_occurrences)

lemma get_neighborhood_3_3_1_1: "get_neighborhood 3 3 (1, 1) = [(0, 1), (1, 0), (1, 2), (2, 1)]"
  by code_simp

lemma neighborhood_1_1: "neighborhood 1 1 (0, 0) = [(0, 0)]"
  by code_simp

lemma get_neighborhood_1_1: "get_neighborhood 1 1 (0, 0) = []"
  by code_simp

lemma neighborhood_2_2: "neighborhood 2 2 (0, 0) = [(1, 0), (0, 1)]"
  by code_simp

lemma neighborhood_1_3: "neighborhood 1 3 (0, 0) = [(0, 0), (0, 2), (0, 1)]"
  by code_simp

lemma nth_mod_mem: "xs \<noteq> [] \<Longrightarrow> xs ! (k mod length xs) \<in> set xs"
  by simp

lemma bij_betw_nth_distinct: "distinct xs \<Longrightarrow> bij_betw ((!) xs) {..<length xs} (set xs)"
  by (rule bij_betw_nth) simp_all

lemma move_around_hw_stays:
  assumes "cell (persons s ! i) = Some c"
    and "moving_probability (persons s ! i) \<le> uniforms (random_py s) 0"
  shows "move_around_hw i s
           = Done (s\<lparr>random_py := (random_py s)\<lparr>uniforms := \<lambda>n. uniforms (random_py s) (Suc n)\<rparr>\<rparr>)"
  using assms
  by (simp add: move_around_hw_def check_grid_initialization_def draw_uniform_def
      random_random_def)

lemma move_around_hw_moves:
  assumes "i < length (persons s)" and "cell (persons s ! i) = Some c"
    and "i \<in> set (cell_agents s c)"
    and "uniforms (random_py s) 0 < moving_probability (persons s ! i)"
    and "c' = neighborhood (grid_width s) (grid_height s) c
                ! (picks (random_py s) 0 mod length (neighborhood (grid_width s) (grid_height s) c))"
  shows "raised (move_around_hw i s) = None"
    and "cell (persons (state_of (move_around_hw i s)) ! i) = Some c'"
    and "cell_agents (state_of (move_around_hw i s)) =
           ((cell_agents s)(c := remove1 i (cell_agents s c)))
             (c' := ((cell_agents s)(c := remove1 i (cell_agents s c))) c' @ [i])"
proof -
  let ?s1 = "s\<lparr>random_py := (random_py s)\<lparr>uniforms := \<lambda>n. uniforms (random_py s) (Suc n)\<rparr>\<rparr>"
  let ?s2 = "?s1\<lparr>random_py := (random_py ?s1)\<lparr>picks := \<lambda>n. picks (random_py ?s1) (Suc n)\<rparr>\<rparr>"
  have "move_around_hw i s = set_cell i c' ?s2"
    using assms(2,4,5) neighborhood_not_Nil[of "grid_width s" "grid_height s" c]
    by (simp add: move_around_hw_def check_grid_initialization_def draw_uniform_def
        random_random_def move_to_random_neighbor_def random_choice_def move_to_def)
  moreover have "cell (persons ?s2 ! i) = Some c" "i \<in> set (cell_agents ?s2 c)"
    using assms(2,3) by simp_all
  ultimately have e: "move_around_hw i s =
           Done (?s2\<lparr>persons := (persons ?s2)[i := (persons ?s2 ! i)\<lparr>cell := Some c'\<rparr>],
                   cell_agents := ((cell_agents ?s2)(c := remove1 i (cell_agents ?s2 c)))
                     (c' := ((cell_agents ?s2)(c := remove1 i (cell_agents ?s2 c))) c' @ [i])\<rparr>)"
    using set_cell_moves[of ?s2 i c c'] by simp
  show "raised (move_around_hw i s) = None" by (simp add: e)
  show "cell (persons (state_of (move_around_hw i s)) ! i) = Some c'"
    using assms(1) by (simp add: e)
  show "cell_agents (state_of (move_around_hw i s)) =
           ((cell_agents s)(c := remove1 i (cell_agents s c)))
             (c' := ((cell_agents s)(c := remove1 i (cell_agents s c))) c' @ [i])"
    by (simp add: e)
qed

lemma move_around_l2_moves:
  assumes "i < length (persons s)" and "cell (persons s ! i) = Some c"
    and "i \<in> set (cell_agents s c)"
    and "c' = neighborhood (grid_width s) (grid_height s) c
                ! (picks (random_py s) 0 mod length (neighborhood (grid_width s) (grid_height s) c))"
  shows "raised (move_around_l2 i s) = None"
    and "cell (persons (state_of (move_around_l2 i s)) ! i) = Some c'"
    and "cell_agents (state_of (move_around_l2 i s)) =
           ((cell_agents s)(c := remove1 i (cell_agents s c)))
             (c' := ((cell_agents s)(c := remove1 i (cell_agents s c))) c' @ [i])"
    and "uniforms (random_py (state_of (move_around_l2 i s))) = uniforms (random_py s)"
proof -
  let ?s2 = "s\<lparr>random_py := (random_py s)\<lparr>picks := \<lambda>n. picks (random_py s) (Suc n)\<rparr>\<rparr>"
  have "move_around_l2 i s = set_cell i c' ?s2"
    using assms(2,4) neighborhood_not_Nil[of "grid_width s" "grid_height s" c]
    by (simp add: move_around_l2_def check_grid_initialization_def
        move_to_random_neighbor_def random_choice_def move_to_def)
  moreover have "cell (persons ?s2 ! i) = Some c" "i \<in> set (cell_agents ?s2 c)"
    using assms(2,3) by simp_all
  ultimately have e: "move_around_l2 i s =
           Done (?s2\<lparr>persons := (persons ?s2)[i := (persons ?s2 ! i)\<lparr>cell := Some c'\<rparr>],
                   cell_agents := ((cell_agents ?s2)(c := remove1 i (cell_agents ?s2 c)))
                     (c' := ((cell_agents ?s2)(c := remove1 i (cell_agents ?s2 c))) c' @ [i])\<rparr>)"
    using set_cell_moves[of ?s2 i c c'] by simp
  show "raised (move_around_l2 i s) = None" by (simp add: e)
  show "cell (persons (state_of (move_around_l2 i s)) ! i) = Some c'"
    using assms(1) by (simp add: e)
  show "cell_agents (state_of (move_around_l2 i s)) =
           ((cell_agents s)(c := remove1 i (cell_agents s c)))
             (c' := ((cell_agents s)(c := remove1 i (cell_agents s c))) c' @ [i])"
    by (simp add: e)
  show "uniforms (random_py (state_of (move_around_l2 i s))) = uniforms (random_py s)"
    by (simp add: e)
qed

lemma move_around_l1_moves:
  assumes "i < length (persons s)" and "grid (persons s ! i) = Some gr"
    and "pos (persons s ! i) = Some c" and "i \<in> set (cell_agents s c)"
    and "get_neighborhood (grid_width s) (grid_height s) c \<noteq> []"
    and "c' = get_neighborhood (grid_width s) (grid_height s) c
                ! (picks (random_py s) 0 mod length (get_neighborhood (grid_width s) (grid_height s) c))"
  shows "raised (move_around_l1 i s) = None"
    and "pos (persons (state_of (move_around_l1 i s)) ! i) = Some c'"
    and "cell_agents (state_of (move_around_l1 i s)) =
           ((cell_agents s)(c := remove1 i (cell_agents s c)))
             (c' := ((cell_agents s)(c := remove1 i (cell_agents s c))) c' @ [i])"
    and "uniforms (random_py (state_of (move_around_l1 i s))) = uniforms (random_py s)"
proof -
  let ?s2 = "s\<lparr>random_py := (random_py s)\<lparr>picks := \<lambda>n. picks (random_py s) (Suc n)\<rparr>\<rparr>"
  have "move_around_l1 i s = move_agent i c' ?s2"
    using assms(2,3,5,6)
    by (simp add: move_around_l1_def check_grid_initialization_l1_def random_choice_def)
  moreover have "pos (persons ?s2 ! i) = Some c" "i \<in> set (cell_agents ?s2 c)"
    "i < length (persons ?s2)"
    using assms(1,3,4) by simp_all
  ultimately have e: "move_around_l1 i s =
           Done (?s2\<lparr>persons := (persons ?s2)[i := (persons ?s2 ! i)\<lparr>pos := Some c'\<rparr>],
                   cell_agents := ((cell_agents ?s2)(c := remove1 i (cell_agents ?s2 c)))
                     (c' := ((cell_agents ?s2)(c := remove1 i (cell_agents ?s2 c))) c' @ [i])\<rparr>)"
    using move_agent_moves[of ?s2 i c c'] by simp
  show "raised (move_around_l1 i s) = None" by (simp add: e)
  show "pos (persons (state_of (move_around_l1 i s)) ! i) = Some c'"
    using assms(1) by (simp add: e)
  show "cell_agents (state_of (move_around_l1 i s)) =
           ((cell_agents s)(c := remove1 i (cell_agents s c)))
             (c' := ((cell_agents s)(c := remove1 i (cell_agents s c))) c' @ [i])"
    by (simp add: e)
  show "uniforms (random_py (state_of (move_around_l1 i s))) = uniforms (random_py s)"
    by (simp add: e)
qed

lemma move_around_l1_nowhere:
  assumes "grid (persons s ! i) = Some gr" and "pos (persons s ! i) = Some c"
    and "get_neighborhood (grid_width s) (grid_height s) c = []"
  shows "move_around_l1 i s = Raised FrameworkError s"
  using assms
  by (simp add: move_around_l1_def check_grid_initialization_l1_def random_choice_def)

text \<open>
  Claim C4, amended. The move takes the agent to a cell of the von Neumann neighbourhood
  of its cell on the torus, the one that \<open>random.choice\<close> picks from the list of the
  distinct cells of that neighbourhood: every one of them is the outcome of exactly one
  index of the list, which makes the choice uniform. In the disease model the agent moves
  exactly when a uniform draw is below its \<open>moving_probability\<close>, and nothing changes but
  the random source otherwise. In the two trend models there is no such draw and no
  moving probability: the agent always moves. A move takes the agent off the list of its
  cell, on which it stands wherever the grid and the agents agree, and puts it last on
  the list of the new cell. In \<open>homework\<close> and \<open>laboratory_2\<close>
  the neighbourhood is never empty and holds the four cells one step away along an axis,
  the agent's own cell among them on a grid of width or height 1; in \<open>laboratory1\<close> the
  own cell is left out, and where no cell remains the move fails inside the framework.
\<close>

theorem move_around_relocation:
  "(i < length (persons h) \<and> cell (persons h ! i) = Some c \<and> i \<in> set (cell_agents h c) \<longrightarrow>
      (moving_probability (persons h ! i) \<le> uniforms (random_py h) 0 \<longrightarrow>
         move_around_hw i h
           = Done (h\<lparr>random_py := (random_py h)\<lparr>uniforms := \<lambda>n. uniforms (random_py h) (Suc n)\<rparr>\<rparr>)
         \<and> cell (persons (state_of (move_around_hw i h)) ! i) = Some c)
      \<and> (uniforms (random_py h) 0 < moving_probability (persons h ! i) \<longrightarrow>
         raised (move_around_hw i h) = None
         \<and> cell (persons (state_of (move_around_hw i h)) ! i) =
             Some (neighborhood (grid_width h) (grid_height h) c
                     ! (picks (random_py h) 0 mod length (neighborhood (grid_width h) (grid_height h) c)))
         \<and> cell (persons (state_of (move_around_hw i h)) ! i)
             \<in> Some ` set (neighborhood (grid_width h) (grid_height h) c)
         \<and> cell_agents (state_of (move_around_hw i h)) =
             arrival i c
               (neighborhood (grid_width h) (grid_height h) c
                  ! (picks (random_py h) 0 mod length (neighborhood (grid_width h) (grid_height h) c)))
               (cell_agents h)))
   \<and> (i < length (persons t) \<and> cell (persons t ! i) = Some c \<and> i \<in> set (cell_agents t c) \<longrightarrow>
         raised (move_around_l2 i t) = None
         \<and> cell (persons (state_of (move_around_l2 i t)) ! i) =
             Some (neighborhood (grid_width t) (grid_height t) c
                     ! (picks (random_py t) 0 mod length (neighborhood (grid_width t) (grid_height t) c)))
         \<and> cell (persons (state_of (move_around_l2 i t)) ! i)
             \<in> Some ` set (neighborhood (grid_width t) (grid_height t) c)
         \<and> cell_agents (state_of (move_around_l2 i t)) =
             arrival i c
               (neighborhood (grid_width t) (grid_height t) c
                  ! (picks (random_py t) 0 mod length (neighborhood (grid_width t) (grid_height t) c)))
               (cell_agents t)
         \<and> uniforms (random_py (state_of (move_around_l2 i t))) = uniforms (random_py t))
   \<and> (i < length (persons u) \<and> grid (persons u ! i) = Some gr \<and> pos (persons u ! i) = Some c
       \<and> i \<in> set (cell_agents u c)
       \<and> get_neighborhood (grid_width u) (grid_height u) c \<noteq> [] \<longrightarrow>
         raised (move_around_l1 i u) = None
         \<and> pos (persons (state_of (move_around_l1 i u)) ! i) =
             Some (get_neighborhood (grid_width u) (grid_height u) c
                     ! (picks (random_py u) 0
                          mod length (get_neighborhood (grid_width u) (grid_height u) c)))
         \<and> pos (persons (state_of (move_around_l1 i u)) ! i)
             \<in> Some ` set (get_neighborhood (grid_width u) (grid_height u) c)
         \<and> cell_agents (state_of (move_around_l1 i u)) =
             arrival i c
               (get_neighborhood (grid_width u) (grid_height u) c
                  ! (picks (random_py u) 0
                       mod length (get_neighborhood (grid_width u) (grid_height u) c)))
               (cell_agents u)
         \<and> uniforms (random_py (state_of (move_around_l1 i u))) = uniforms (random_py u))
   \<and> (grid (persons u ! i) = Some gr \<and> pos (persons u ! i) = Some c
       \<and> get_neighborhood (grid_width u) (grid_height u) c = [] \<longrightarrow>
         move_around_l1 i u = Raised FrameworkError u)
   \<and> set (neighborhood w hh (x, y)) =
        {((x - 1) mod w, y), (x, (y - 1) mod hh), (x, (y + 1) mod hh), ((x + 1) mod w, y)}
   \<and> set (get_neighborhood w hh (x, y)) =
        {((x - 1) mod w, y), (x, (y - 1) mod hh), (x, (y + 1) mod hh), ((x + 1) mod w, y)} - {(x, y)}
   \<and> bij_betw ((!) (neighborhood w hh (x, y))) {..<length (neighborhood w hh (x, y))}
        (set (neighborhood w hh (x, y)))
   \<and> bij_betw ((!) (get_neighborhood w hh (x, y))) {..<length (get_neighborhood w hh (x, y))}
        (set (get_neighborhood w hh (x, y)))
   \<and> neighborhood w hh (x, y) \<noteq> []"
proof (intro conjI impI)
  assume a: "i < length (persons h) \<and> cell (persons h ! i) = Some c \<and> i \<in> set (cell_agents h c)"
  {
    assume b: "moving_probability (persons h ! i) \<le> uniforms (random_py h) 0"
    show e: "move_around_hw i h
           = Done (h\<lparr>random_py := (random_py h)\<lparr>uniforms := \<lambda>n. uniforms (random_py h) (Suc n)\<rparr>\<rparr>)"
      using a b move_around_hw_stays by blast
    show "cell (persons (state_of (move_around_hw i h)) ! i) = Some c"
      using a by (simp add: e)
  }
  {
    assume b: "uniforms (random_py h) 0 < moving_probability (persons h ! i)"
    let ?c' = "neighborhood (grid_width h) (grid_height h) c
                 ! (picks (random_py h) 0 mod length (neighborhood (grid_width h) (grid_height h) c))"
    note m = move_around_hw_moves[of i h c ?c', OF _ _ _ b refl]
    show "raised (move_around_hw i h) = None"
      using a by (intro m(1)) simp_all
    show p: "cell (persons (state_of (move_around_hw i h)) ! i) = Some ?c'"
      using a by (intro m(2)) simp_all
    show "cell (persons (state_of (move_around_hw i h)) ! i)
             \<in> Some ` set (neighborhood (grid_width h) (grid_height h) c)"
      unfolding p by (intro imageI nth_mod_mem neighborhood_not_Nil)
    show "cell_agents (state_of (move_around_hw i h)) = arrival i c ?c' (cell_agents h)"
      unfolding arrival_def using a by (intro m(3)) simp_all
  }
next
  assume a: "i < length (persons t) \<and> cell (persons t ! i) = Some c \<and> i \<in> set (cell_agents t c)"
  let ?c' = "neighborhood (grid_width t) (grid_height t) c
               ! (picks (random_py t) 0 mod length (neighborhood (grid_width t) (grid_height t) c))"
  note m = move_around_l2_moves[of i t c ?c', OF _ _ _ refl]
  show "raised (move_around_l2 i t) = None"
    using a by (intro m(1)) simp_all
  show p: "cell (persons (state_of (move_around_l2 i t)) ! i) = Some ?c'"
    using a by (intro m(2)) simp_all
  show "cell (persons (state_of (move_around_l2 i t)) ! i)
             \<in> Some ` set (neighborhood (grid_width t) (grid_height t) c)"
    unfolding p by (intro imageI nth_mod_mem neighborhood_not_Nil)
  show "cell_agents (state_of (move_around_l2 i t)) = arrival i c ?c' (cell_agents t)"
    unfolding arrival_def using a by (intro m(3)) simp_all
  show "uniforms (random_py (state_of (move_around_l2 i t))) = uniforms (random_py t)"
    using a by (intro m(4)) simp_all
next
  assume a: "i < length (persons u) \<and> grid (persons u ! i) = Some gr \<and> pos (persons u ! i) = Some c
       \<and> i \<in> set (cell_agents u c)
       \<and> get_neighborhood (grid_width u) (grid_height u) c \<noteq> []"
  let ?c' = "get_neighborhood (grid_width u) (grid_height u) c
               ! (picks (random_py u) 0
                    mod length (get_neighborhood (grid_width u) (grid_height u) c))"
  note m = move_around_l1_moves[of i u gr c ?c', OF _ _ _ _ _ refl]
  show "raised (move_around_l1 i u) = None"
    using a by (intro m(1)) simp_all
  show p: "pos (persons (state_of (move_around_l1 i u)) ! i) = Some ?c'"
    using a by (intro m(2)) simp_all
  show "pos (persons (state_of (move_around_l1 i u)) ! i)
             \<in> Some ` set (get_neighborhood (grid_width u) (grid_height u) c)"
    unfolding p using a by (intro imageI nth_mod_mem) simp
  show "cell_agents (state_of (move_around_l1 i u)) = arrival i c ?c' (cell_agents u)"
    unfolding arrival_def using a by (intro m(3)) simp_all
  show "uniforms (random_py (state_of (move_around_l1 i u))) = uniforms (random_py u)"
    using a by (intro m(4)) simp_all
next
  assume "grid (persons u ! i) = Some gr \<and> pos (persons u ! i) = Some c
       \<and> get_neighborhood (grid_width u) (grid_height u) c = []"
  then show "move_around_l1 i u = Raised FrameworkError u"
    using move_around_l1_nowhere by blast
next
  show "set (neighborhood w hh (x, y)) =
        {((x - 1) mod w, y), (x, (y - 1) mod hh), (x, (y + 1) mod hh), ((x + 1) mod w, y)}"
    by (rule set_neighborhood)
  show "set (get_neighborhood w hh (x, y)) =
        {((x - 1) mod w, y), (x, (y - 1) mod hh), (x, (y + 1) mod hh), ((x + 1) mod w, y)} - {(x, y)}"
    by (rule set_get_neighborhood)
  show "bij_betw ((!) (neighborhood w hh (x, y))) {..<length (neighborhood w hh (x, y))}
        (set (neighborhood w hh (x, y)))"
    by (rule bij_betw_nth_distinct) (rule distinct_neighborhood)
  show "bij_betw ((!) (get_neighborhood w hh (x, y))) {..<length (get_neighborhood w hh (x, y))}
        (set (get_neighborhood w hh (x, y)))"
    by (rule bij_betw_nth_distinct) (rule distinct_get_neighborhood)
  show "neighborhood w hh (x, y) \<noteq> []"
    by (rule neighborhood_not_Nil)
qed

lemma example_hw_random: "random_py example_hw = \<lparr>uniforms = (\<lambda>n. 9 / 10), picks = (\<lambda>n. 0)\<rparr>"
  by (simp add: example_hw_def)

lemma example_l1_random: "random_py example_l1 = \<lparr>uniforms = (\<lambda>n. 1 / 10), picks = (\<lambda>n. 0)\<rparr>"
  by (simp add: example_l1_def)

lemma example_l2_grid: "grid_width example_l2 = 3" "grid_height example_l2 = 3"
  by (simp_all add: example_l2_def)

lemma example_l1_grid: "grid_width example_l1 = 3" "grid_height example_l1 = 3"
  by (simp_all add: example_l1_def)

lemma example_hw_cell_agents:
  "cell_agents example_hw = (\<lambda>c. if c = (1, 1) then [0, 1] else [])"
  by (simp add: example_hw_def)

lemma example_l2_cell_agents:
  "cell_agents example_l2 = (\<lambda>c. if c = (1, 1) then [0, 1] else [])"
  by (simp add: example_l2_def)

lemma example_l1_cell_agents:
  "cell_agents example_l1 = (\<lambda>c. if c = (1, 1) then [0, 1] else [])"
  by (simp add: example_l1_def)

lemma example_l2_one_cell_fields:
  "persons example_l2_one_cell =
          [\<lparr>cell = Some (0, 0), sport_enthusiast = True, trend_gossip_counter = 0,
            knows_about_trend = True, gossip_prob = 1 / 2, skepticism_prob = 7 / 10\<rparr>,
           \<lparr>cell = Some (0, 0), sport_enthusiast = False, trend_gossip_counter = 0,
            knows_about_trend = False, gossip_prob = 1 / 2, skepticism_prob = 7 / 10\<rparr>]"
  "cell_agents example_l2_one_cell = (\<lambda>c. if c = (0, 0) then [0, 1] else [])"
  "grid_width example_l2_one_cell = 1" "grid_height example_l2_one_cell = 1"
  "random_py example_l2_one_cell = \<lparr>uniforms = (\<lambda>n. 1 / 10), picks = (\<lambda>n. 0)\<rparr>"
  by (simp_all add: example_l2_one_cell_def example_l2_def)

lemma example_l1_one_cell_fields:
  "persons example_l1_one_cell =
          [\<lparr>grid = Some ModelGrid, pos = Some (0, 0), sport_enthusiast_l1 = True,
            knows_about_trend_l1 = True, gossip_prob_l1 = 1 / 2, skepticism_prob_l1 = 1 / 5\<rparr>,
           \<lparr>grid = Some ModelGrid, pos = Some (0, 0), sport_enthusiast_l1 = False,
            knows_about_trend_l1 = False, gossip_prob_l1 = 1 / 2, skepticism_prob_l1 = 1 / 5\<rparr>]"
  "cell_agents example_l1_one_cell = (\<lambda>c. if c = (0, 0) then [0, 1] else [])"
  "grid_width example_l1_one_cell = 1" "grid_height example_l1_one_cell = 1"
  by (simp_all add: example_l1_one_cell_def example_l1_def)

theorem move_around_relocation_witness:
  "cell (persons example_hw ! 0) = Some (1, 1) \<and> 0 \<in> set (cell_agents example_hw (1, 1))
   \<and> moving_probability (persons example_hw ! 0) \<le> uniforms (random_py example_hw) 0
   \<and> cell (persons (state_of (move_around_hw 0 example_hw)) ! 0) = Some (1, 1)
   \<and> uniforms (random_py (example_hw\<lparr>random_py := \<lparr>uniforms = (\<lambda>n. 1 / 10), picks = (\<lambda>n. 0)\<rparr>\<rparr>)) 0
        < moving_probability (persons example_hw ! 0)
   \<and> cell (persons (state_of (move_around_hw 0
        (example_hw\<lparr>random_py := \<lparr>uniforms = (\<lambda>n. 1 / 10), picks = (\<lambda>n. 0)\<rparr>\<rparr>))) ! 0) = Some (0, 1)
   \<and> cell (persons example_l2 ! 0) = Some (1, 1) \<and> 0 \<in> set (cell_agents example_l2 (1, 1))
   \<and> cell (persons (state_of (move_around_l2 0 example_l2)) ! 0) = Some (0, 1)
   \<and> cell_agents (state_of (move_around_l2 0 example_l2)) (1, 1) = [1]
   \<and> cell_agents (state_of (move_around_l2 0 example_l2)) (0, 1) = [0]
   \<and> pos (persons example_l1 ! 0) = Some (1, 1) \<and> 0 \<in> set (cell_agents example_l1 (1, 1))
   \<and> pos (persons (state_of (move_around_l1 0 example_l1)) ! 0) = Some (0, 1)
   \<and> cell (persons example_l2_one_cell ! 0) = Some (0, 0)
   \<and> 0 \<in> set (cell_agents example_l2_one_cell (0, 0))
   \<and> raised (move_around_l2 0 example_l2_one_cell) = None
   \<and> cell (persons (state_of (move_around_l2 0 example_l2_one_cell)) ! 0) = Some (0, 0)
   \<and> cell_agents (state_of (move_around_l2 0 example_l2_one_cell)) (0, 0) = [1, 0]
   \<and> pos (persons example_l1_one_cell ! 0) = Some (0, 0)
   \<and> move_around_l1 0 example_l1_one_cell = Raised FrameworkError example_l1_one_cell
   \<and> set (neighborhood 2 2 (0, 0)) = {(1, 0), (0, 1)}"
proof -
  let ?e = "example_hw\<lparr>random_py := \<lparr>uniforms = (\<lambda>n. 1 / 10), picks = (\<lambda>n. 0)\<rparr>\<rparr>"
  note a = move_around_relocation[where i = 0 and h = example_hw and c = "(1, 1)"
      and t = example_l2 and u = example_l1 and gr = ModelGrid]
  note b = move_around_relocation[where i = 0 and h = ?e and c = "(1, 1)"]
  note d = move_around_relocation[where i = 0 and c = "(0, 0)"
      and t = example_l2_one_cell and u = example_l1_one_cell and gr = ModelGrid
      and w = 2 and hh = 2 and x = 0 and y = 0]
  note a_hw = a[THEN conjunct1]
  note a_l2 = a[THEN conjunct2, THEN conjunct1]
  note a_l1 = a[THEN conjunct2, THEN conjunct2, THEN conjunct1]
  note b_hw = b[THEN conjunct1]
  note d_l2 = d[THEN conjunct2, THEN conjunct1]
  note d_l1 = d[THEN conjunct2, THEN conjunct2, THEN conjunct2, THEN conjunct1]
  note d_set = d[THEN conjunct2, THEN conjunct2, THEN conjunct2, THEN conjunct2, THEN conjunct1]
  have 1: "cell (persons (state_of (move_around_hw 0 example_hw)) ! 0) = Some (1, 1)"
    using a_hw by (simp add: example_hw_persons example_hw_random example_hw_cell_agents)
  have 2: "cell (persons (state_of (move_around_hw 0 ?e)) ! 0) = Some (0, 1)"
    using b_hw
    by (simp add: example_hw_persons example_hw_grid example_hw_cell_agents neighborhood_3_3_1_1)
  have 3: "cell (persons (state_of (move_around_l2 0 example_l2)) ! 0) = Some (0, 1)"
    "cell_agents (state_of (move_around_l2 0 example_l2)) (1, 1) = [1]"
    "cell_agents (state_of (move_around_l2 0 example_l2)) (0, 1) = [0]"
    using a_l2
    by (simp_all add: example_l2_persons example_l2_grid example_l2_random example_l2_cell_agents
        neighborhood_3_3_1_1 arrival_def)
  have 4: "pos (persons (state_of (move_around_l1 0 example_l1)) ! 0) = Some (0, 1)"
    using a_l1
    by (simp add: example_l1_persons example_l1_grid example_l1_random example_l1_cell_agents
        get_neighborhood_3_3_1_1)
  have 5: "raised (move_around_l2 0 example_l2_one_cell) = None"
    "cell (persons (state_of (move_around_l2 0 example_l2_one_cell)) ! 0) = Some (0, 0)"
    "cell_agents (state_of (move_around_l2 0 example_l2_one_cell)) (0, 0) = [1, 0]"
    using d_l2
    by (simp_all add: example_l2_one_cell_fields neighborhood_1_1 arrival_def)
  have 6: "move_around_l1 0 example_l1_one_cell = Raised FrameworkError example_l1_one_cell"
    using d_l1
    by (simp add: example_l1_one_cell_fields get_neighborhood_1_1)
  have 7: "set (neighborhood 2 2 (0, 0)) = {(1, 0), (0, 1)}"
    using d_set by auto
  show ?thesis
    using 1 2 3 4 5 6 7
    by (simp add: example_hw_persons example_hw_random example_l2_persons example_l1_persons
        example_hw_cell_agents example_l2_cell_agents example_l1_cell_agents
        example_l2_one_cell_fields example_l1_one_cell_fields)
qed

text \<open>
  Claim C4 as stated has the move of every variant be a no-op with probability
  \<open>1 - p_move\<close>. In \<open>laboratory_2\<close> no state of the random source leaves the first agent
  of the example on its cell.
\<close>

theorem move_around_l2_counterexample:
  "\<not> (\<exists>r. cell (persons (state_of (move_around_l2 0 (example_l2\<lparr>random_py := r\<rparr>))) ! 0)
           = cell (persons example_l2 ! 0))"
proof
  assume "\<exists>r. cell (persons (state_of (move_around_l2 0 (example_l2\<lparr>random_py := r\<rparr>))) ! 0)
           = cell (persons example_l2 ! 0)"
  then obtain r where
    a: "cell (persons (state_of (move_around_l2 0 (example_l2\<lparr>random_py := r\<rparr>))) ! 0) = Some (1, 1)"
    by (auto simp: example_l2_persons)
  let ?s = "example_l2\<lparr>random_py := r\<rparr>"
  have "cell (persons (state_of (move_around_l2 0 ?s)) ! 0) =
          Some ([(0, 1), (1, 0), (1, 2), (2, 1)] ! (picks r 0 mod 4))"
    by (rule move_around_l2_moves(2)[of 0 ?s "(1, 1)"])
      (simp_all add: example_l2_persons example_l2_grid example_l2_cell_agents neighborhood_3_3_1_1)
  then have "[(0, 1), (1, 0), (1, 2), (2, 1)] ! (picks r 0 mod 4) = (1 :: int, 1 :: int)"
    using a by simp
  moreover have "[(0, 1), (1, 0), (1, 2), (2, 1)] ! (picks r 0 mod 4)
                   \<in> set [(0 :: int, 1 :: int), (1, 0), (1, 2), (2, 1)]"
    by (rule nth_mem) simp
  ultimately show False by simp
qed

section \<open>The grid-not-initialized error\<close>

lemma all_agents_Cons: "0 < length (persons s) \<Longrightarrow> all_agents s = 0 # [1..<length (persons s)]"
  by (simp add: all_agents_def upt_conv_Cons)

lemma unplaced_hw:
  assumes "cell (persons s ! i) = None"
  shows "move_around_hw i s = Raised (GridNotInitialized ''The agent cannot move around the grid.'') s"
    and "spread_virus i s = Raised (GridNotInitialized ''The agent cannot spread the virus.'') s"
    and "get_infected_from_cell i s
           = Raised (GridNotInitialized ''The agent cannot get infected from the cell.'') s"
    and "get_infection_probabilty i s
           = Inl (GridNotInitialized ''The agent cannot get infection probability'')"
    and "in_neighbourhood_of_infection i s
           = Inl (GridNotInitialized ''The agent cannot check if neighbouring cells are infected'')"
  using assms
  by (simp_all add: move_around_hw_def spread_virus_def get_infected_from_cell_def
      get_infection_probabilty_def in_neighbourhood_of_infection_def check_grid_initialization_def)

lemma placed_hw_probability:
  assumes "cell (persons s ! i) = Some c"
  shows "get_infection_probabilty i s \<noteq> Inl (GridNotInitialized m)"
    and "in_neighbourhood_of_infection i s \<noteq> Inl (GridNotInitialized m)"
  using assms
  by (simp_all add: get_infection_probabilty_def in_neighbourhood_of_infection_def
      check_grid_initialization_def)

lemma placed_hw:
  assumes "cell (persons s ! i) = Some c"
  shows "raised (move_around_hw i s) \<noteq> Some (GridNotInitialized m)"
    and "raised (spread_virus i s) \<noteq> Some (GridNotInitialized m)"
    and "raised (get_infected_from_cell i s) \<noteq> Some (GridNotInitialized m)"
proof -
  show "raised (move_around_hw i s) \<noteq> Some (GridNotInitialized m)"
    using assms
    by (auto simp: move_around_hw_def check_grid_initialization_def move_to_random_neighbor_def
        move_to_def set_cell_def and_then_def remove_agent_def
        split: prod.splits option.splits)
  show "raised (spread_virus i s) \<noteq> Some (GridNotInitialized m)"
    using assms by (simp add: spread_virus_def check_grid_initialization_def Let_def)
  obtain u s1 where d: "draw_uniform s = (u, s1)" by (cases "draw_uniform s")
  then have "cell (persons s1 ! i) = Some c"
    using assms by (auto simp: draw_uniform_def random_random_def)
  then have "get_infection_probabilty i s1 \<noteq> Inl (GridNotInitialized m)"
    by (rule placed_hw_probability(1))
  then show "raised (get_infected_from_cell i s) \<noteq> Some (GridNotInitialized m)"
    using assms d
    by (cases "get_infection_probabilty i s1")
      (auto simp: get_infected_from_cell_def check_grid_initialization_def
        get_infection_probabilty_def in_neighbourhood_of_infection_def split: if_splits)
qed

lemma unplaced_l2:
  assumes "cell (persons s ! i) = None"
  shows "move_around_l2 i s = Raised (GridNotInitialized ''The agent cannot move around the grid.'') s"
    and "spread_news_l2 i s = Raised (GridNotInitialized ''The agent cannot spread the news.'') s"
  using assms
  by (simp_all add: move_around_l2_def spread_news_l2_def check_grid_initialization_def)

lemma placed_l2:
  assumes "cell (persons s ! i) = Some c"
  shows "raised (move_around_l2 i s) \<noteq> Some (GridNotInitialized m)"
    and "raised (spread_news_l2 i s) \<noteq> Some (GridNotInitialized m)"
  using assms
  by (auto simp: move_around_l2_def spread_news_l2_def check_grid_initialization_def
      move_to_random_neighbor_def move_to_def set_cell_def and_then_def remove_agent_def Let_def
      split: option.splits)

text \<open>
  In \<open>laboratory1\<close> the check tests the agent's reference to the grid, not its position:
  the error is raised exactly when that reference is \<open>None\<close>.
\<close>

lemma grid_guard_l1:
  "grid (persons s ! i) = None \<Longrightarrow>
     move_around_l1 i s = Raised (GridNotInitialized ''The agent cannot move around the grid.'') s
     \<and> spread_news_l1 i s = Raised (GridNotInitialized ''The agent cannot spread the news.'') s"
  "grid (persons s ! i) = Some gr \<Longrightarrow>
     raised (move_around_l1 i s) \<noteq> Some (GridNotInitialized m)
     \<and> raised (spread_news_l1 i s) \<noteq> Some (GridNotInitialized m)"
  by (auto simp: move_around_l1_def spread_news_l1_def check_grid_initialization_l1_def
      move_agent_def remove_agent_l1_def remove_agent_def and_then_def Let_def
      split: option.splits)

text \<open>
  An agent of \<open>laboratory1\<close> that holds the grid but has not been placed passes the check;
  its move then fails inside the framework's neighbourhood query, and its spreading inside
  the query for the agents of its position when it knows the trend.
\<close>

lemma without_position_l1:
  assumes "grid (persons s ! i) = Some gr" and "pos (persons s ! i) = None"
  shows "move_around_l1 i s = Raised FrameworkError s"
    and "knows_about_trend_l1 (persons s ! i) \<Longrightarrow> spread_news_l1 i s = Raised FrameworkError s"
    and "\<not> knows_about_trend_l1 (persons s ! i) \<Longrightarrow> spread_news_l1 i s = Done s"
  using assms
  by (simp_all add: move_around_l1_def spread_news_l1_def check_grid_initialization_l1_def)

lemma do_each_first_raises: "f x s = Raised e s' \<Longrightarrow> do_each f (x # xs) s = Raised e s'"
  by simp

lemma perform_step_hw_unplaced_first:
  assumes "0 < length (persons s)" and "cell (persons s ! 0) = None" and "uninfected_count s \<noteq> 0"
  shows "perform_step_hw s
           = Raised (GridNotInitialized ''The agent cannot move around the grid.'') s"
  using assms
  by (simp add: perform_step_hw_def uninfected_count_def step_hw_def all_agents_Cons
      unplaced_hw(1) and_then_def)

lemma perform_step_l2_unplaced_first:
  assumes "0 < length (persons s)" and "cell (persons s ! 0) = None" and "uninformed_count_l2 s \<noteq> 0"
  shows "perform_step_l2 s
           = Raised (GridNotInitialized ''The agent cannot move around the grid.'') s"
  using assms
  by (simp add: perform_step_l2_def uninformed_count_l2_def step_l2_def all_agents_Cons
      unplaced_l2(1) and_then_def)

text \<open>
  Claim C8, amended. In \<open>homework\<close> and \<open>laboratory_2\<close> every spatial operation (moving,
  the neighbour query and the infection probability built on it, spreading, acquiring the
  infection from the cell) starts with the check of the agent's cell reference. When the
  reference is unset the operation raises the grid-not-initialized error at once and leaves
  the whole state, the random source included, as it found it; the loop over the agents
  and the step hand the error on to their caller (nothing in the repository catches it).
  When the reference is set, the operation never raises this error. In \<open>laboratory1\<close>
  the check tests the agent's reference to the grid and not its position: the same holds
  for that reference, and an agent that holds the grid but has no position does not raise
  the grid-not-initialized error. Its move, and its spreading when it knows the trend, fail
  inside the framework with another error, the state left as it was.
\<close>

theorem grid_not_initialized:
  "(cell (persons h ! i) = None \<longrightarrow>
      move_around_hw i h = Raised (GridNotInitialized ''The agent cannot move around the grid.'') h
      \<and> spread_virus i h = Raised (GridNotInitialized ''The agent cannot spread the virus.'') h
      \<and> get_infected_from_cell i h
           = Raised (GridNotInitialized ''The agent cannot get infected from the cell.'') h
      \<and> get_infection_probabilty i h
           = Inl (GridNotInitialized ''The agent cannot get infection probability'')
      \<and> in_neighbourhood_of_infection i h
           = Inl (GridNotInitialized ''The agent cannot check if neighbouring cells are infected''))
   \<and> (cell (persons h ! i) \<noteq> None \<longrightarrow>
      raised (move_around_hw i h) \<noteq> Some (GridNotInitialized m)
      \<and> raised (spread_virus i h) \<noteq> Some (GridNotInitialized m)
      \<and> raised (get_infected_from_cell i h) \<noteq> Some (GridNotInitialized m)
      \<and> get_infection_probabilty i h \<noteq> Inl (GridNotInitialized m)
      \<and> in_neighbourhood_of_infection i h \<noteq> Inl (GridNotInitialized m))
   \<and> (cell (persons t ! i) = None \<longrightarrow>
      move_around_l2 i t = Raised (GridNotInitialized ''The agent cannot move around the grid.'') t
      \<and> spread_news_l2 i t = Raised (GridNotInitialized ''The agent cannot spread the news.'') t)
   \<and> (cell (persons t ! i) \<noteq> None \<longrightarrow>
      raised (move_around_l2 i t) \<noteq> Some (GridNotInitialized m)
      \<and> raised (spread_news_l2 i t) \<noteq> Some (GridNotInitialized m))
   \<and> (grid (persons u ! i) = None \<longrightarrow>
      move_around_l1 i u = Raised (GridNotInitialized ''The agent cannot move around the grid.'') u
      \<and> spread_news_l1 i u = Raised (GridNotInitialized ''The agent cannot spread the news.'') u)
   \<and> (grid (persons u ! i) \<noteq> None \<longrightarrow>
      raised (move_around_l1 i u) \<noteq> Some (GridNotInitialized m)
      \<and> raised (spread_news_l1 i u) \<noteq> Some (GridNotInitialized m))
   \<and> (grid (persons u ! i) \<noteq> None \<and> pos (persons u ! i) = None \<longrightarrow>
      move_around_l1 i u = Raised FrameworkError u
      \<and> spread_news_l1 i u
          = (if knows_about_trend_l1 (persons u ! i) then Raised FrameworkError u else Done u))
   \<and> (0 < length (persons h) \<and> cell (persons h ! 0) = None \<and> uninfected_count h \<noteq> 0 \<longrightarrow>
      perform_step_hw h = Raised (GridNotInitialized ''The agent cannot move around the grid.'') h)
   \<and> (0 < length (persons t) \<and> cell (persons t ! 0) = None \<and> uninformed_count_l2 t \<noteq> 0 \<longrightarrow>
      perform_step_l2 t = Raised (GridNotInitialized ''The agent cannot move around the grid.'') t)
   \<and> (move_around_hw i h = Raised e h' \<longrightarrow>
      do_each move_around_hw (i # agents) h = Raised e h'
      \<and> and_then (do_each move_around_hw (i # agents) h) later = Raised e h')"
proof (intro conjI impI)
  assume a: "cell (persons h ! i) = None"
  show "move_around_hw i h = Raised (GridNotInitialized ''The agent cannot move around the grid.'') h"
    using a by (rule unplaced_hw(1))
  show "spread_virus i h = Raised (GridNotInitialized ''The agent cannot spread the virus.'') h"
    using a by (rule unplaced_hw(2))
  show "get_infected_from_cell i h
           = Raised (GridNotInitialized ''The agent cannot get infected from the cell.'') h"
    using a by (rule unplaced_hw(3))
  show "get_infection_probabilty i h
           = Inl (GridNotInitialized ''The agent cannot get infection probability'')"
    using a by (rule unplaced_hw(4))
  show "in_neighbourhood_of_infection i h
           = Inl (GridNotInitialized ''The agent cannot check if neighbouring cells are infected'')"
    using a by (rule unplaced_hw(5))
next
  assume "cell (persons h ! i) \<noteq> None"
  then obtain c where a: "cell (persons h ! i) = Some c" by blast
  show "raised (move_around_hw i h) \<noteq> Some (GridNotInitialized m)"
    using a by (rule placed_hw(1))
  show "raised (spread_virus i h) \<noteq> Some (GridNotInitialized m)"
    using a by (rule placed_hw(2))
  show "raised (get_infected_from_cell i h) \<noteq> Some (GridNotInitialized m)"
    using a by (rule placed_hw(3))
  show "get_infection_probabilty i h \<noteq> Inl (GridNotInitialized m)"
    using a by (rule placed_hw_probability(1))
  show "in_neighbourhood_of_infection i h \<noteq> Inl (GridNotInitialized m)"
    using a by (rule placed_hw_probability(2))
next
  assume a: "cell (persons t ! i) = None"
  show "move_around_l2 i t = Raised (GridNotInitialized ''The agent cannot move around the grid.'') t"
    using a by (rule unplaced_l2(1))
  show "spread_news_l2 i t = Raised (GridNotInitialized ''The agent cannot spread the news.'') t"
    using a by (rule unplaced_l2(2))
next
  assume "cell (persons t ! i) \<noteq> None"
  then obtain c where a: "cell (persons t ! i) = Some c" by blast
  show "raised (move_around_l2 i t) \<noteq> Some (GridNotInitialized m)"
    using a by (rule placed_l2(1))
  show "raised (spread_news_l2 i t) \<noteq> Some (GridNotInitialized m)"
    using a by (rule placed_l2(2))
next
  assume a: "grid (persons u ! i) = None"
  show "move_around_l1 i u = Raised (GridNotInitialized ''The agent cannot move around the grid.'') u"
    using grid_guard_l1(1)[OF a] by blast
  show "spread_news_l1 i u = Raised (GridNotInitialized ''The agent cannot spread the news.'') u"
    using grid_guard_l1(1)[OF a] by blast
next
  assume "grid (persons u ! i) \<noteq> None"
  then obtain gr where a: "grid (persons u ! i) = Some gr" by blast
  show "raised (move_around_l1 i u) \<noteq> Some (GridNotInitialized m)"
    using grid_guard_l1(2)[OF a] by blast
  show "raised (spread_news_l1 i u) \<noteq> Some (GridNotInitialized m)"
    using grid_guard_l1(2)[OF a] by blast
next
  assume "grid (persons u ! i) \<noteq> None \<and> pos (persons u ! i) = None"
  then obtain gr where a: "grid (persons u ! i) = Some gr" and b: "pos (persons u ! i) = None"
    by blast
  show "move_around_l1 i u = Raised FrameworkError u"
    using a b by (rule without_position_l1(1))
  show "spread_news_l1 i u
          = (if knows_about_trend_l1 (persons u ! i) then Raised FrameworkError u else Done u)"
    using without_position_l1(2,3)[OF a b] by simp
next
  assume "0 < length (persons h) \<and> cell (persons h ! 0) = None \<and> uninfected_count h \<noteq> 0"
  then show "perform_step_hw h = Raised (GridNotInitialized ''The agent cannot move around the grid.'') h"
    using perform_step_hw_unplaced_first by blast
next
  assume "0 < length (persons t) \<and> cell (persons t ! 0) = None \<and> uninformed_count_l2 t \<noteq> 0"
  then show "perform_step_l2 t = Raised (GridNotInitialized ''The agent cannot move around the grid.'') t"
    using perform_step_l2_unplaced_first by blast
next
  assume a: "move_around_hw i h = Raised e h'"
  show b: "do_each move_around_hw (i # agents) h = Raised e h'"
    using a by simp
  show "and_then (do_each move_around_hw (i # agents) h) later = Raised e h'"
    by (simp only: b) (simp add: and_then_def)
qed

lemma example_l1_newcomer_persons:
  "persons example_l1_newcomer ! 3 =
     \<lparr>grid = Some ModelGrid, pos = None, sport_enthusiast_l1 = True,
      knows_about_trend_l1 = True, gossip_prob_l1 = 1 / 2, skepticism_prob_l1 = 1 / 5\<rparr>"
  by (simp add: example_l1_newcomer_def example_l1_persons new_person_l1_def)

theorem grid_not_initialized_witness:
  "cell (persons example_hw ! 2) = None
   \<and> move_around_hw 2 example_hw
       = Raised (GridNotInitialized ''The agent cannot move around the grid.'') example_hw
   \<and> do_each move_around_hw [2, 0] example_hw
       = Raised (GridNotInitialized ''The agent cannot move around the grid.'') example_hw
   \<and> cell (persons example_hw ! 0) \<noteq> None
   \<and> raised (spread_virus 0 example_hw) \<noteq> Some (GridNotInitialized [])
   \<and> cell (persons example_l2 ! 2) = None
   \<and> spread_news_l2 2 example_l2
       = Raised (GridNotInitialized ''The agent cannot spread the news.'') example_l2
   \<and> cell (persons example_l2 ! 0) \<noteq> None
   \<and> raised (move_around_l2 0 example_l2) \<noteq> Some (GridNotInitialized [])
   \<and> grid (persons example_l1 ! 2) = None
   \<and> move_around_l1 2 example_l1
       = Raised (GridNotInitialized ''The agent cannot move around the grid.'') example_l1
   \<and> grid (persons example_l1 ! 0) \<noteq> None
   \<and> raised (move_around_l1 0 example_l1) \<noteq> Some (GridNotInitialized [])
   \<and> grid (persons example_l1_newcomer ! 3) \<noteq> None
   \<and> pos (persons example_l1_newcomer ! 3) = None
   \<and> move_around_l1 3 example_l1_newcomer = Raised FrameworkError example_l1_newcomer
   \<and> spread_news_l1 3 example_l1_newcomer = Raised FrameworkError example_l1_newcomer
   \<and> perform_step_hw (example_hw\<lparr>persons := [persons example_hw ! 2], cell_agents := (\<lambda>c. [])\<rparr>)
       = Raised (GridNotInitialized ''The agent cannot move around the grid.'')
           (example_hw\<lparr>persons := [persons example_hw ! 2], cell_agents := (\<lambda>c. [])\<rparr>)
   \<and> perform_step_l2 (example_l2\<lparr>persons := [persons example_l2 ! 2], cell_agents := (\<lambda>c. [])\<rparr>)
       = Raised (GridNotInitialized ''The agent cannot move around the grid.'')
           (example_l2\<lparr>persons := [persons example_l2 ! 2], cell_agents := (\<lambda>c. [])\<rparr>)"
proof -
  let ?h = "example_hw\<lparr>persons := [persons example_hw ! 2], cell_agents := (\<lambda>c. [])\<rparr>"
  let ?t = "example_l2\<lparr>persons := [persons example_l2 ! 2], cell_agents := (\<lambda>c. [])\<rparr>"
  note a = grid_not_initialized[where i = 2 and h = example_hw and t = example_l2
      and u = example_l1 and agents = "[0]"
      and e = "GridNotInitialized ''The agent cannot move around the grid.''"
      and h' = example_hw]
  note b = grid_not_initialized[where i = 0 and h = example_hw and t = example_l2
      and u = example_l1 and m = "[]"]
  note c = grid_not_initialized[where h = ?h and t = ?t]
  note d = grid_not_initialized[where i = 3 and u = example_l1_newcomer]
  have n: "cell (persons example_hw ! 2) = None" "cell (persons example_l2 ! 2) = None"
    "grid (persons example_l1 ! 2) = None"
    by (simp_all add: example_hw_persons example_l2_persons example_l1_persons)
  have p: "cell (persons example_hw ! 0) \<noteq> None" "cell (persons example_l2 ! 0) \<noteq> None"
    "grid (persons example_l1 ! 0) \<noteq> None"
    by (simp_all add: example_hw_persons example_l2_persons example_l1_persons)
  have q: "0 < length (persons ?h) \<and> cell (persons ?h ! 0) = None \<and> uninfected_count ?h \<noteq> 0"
    "0 < length (persons ?t) \<and> cell (persons ?t ! 0) = None \<and> uninformed_count_l2 ?t \<noteq> 0"
    by (simp_all add: example_hw_persons example_l2_persons uninfected_count_def
        uninformed_count_l2_def)
  have r: "grid (persons example_l1_newcomer ! 3) \<noteq> None"
    "pos (persons example_l1_newcomer ! 3) = None"
    "knows_about_trend_l1 (persons example_l1_newcomer ! 3)"
    by (simp_all add: example_l1_newcomer_persons)
  have 1: "move_around_hw 2 example_hw
       = Raised (GridNotInitialized ''The agent cannot move around the grid.'') example_hw"
    using a n by blast
  have 2: "do_each move_around_hw [2, 0] example_hw
       = Raised (GridNotInitialized ''The agent cannot move around the grid.'') example_hw"
    using a 1 by blast
  have 3: "spread_news_l2 2 example_l2
       = Raised (GridNotInitialized ''The agent cannot spread the news.'') example_l2"
    using a n by blast
  have 4: "move_around_l1 2 example_l1
       = Raised (GridNotInitialized ''The agent cannot move around the grid.'') example_l1"
    using a n by blast
  have 5: "raised (spread_virus 0 example_hw) \<noteq> Some (GridNotInitialized [])"
    "raised (move_around_l2 0 example_l2) \<noteq> Some (GridNotInitialized [])"
    "raised (move_around_l1 0 example_l1) \<noteq> Some (GridNotInitialized [])"
    using b p by blast+
  have 6: "perform_step_hw ?h
       = Raised (GridNotInitialized ''The agent cannot move around the grid.'') ?h"
    using c q(1) by blast
  have 7: "perform_step_l2 ?t
       = Raised (GridNotInitialized ''The agent cannot move around the grid.'') ?t"
    using c q(2) by blast
  have 8: "move_around_l1 3 example_l1_newcomer = Raised FrameworkError example_l1_newcomer"
    "spread_news_l1 3 example_l1_newcomer = Raised FrameworkError example_l1_newcomer"
    using d r by simp_all
  show ?thesis
    using n p r(1,2) 1 2 3 4 5 6 7 8 by blast
qed

text \<open>
  Claim C8 as stated has every spatial operation raise the grid-not-initialized error on
  an agent whose position is unset. The fourth agent of this \<open>laboratory1\<close> model holds
  the grid and has no position: its move and its spreading fail inside the framework,
  with an error that is not the grid-not-initialized error.
\<close>

theorem position_unset_l1_counterexample:
  "pos (persons example_l1_newcomer ! 3) = None
   \<and> move_around_l1 3 example_l1_newcomer = Raised FrameworkError example_l1_newcomer
   \<and> spread_news_l1 3 example_l1_newcomer = Raised FrameworkError example_l1_newcomer
   \<and> (\<forall>m. raised (move_around_l1 3 example_l1_newcomer) \<noteq> Some (GridNotInitialized m))
   \<and> (\<forall>m. raised (spread_news_l1 3 example_l1_newcomer) \<noteq> Some (GridNotInitialized m))"
proof -
  have a: "grid (persons example_l1_newcomer ! 3) = Some ModelGrid"
    and b: "pos (persons example_l1_newcomer ! 3) = None"
    and c: "knows_about_trend_l1 (persons example_l1_newcomer ! 3)"
    by (simp_all add: example_l1_newcomer_persons)
  have 1: "move_around_l1 3 example_l1_newcomer = Raised FrameworkError example_l1_newcomer"
    using a b by (rule without_position_l1(1))
  have 2: "spread_news_l1 3 example_l1_newcomer = Raised FrameworkError example_l1_newcomer"
    using a b c by (rule without_position_l1(2))
  show ?thesis
    using b by (simp add: 1 2)
qed

section \<open>Direct transmission\<close>


















lemma example_l2_crowd_fields:
  "persons example_l2_crowd =
          [\<lparr>cell = Some (1, 1), sport_enthusiast = True, trend_gossip_counter = 0,
            knows_about_trend = True, gossip_prob = 1 / 2, skepticism_prob = 7 / 10\<rparr>,
           \<lparr>cell = Some (1, 1), sport_enthusiast = False, trend_gossip_counter = 0,
            knows_about_trend = False, gossip_prob = 1 / 2, skepticism_prob = 7 / 10\<rparr>,
           \<lparr>cell = Some (1, 1), sport_enthusiast = False, trend_gossip_counter = 0,
            knows_about_trend = False, gossip_prob = 1 / 2, skepticism_prob = 7 / 10\<rparr>]"
  "cell_agents example_l2_crowd = (\<lambda>c. if c = (1, 1) then [0, 2, 1] else [])"
  "random_py example_l2_crowd
     = \<lparr>uniforms = (\<lambda>n. if n = 0 then 1 / 10 else 9 / 10), picks = (\<lambda>n. 0)\<rparr>"
  "direct_interactions_count example_l2_crowd = 0"
  "successful_direct_interactions_count example_l2_crowd = 0"
  by (simp_all add: example_l2_crowd_def example_l2_def)

lemma example_l1_crowd_fields:
  "persons example_l1_crowd =
          [\<lparr>grid = Some ModelGrid, pos = Some (1, 1), sport_enthusiast_l1 = True,
            knows_about_trend_l1 = True, gossip_prob_l1 = 1 / 2, skepticism_prob_l1 = 1 / 5\<rparr>,
           \<lparr>grid = Some ModelGrid, pos = Some (1, 1), sport_enthusiast_l1 = False,
            knows_about_trend_l1 = False, gossip_prob_l1 = 1 / 2, skepticism_prob_l1 = 1 / 5\<rparr>,
           \<lparr>grid = Some ModelGrid, pos = Some (1, 1), sport_enthusiast_l1 = False,
            knows_about_trend_l1 = False, gossip_prob_l1 = 1 / 2, skepticism_prob_l1 = 1 / 5\<rparr>]"
  "cell_agents example_l1_crowd = (\<lambda>c. if c = (1, 1) then [0, 2, 1] else [])"
  "random_py example_l1_crowd
     = \<lparr>uniforms = (\<lambda>n. if n < 2 then 1 / 10 else 9 / 10), picks = (\<lambda>n. 0)\<rparr>"
  by (simp_all add: example_l1_crowd_def example_l1_def)

text \<open>A state with three agents, all on the cell (1, 1) and all on its list, is consistent.\<close>

lemma crowd_consistent:
  assumes "length (persons s) = 3"
    and "place_of (persons s ! 0) = Some (1, 1)" and "place_of (persons s ! 1) = Some (1, 1)"
    and "place_of (persons s ! 2) = Some (1, 1)"
    and "cell_agents s = (\<lambda>c. if c = (1, 1) then [0, 2, 1] else [])"
  shows "grid_consistent place_of s"
proof -
  have l: "j < length (persons s) \<longleftrightarrow> j = 0 \<or> j = 1 \<or> j = 2" for j
    unfolding assms(1) by auto
  have "{j. j < length (persons s) \<and> place_of (persons s ! j) = Some c}
          = (if c = (1, 1) then {0, 1, 2} else {})" for c
  proof (cases "c = (1, 1)")
    case True
    then show ?thesis unfolding l using assms(2-4) by auto
  next
    case False
    have "place_of (persons s ! j) \<noteq> Some c" if "j = 0 \<or> j = 1 \<or> j = 2" for j
      using that assms(2-4) False by auto
    then have "\<not> (j < length (persons s) \<and> place_of (persons s ! j) = Some c)" for j
      using l[of j] by blast
    then show ?thesis using False by simp
  qed
  then show ?thesis
    unfolding grid_consistent_def assms(5) by auto
qed


lemma example_l2_crowd_consistent: "grid_consistent cell example_l2_crowd"
  by (rule crowd_consistent) (simp_all add: example_l2_crowd_fields)

lemma example_l1_crowd_consistent: "grid_consistent pos example_l1_crowd"
  by (rule crowd_consistent) (simp_all add: example_l1_crowd_fields)



end
